theory Spec2Isabelle
  imports Complex_Main "HOL-Library.Word"
begin

section \<open>Rigid-body NVE integration (TwoStepNVERigid.cc)\<close>

text \<open>
  A shallow embedding of \<^verbatim>\<open>src/libhoomd/updaters/TwoStepNVERigid.cc\<close>.

  \<^item> \<^verbatim>\<open>Scalar\<close> is modelled as \<open>real\<close>: rounding, infinities and NaN are outside the
    model. A quotient whose divisor is zero (a zero body mass, a zero time step, a zero
    quaternion norm) is inf or NaN in C++ and \<open>0\<close> in HOL; theorems that speak about the
    value of a quotient are to be read for a nonzero divisor.
  \<^item> \<^verbatim>\<open>int\<close> image counters are 32-bit words read as signed with \<open>sint\<close>; \<open>+ 1\<close> and \<open>- 1\<close> wrap, where C++
    leaves the overflow undefined.
  \<^item> \<^verbatim>\<open>unsigned int\<close> indices and counts are \<open>nat\<close>: they index arrays that exist.
  \<^item> Every \<^verbatim>\<open>GPUArray\<close> and particle array is a store \<open>nat \<Rightarrow> 'a\<close>, read with \<open>a i\<close> and
    written with \<open>a(i := v)\<close>; array bounds are outside the model.
  \<^item> A failed \<^verbatim>\<open>assert\<close> is the error value \<open>AssertionFailed\<close>.
  \<^item> The profiler calls (\<^verbatim>\<open>m_prof\<close>) have no effect on the simulation and are left out.
\<close>

subsection \<open>Data\<close>

record Scalar4 =
  sx :: real
  sy :: real
  sz :: real
  sw :: real

record BoxDim =
  xlo :: real
  xhi :: real
  ylo :: real
  yhi :: real
  zlo :: real
  zhi :: real

type_synonym cint = "32 word"

datatype error = AssertionFailed

definition bind_err :: "error + 'a \<Rightarrow> ('a \<Rightarrow> error + 'b) \<Rightarrow> error + 'b" where
  "bind_err r f = (case r of Inl e \<Rightarrow> Inl e | Inr v \<Rightarrow> f v)"

text \<open>
  Modelled from the spec: the class \<^verbatim>\<open>RigidBodyGroup\<close> is not in src/. The spec (4.1)
  says it holds the rigid-body indices whose constituent particles lie in a particle
  group, and "exposes membership test and ordered member enumeration". The enumeration is
  the list \<open>member_idx\<close>; reading it out of range is a failed assertion.
\<close>

record RigidBodyGroup =
  member_idx :: "nat list"

text \<open>Modelled from the spec: the number of members of the enumeration (4.1).\<close>

definition getNumMembers :: "RigidBodyGroup \<Rightarrow> nat" where
  "getNumMembers g = length (member_idx g)"

text \<open>Modelled from the spec: the "membership test" of 4.1.\<close>

definition isMember :: "RigidBodyGroup \<Rightarrow> nat \<Rightarrow> bool" where
  "isMember g body = (body \<in> set (member_idx g))"

text \<open>Modelled from the spec: the "ordered member enumeration" of 4.1, read at one
  position; a position past the end is a failed assertion.\<close>

definition getMemberIndex :: "RigidBodyGroup \<Rightarrow> nat \<Rightarrow> error + nat" where
  "getMemberIndex g i = (if i < getNumMembers g then Inr (member_idx g ! i) else Inl AssertionFailed)"

text \<open>
  The bodies visited by \<^verbatim>\<open>for (group_idx = 0; group_idx < n; group_idx++)
  body = getMemberIndex(group_idx)\<close>, in order; the first failing read fails the loop.
\<close>

fun member_loop :: "RigidBodyGroup \<Rightarrow> nat list \<Rightarrow> error + nat list" where
  "member_loop g [] = Inr []"
| "member_loop g (i # is) =
     bind_err (getMemberIndex g i) (\<lambda>body. bind_err (member_loop g is) (\<lambda>bs. Inr (body # bs)))"

definition loop_bodies :: "RigidBodyGroup \<Rightarrow> nat \<Rightarrow> error + nat list" where
  "loop_bodies g n = member_loop g [0..<n]"

record RigidData =
  n_bodies :: nat
  body_mass :: "nat \<Rightarrow> real"
  body_size :: "nat \<Rightarrow> nat"
  particle_indices :: "nat \<Rightarrow> nat"
  indices_pitch :: nat
  particle_pos :: "nat \<Rightarrow> Scalar4"
  particle_pos_pitch :: nat
  particle_oldpos :: "nat \<Rightarrow> Scalar4"
  particle_oldvel :: "nat \<Rightarrow> Scalar4"
  particle_orientation :: "nat \<Rightarrow> Scalar4"
  com :: "nat \<Rightarrow> Scalar4"
  vel :: "nat \<Rightarrow> Scalar4"
  moment_inertia :: "nat \<Rightarrow> Scalar4"
  angmom :: "nat \<Rightarrow> Scalar4"
  angvel :: "nat \<Rightarrow> Scalar4"
  orientation :: "nat \<Rightarrow> Scalar4"
  ex_space :: "nat \<Rightarrow> Scalar4"
  ey_space :: "nat \<Rightarrow> Scalar4"
  ez_space :: "nat \<Rightarrow> Scalar4"
  force :: "nat \<Rightarrow> Scalar4"
  torque :: "nat \<Rightarrow> Scalar4"
  body_imagex :: "nat \<Rightarrow> cint"
  body_imagey :: "nat \<Rightarrow> cint"
  body_imagez :: "nat \<Rightarrow> cint"
  angmom_init :: "nat \<Rightarrow> bool"

text \<open>
  The particle data: the arrays of \<^verbatim>\<open>ParticleDataArrays\<close> (\<^verbatim>\<open>arrays.x\<close> is \<open>arrays_x\<close>),
  the per-tag orientation written by \<^verbatim>\<open>setOrientation\<close>, the net force, torque and
  virial arrays, and the box.
\<close>

record ParticleData =
  arrays_x :: "nat \<Rightarrow> real"
  arrays_y :: "nat \<Rightarrow> real"
  arrays_z :: "nat \<Rightarrow> real"
  arrays_vx :: "nat \<Rightarrow> real"
  arrays_vy :: "nat \<Rightarrow> real"
  arrays_vz :: "nat \<Rightarrow> real"
  arrays_mass :: "nat \<Rightarrow> real"
  arrays_ix :: "nat \<Rightarrow> cint"
  arrays_iy :: "nat \<Rightarrow> cint"
  arrays_iz :: "nat \<Rightarrow> cint"
  arrays_tag :: "nat \<Rightarrow> nat"
  tag_orientation :: "nat \<Rightarrow> Scalar4"
  net_force :: "nat \<Rightarrow> Scalar4"
  net_torque :: "nat \<Rightarrow> Scalar4"
  net_virial :: "nat \<Rightarrow> real"
  box :: BoxDim

record TwoStepNVERigid =
  m_rigid_data :: RigidData
  m_pdata :: ParticleData
  m_group :: "nat list"
  m_body_group :: RigidBodyGroup
  n_dimensions :: nat
  m_first_step :: bool
  m_n_bodies :: nat
  m_deltaT :: real
  m_conjqm :: "nat \<Rightarrow> Scalar4"
  m_virial :: "nat \<Rightarrow> real"

subsection \<open>Quaternion and matrix helpers\<close>

definition zero4 :: Scalar4 where
  "zero4 = \<lparr>sx = 0, sy = 0, sz = 0, sw = 0\<rparr>"

definition dot3 :: "Scalar4 \<Rightarrow> Scalar4 \<Rightarrow> real" where
  "dot3 a b = sx a * sx b + sy a * sy b + sz a * sz b"

text \<open>
  Modelled from the spec: \<^verbatim>\<open>QuaternionMath.h\<close> (\<^verbatim>\<open>quatquat\<close>, \<^verbatim>\<open>quatvec\<close>, \<^verbatim>\<open>normalize\<close>,
  \<^verbatim>\<open>matrix_dot\<close>, \<^verbatim>\<open>exyzFromQuaternion\<close>) is not in src/. The spec names a quaternion
  product (4.5, "body_orientation (x) local_orientation, renormalized"), the rotation of
  a vector into the body frame "via the current basis" (4.4) and the basis vectors as
  "columns of the rotation matrix derived from orientation" (3). The scalar part of a
  quaternion is stored in \<open>sx\<close>, the vector part in \<open>sy, sz, sw\<close>.
\<close>

definition quatquat :: "Scalar4 \<Rightarrow> Scalar4 \<Rightarrow> Scalar4" where
  "quatquat a b =
     \<lparr>sx = sx a * sx b - sy a * sy b - sz a * sz b - sw a * sw b,
      sy = sx a * sy b + sy a * sx b + sz a * sw b - sw a * sz b,
      sz = sx a * sz b + sz a * sx b + sw a * sy b - sy a * sw b,
      sw = sx a * sw b + sw a * sx b + sy a * sz b - sz a * sy b\<rparr>"

text \<open>Modelled from the spec: the product of a quaternion with a vector taken as a pure
  quaternion, by which 4.2 rotates the body-frame angular momentum "through the
  orientation quaternion".\<close>

definition quatvec :: "Scalar4 \<Rightarrow> Scalar4 \<Rightarrow> Scalar4" where
  "quatvec a b = quatquat a \<lparr>sx = 0, sy = sx b, sz = sy b, sw = sz b\<rparr>"

text \<open>Modelled from the spec: the norm by which a quaternion is "renormalized" (4.4, 4.5).\<close>

definition quat_norm :: "Scalar4 \<Rightarrow> real" where
  "quat_norm q = sqrt (sx q * sx q + sy q * sy q + sz q * sz q + sw q * sw q)"

text \<open>Modelled from the spec: the renormalization of 4.4 and 4.5, a division by the norm.\<close>

definition normalize :: "Scalar4 \<Rightarrow> Scalar4" where
  "normalize q =
     \<lparr>sx = sx q / quat_norm q, sy = sy q / quat_norm q,
      sz = sz q / quat_norm q, sw = sw q / quat_norm q\<rparr>"

text \<open>Modelled from the spec: "rotate angular momentum into the body frame via the
  current basis" (4.4); the result is written into the x, y and z fields of \<open>c\<close>.\<close>

definition matrix_dot :: "Scalar4 \<Rightarrow> Scalar4 \<Rightarrow> Scalar4 \<Rightarrow> Scalar4 \<Rightarrow> Scalar4 \<Rightarrow> Scalar4" where
  "matrix_dot ex ey ez v c = c\<lparr>sx := dot3 ex v, sy := dot3 ey v, sz := dot3 ez v\<rparr>"

text \<open>Modelled from the spec: the first column of the rotation matrix of a quaternion (3),
  written into the x, y and z fields of \<open>e\<close>.\<close>

definition exFromQuaternion :: "Scalar4 \<Rightarrow> Scalar4 \<Rightarrow> Scalar4" where
  "exFromQuaternion q e =
     e\<lparr>sx := sx q * sx q + sy q * sy q - sz q * sz q - sw q * sw q,
       sy := 2 * (sy q * sz q + sx q * sw q),
       sz := 2 * (sy q * sw q - sx q * sz q)\<rparr>"

text \<open>Modelled from the spec: the second column of the rotation matrix of a quaternion (3).\<close>

definition eyFromQuaternion :: "Scalar4 \<Rightarrow> Scalar4 \<Rightarrow> Scalar4" where
  "eyFromQuaternion q e =
     e\<lparr>sx := 2 * (sy q * sz q - sx q * sw q),
       sy := sx q * sx q - sy q * sy q + sz q * sz q - sw q * sw q,
       sz := 2 * (sz q * sw q + sx q * sy q)\<rparr>"

text \<open>Modelled from the spec: the third column of the rotation matrix of a quaternion (3).\<close>

definition ezFromQuaternion :: "Scalar4 \<Rightarrow> Scalar4 \<Rightarrow> Scalar4" where
  "ezFromQuaternion q e =
     e\<lparr>sx := 2 * (sy q * sw q + sx q * sz q),
       sy := 2 * (sz q * sw q - sx q * sy q),
       sz := sx q * sx q - sy q * sy q - sz q * sz q + sw q * sw q\<rparr>"

subsection \<open>Angular velocity from angular momentum\<close>

text \<open>
  Modelled from the spec: \<^verbatim>\<open>computeAngularVelocity\<close> is declared in \<^verbatim>\<open>TwoStepNVERigid.h\<close>
  and defined outside src/. The spec (4.4): "rotate angular momentum into the body frame
  via the current basis; divide each component by the corresponding principal moment,
  treating a zero moment as making that component's angular velocity exactly zero (never
  divide by zero) [...]. Then reconstruct the space-frame angular velocity by rotating
  back through the basis."

  \<open>scalar_div\<close> is the quotient of two scalars where it is a real number; \<open>None\<close> stands
  for the division by zero. \<open>angbody_component\<close> is one body-frame component with the
  guard of the spec, \<open>computeAngularVelocity_checked\<close> the whole computation with
  every division checked, and \<open>computeAngularVelocity\<close> the same computation as the
  integrator uses it, writing the x, y and z fields of \<^verbatim>\<open>angvel\<close>.
\<close>

definition scalar_div :: "real \<Rightarrow> real \<Rightarrow> real option" where
  "scalar_div a b = (if b = 0 then None else Some (a / b))"

text \<open>Modelled from the spec: one body-frame component, "treating a zero moment as
  making that component's angular velocity exactly zero (never divide by zero)".\<close>

definition angbody_component :: "real \<Rightarrow> real \<Rightarrow> real option" where
  "angbody_component l moment = (if moment = 0 then Some 0 else scalar_div l moment)"

text \<open>Modelled from the spec: "reconstruct the space-frame angular velocity by rotating
  back through the basis".\<close>

definition angvel_from_body :: "Scalar4 \<Rightarrow> Scalar4 \<Rightarrow> Scalar4 \<Rightarrow> real \<Rightarrow> real \<Rightarrow> real \<Rightarrow> Scalar4 \<Rightarrow> Scalar4" where
  "angvel_from_body ex ey ez wx wy wz av =
     av\<lparr>sx := wx * sx ex + wy * sx ey + wz * sx ez,
        sy := wx * sy ex + wy * sy ey + wz * sy ez,
        sz := wx * sz ex + wy * sz ey + wz * sz ez\<rparr>"

text \<open>Modelled from the spec: the rule of 4.4 with every division checked.\<close>

definition computeAngularVelocity_checked ::
  "Scalar4 \<Rightarrow> Scalar4 \<Rightarrow> Scalar4 \<Rightarrow> Scalar4 \<Rightarrow> Scalar4 \<Rightarrow> Scalar4 \<Rightarrow> Scalar4 option" where
  "computeAngularVelocity_checked am inertia ex ey ez av =
     (case angbody_component (dot3 ex am) (sx inertia) of None \<Rightarrow> None
      | Some wx \<Rightarrow>
     (case angbody_component (dot3 ey am) (sy inertia) of None \<Rightarrow> None
      | Some wy \<Rightarrow>
     (case angbody_component (dot3 ez am) (sz inertia) of None \<Rightarrow> None
      | Some wz \<Rightarrow> Some (angvel_from_body ex ey ez wx wy wz av))))"

text \<open>Modelled from the spec: the body-frame component of 4.4 as a real number.\<close>

definition angbody :: "real \<Rightarrow> real \<Rightarrow> real" where
  "angbody l moment = (if moment = 0 then 0 else l / moment)"

text \<open>Modelled from the spec: the rule of 4.4 as the integrator calls it.\<close>

definition computeAngularVelocity ::
  "Scalar4 \<Rightarrow> Scalar4 \<Rightarrow> Scalar4 \<Rightarrow> Scalar4 \<Rightarrow> Scalar4 \<Rightarrow> Scalar4 \<Rightarrow> Scalar4" where
  "computeAngularVelocity am inertia ex ey ez av =
     angvel_from_body ex ey ez
       (angbody (dot3 ex am) (sx inertia))
       (angbody (dot3 ey am) (sy inertia))
       (angbody (dot3 ez am) (sz inertia)) av"


text \<open>
  Modelled from the spec: \<^verbatim>\<open>advanceQuaternion\<close> is defined outside src/. The spec
  (4.4, orientation-advance rule): "update the orientation quaternion using a splitting
  scheme that rotates sequentially about each principal body axis by an angle derived
  from that axis's angular velocity component and the step size, re-deriving angular
  velocity and basis vectors after each partial rotation so later axis rotations see
  updated geometry; renormalize the quaternion after the full update". The angle is taken
  as the body-frame angular velocity component times the step size; the rotation about
  body axis \<open>k\<close> multiplies the orientation on the right by the quaternion of that
  rotation. The result is the new \<^verbatim>\<open>angvel\<close>, \<^verbatim>\<open>ex_space\<close>, \<^verbatim>\<open>ey_space\<close>, \<^verbatim>\<open>ez_space\<close> and
  \<^verbatim>\<open>quat\<close>, the reference parameters the caller passes.
\<close>

definition axis_rotation :: "nat \<Rightarrow> real \<Rightarrow> Scalar4" where
  "axis_rotation k theta =
     \<lparr>sx = cos (theta / 2),
      sy = (if k = 0 then sin (theta / 2) else 0),
      sz = (if k = 1 then sin (theta / 2) else 0),
      sw = (if k = 2 then sin (theta / 2) else 0)\<rparr>"

text \<open>Modelled from the spec: one partial rotation of 4.4 about body axis \<open>k\<close>, "re-deriving
  angular velocity and basis vectors after" it.\<close>

definition rotate_about_axis ::
  "nat \<Rightarrow> Scalar4 \<Rightarrow> Scalar4 \<Rightarrow> real
     \<Rightarrow> Scalar4 \<times> Scalar4 \<times> Scalar4 \<times> Scalar4 \<times> Scalar4
     \<Rightarrow> Scalar4 \<times> Scalar4 \<times> Scalar4 \<times> Scalar4 \<times> Scalar4" where
  "rotate_about_axis k am inertia deltaT st =
     (case st of (av, ex, ey, ez, q) \<Rightarrow>
        let wb = (if k = 0 then angbody (dot3 ex am) (sx inertia)
                  else if k = 1 then angbody (dot3 ey am) (sy inertia)
                  else angbody (dot3 ez am) (sz inertia));
            q' = quatquat q (axis_rotation k (wb * deltaT));
            ex' = exFromQuaternion q' ex;
            ey' = eyFromQuaternion q' ey;
            ez' = ezFromQuaternion q' ez
        in (computeAngularVelocity am inertia ex' ey' ez' av, ex', ey', ez', q'))"

text \<open>Modelled from the spec: the three partial rotations in sequence and the
  renormalization "after the full update" (4.4).\<close>

definition advanceQuaternion ::
  "Scalar4 \<Rightarrow> Scalar4 \<Rightarrow> Scalar4 \<Rightarrow> Scalar4 \<Rightarrow> Scalar4 \<Rightarrow> Scalar4 \<Rightarrow> real \<Rightarrow> Scalar4
     \<Rightarrow> Scalar4 \<times> Scalar4 \<times> Scalar4 \<times> Scalar4 \<times> Scalar4" where
  "advanceQuaternion am inertia av ex ey ez deltaT quat =
     (case rotate_about_axis 2 am inertia deltaT
             (rotate_about_axis 1 am inertia deltaT
               (rotate_about_axis 0 am inertia deltaT (av, ex, ey, ez, quat))) of
        (av1, ex1, ey1, ez1, q1) \<Rightarrow>
          let q2 = normalize q1;
              ex2 = exFromQuaternion q2 ex1;
              ey2 = eyFromQuaternion q2 ey1;
              ez2 = ezFromQuaternion q2 ez1
          in (computeAngularVelocity am inertia ex2 ey2 ez2 av1, ex2, ey2, ez2, q2))"

subsection \<open>Shared pieces of the loops\<close>

text \<open>\<^verbatim>\<open>a.x = vx; a.y = vy; a.z = vz\<close> and \<^verbatim>\<open>a.x += dx; a.y += dy; a.z += dz\<close>; the
  fourth field of a \<^verbatim>\<open>Scalar4\<close> is never written by this file.\<close>

definition set3 :: "Scalar4 \<Rightarrow> real \<Rightarrow> real \<Rightarrow> real \<Rightarrow> Scalar4" where
  "set3 a vx vy vz = a\<lparr>sx := vx, sy := vy, sz := vz\<rparr>"

definition add3 :: "Scalar4 \<Rightarrow> real \<Rightarrow> real \<Rightarrow> real \<Rightarrow> Scalar4" where
  "add3 a dx dy dz = a\<lparr>sx := sx a + dx, sy := sy a + dy, sz := sz a + dz\<rparr>"

text \<open>The space-frame offset of a constituent particle, \<^verbatim>\<open>xr, yr, zr\<close> (lines 224-232,
  598-606, 687-695 and 842-850).\<close>

definition body_to_space :: "RigidData \<Rightarrow> nat \<Rightarrow> nat \<Rightarrow> real \<times> real \<times> real" where
  "body_to_space rd body localidx =
     (sx (ex_space rd body) * sx (particle_pos rd localidx)
        + sx (ey_space rd body) * sy (particle_pos rd localidx)
        + sx (ez_space rd body) * sz (particle_pos rd localidx),
      sy (ex_space rd body) * sx (particle_pos rd localidx)
        + sy (ey_space rd body) * sy (particle_pos rd localidx)
        + sy (ez_space rd body) * sz (particle_pos rd localidx),
      sz (ex_space rd body) * sx (particle_pos rd localidx)
        + sz (ey_space rd body) * sy (particle_pos rd localidx)
        + sz (ez_space rd body) * sz (particle_pos rd localidx))"

text \<open>The periodic wrap of one coordinate with its image counter (lines 354-385 and
  713-744): \<open>L\<close> is the precalculated box length.\<close>

definition wrap_axis :: "real \<Rightarrow> real \<Rightarrow> real \<Rightarrow> real \<Rightarrow> cint \<Rightarrow> real \<times> cint" where
  "wrap_axis lo hi L c img =
     (if c \<ge> hi then (c - L, img + 1)
      else if c < lo then (c + L, img - 1)
      else (c, img))"

definition box_assert :: "BoxDim \<Rightarrow> bool" where
  "box_assert b = (xhi b > xlo b \<and> yhi b > ylo b \<and> zhi b > zlo b)"

text \<open>The constraint-force virial of one particle (lines 769-775 and 868-877).\<close>

definition fc_component :: "real \<Rightarrow> real \<Rightarrow> real \<Rightarrow> real \<Rightarrow> real \<Rightarrow> real" where
  "fc_component massone v old_v dt_half f = massone * (v - old_v) / dt_half - f"

definition virial_term ::
  "real \<Rightarrow> real \<Rightarrow> Scalar4 \<Rightarrow> Scalar4 \<Rightarrow> real \<Rightarrow> real \<Rightarrow> real \<Rightarrow> Scalar4 \<Rightarrow> real" where
  "virial_term massone dt_half old_pos old_vel vx vy vz f =
     0.5 * (sx old_pos * fc_component massone vx (sx old_vel) dt_half (sx f)
          + sy old_pos * fc_component massone vy (sy old_vel) dt_half (sy f)
          + sz old_pos * fc_component massone vz (sz old_vel) dt_half (sz f)) / 3"

subsection \<open>set_v and set_xv\<close>

definition set_v_particle :: "nat \<Rightarrow> nat \<Rightarrow> TwoStepNVERigid \<Rightarrow> TwoStepNVERigid" where
  "set_v_particle body j s =
     (let rd = m_rigid_data s; pd = m_pdata s;
          dt_half = 0.5 * m_deltaT s;
          pidx = particle_indices rd (body * indices_pitch rd + j);
          localidx = body * particle_pos_pitch rd + j
      in case body_to_space rd body localidx of (xr, yr, zr) \<Rightarrow>
      let old_pos = particle_oldpos rd localidx;
          old_vel = particle_oldvel rd localidx;
          vx = sx (vel rd body) + sy (angvel rd body) * zr - sz (angvel rd body) * yr;
          vy = sy (vel rd body) + sz (angvel rd body) * xr - sx (angvel rd body) * zr;
          vz = sz (vel rd body) + sx (angvel rd body) * yr - sy (angvel rd body) * xr;
          massone = arrays_mass pd pidx;
          nv = net_virial pd pidx + m_virial s localidx;
          nv' = nv + virial_term massone dt_half old_pos old_vel vx vy vz (net_force pd pidx)
      in s\<lparr>m_pdata := pd\<lparr>arrays_vx := (arrays_vx pd)(pidx := vx),
                          arrays_vy := (arrays_vy pd)(pidx := vy),
                          arrays_vz := (arrays_vz pd)(pidx := vz),
                          net_virial := (net_virial pd)(pidx := nv')\<rparr>,
           m_rigid_data := rd\<lparr>particle_oldvel :=
              (particle_oldvel rd)(localidx := set3 (particle_oldvel rd localidx) vx vy vz)\<rparr>\<rparr>)"

definition set_v_body :: "nat \<Rightarrow> TwoStepNVERigid \<Rightarrow> TwoStepNVERigid" where
  "set_v_body body s = fold (set_v_particle body) [0..<body_size (m_rigid_data s) body] s"

definition set_v :: "nat \<Rightarrow> TwoStepNVERigid \<Rightarrow> error + TwoStepNVERigid" where
  "set_v timestep s =
     bind_err (loop_bodies (m_body_group s) (m_n_bodies s)) (\<lambda>bodies. Inr (fold set_v_body bodies s))"

definition set_xv_particle :: "nat \<Rightarrow> nat \<Rightarrow> TwoStepNVERigid \<Rightarrow> TwoStepNVERigid" where
  "set_xv_particle body j s =
     (let rd = m_rigid_data s; pd = m_pdata s; b = box pd;
          Lx = xhi b - xlo b; Ly = yhi b - ylo b; Lz = zhi b - zlo b;
          dt_half = 0.5 * m_deltaT s;
          pidx = particle_indices rd (body * indices_pitch rd + j);
          localidx = body * particle_pos_pitch rd + j;
          tag = arrays_tag pd pidx
      in case body_to_space rd body localidx of (xr, yr, zr) \<Rightarrow>
      let old_pos = particle_oldpos rd localidx
      in case wrap_axis (xlo b) (xhi b) Lx (sx (com rd body) + xr) (body_imagex rd body) of (px, ix) \<Rightarrow>
         case wrap_axis (ylo b) (yhi b) Ly (sy (com rd body) + yr) (body_imagey rd body) of (py, iy) \<Rightarrow>
         case wrap_axis (zlo b) (zhi b) Lz (sz (com rd body) + zr) (body_imagez rd body) of (pz, iz) \<Rightarrow>
      let porientation = normalize (quatquat (orientation rd body) (particle_orientation rd localidx));
          new_oldpos = set3 (particle_oldpos rd localidx)
                         (px + Lx * real_of_int (sint ix))
                         (py + Ly * real_of_int (sint iy))
                         (pz + Lz * real_of_int (sint iz));
          old_vel = particle_oldvel rd localidx;
          vx = sx (vel rd body) + sy (angvel rd body) * zr - sz (angvel rd body) * yr;
          vy = sy (vel rd body) + sz (angvel rd body) * xr - sx (angvel rd body) * zr;
          vz = sz (vel rd body) + sx (angvel rd body) * yr - sy (angvel rd body) * xr;
          massone = arrays_mass pd pidx
      in s\<lparr>m_pdata := pd\<lparr>arrays_x := (arrays_x pd)(pidx := px),
                          arrays_y := (arrays_y pd)(pidx := py),
                          arrays_z := (arrays_z pd)(pidx := pz),
                          arrays_ix := (arrays_ix pd)(pidx := ix),
                          arrays_iy := (arrays_iy pd)(pidx := iy),
                          arrays_iz := (arrays_iz pd)(pidx := iz),
                          tag_orientation := (tag_orientation pd)(tag := porientation),
                          arrays_vx := (arrays_vx pd)(pidx := vx),
                          arrays_vy := (arrays_vy pd)(pidx := vy),
                          arrays_vz := (arrays_vz pd)(pidx := vz)\<rparr>,
           m_rigid_data := rd\<lparr>particle_oldpos := (particle_oldpos rd)(localidx := new_oldpos),
              particle_oldvel :=
                (particle_oldvel rd)(localidx := set3 (particle_oldvel rd localidx) vx vy vz)\<rparr>,
           m_virial := (m_virial s)(localidx :=
              virial_term massone dt_half old_pos old_vel vx vy vz (net_force pd pidx))\<rparr>)"

definition set_xv_body :: "nat \<Rightarrow> TwoStepNVERigid \<Rightarrow> TwoStepNVERigid" where
  "set_xv_body body s = fold (set_xv_particle body) [0..<body_size (m_rigid_data s) body] s"

definition set_xv :: "nat \<Rightarrow> TwoStepNVERigid \<Rightarrow> error + TwoStepNVERigid" where
  "set_xv timestep s =
     (if \<not> box_assert (box (m_pdata s)) then Inl AssertionFailed
      else bind_err (loop_bodies (m_body_group s) (m_n_bodies s))
             (\<lambda>bodies. Inr (fold set_xv_body bodies s)))"


subsection \<open>setup\<close>

text \<open>The first loop of \<^verbatim>\<open>setup\<close> (lines 163-187).\<close>

definition setup_reset :: "nat \<Rightarrow> RigidData \<Rightarrow> RigidData" where
  "setup_reset body rd =
     (let angmom_init' = angmom_init rd body;
          rd1 = rd\<lparr>vel := (vel rd)(body := set3 (vel rd body) 0 0 0),
                   force := (force rd)(body := set3 (force rd body) 0 0 0),
                   torque := (torque rd)(body := set3 (torque rd body) 0 0 0)\<rparr>
      in if angmom_init' = False
         then rd1\<lparr>angmom := (angmom rd1)(body := set3 (angmom rd1 body) 0 0 0)\<rparr>
         else rd1)"

text \<open>The body of the particle loop of \<^verbatim>\<open>setup\<close> (lines 201-245).\<close>

definition setup_particle :: "ParticleData \<Rightarrow> nat \<Rightarrow> nat \<Rightarrow> RigidData \<Rightarrow> RigidData" where
  "setup_particle pd body j rd =
     (let angmom_init' = angmom_init rd body;
          pidx = particle_indices rd (body * indices_pitch rd + j);
          mass_one = arrays_mass pd pidx;
          fx = sx (net_force pd pidx); fy = sy (net_force pd pidx); fz = sz (net_force pd pidx);
          localidx = body * particle_pos_pitch rd + j
      in case body_to_space rd body localidx of (rx, ry, rz) \<Rightarrow>
      let rd1 = rd\<lparr>vel := (vel rd)(body := add3 (vel rd body)
                      (mass_one * arrays_vx pd pidx) (mass_one * arrays_vy pd pidx)
                      (mass_one * arrays_vz pd pidx)),
                   force := (force rd)(body := add3 (force rd body) fx fy fz),
                   torque := (torque rd)(body := add3 (torque rd body)
                      (ry * fz - rz * fy) (rz * fx - rx * fz) (rx * fy - ry * fx))\<rparr>
      in if angmom_init' = False
         then rd1\<lparr>angmom := (angmom rd1)(body := add3 (angmom rd1 body)
                (ry * (mass_one * arrays_vz pd pidx) - rz * (mass_one * arrays_vy pd pidx))
                (rz * (mass_one * arrays_vx pd pidx) - rx * (mass_one * arrays_vz pd pidx))
                (rx * (mass_one * arrays_vy pd pidx) - ry * (mass_one * arrays_vx pd pidx)))\<rparr>
         else rd1)"

definition setup_body :: "ParticleData \<Rightarrow> nat \<Rightarrow> RigidData \<Rightarrow> RigidData" where
  "setup_body pd body rd = fold (setup_particle pd body) [0..<body_size rd body] rd"

text \<open>The third loop (lines 249-259).\<close>

definition setup_velocity :: "nat \<Rightarrow> RigidData \<Rightarrow> RigidData" where
  "setup_velocity body rd =
     (let v = set3 (vel rd body) (sx (vel rd body) / body_mass rd body)
                (sy (vel rd body) / body_mass rd body) (sz (vel rd body) / body_mass rd body)
      in rd\<lparr>vel := (vel rd)(body := v),
            angvel := (angvel rd)(body :=
              computeAngularVelocity (angmom rd body) (moment_inertia rd body)
                (ex_space rd body) (ey_space rd body) (ez_space rd body) (angvel rd body))\<rparr>)"

text \<open>The fourth loop (lines 262-273); \<^verbatim>\<open>mbody\<close> is a local that the loop reuses.\<close>

definition setup_conjqm ::
  "RigidData \<Rightarrow> nat \<Rightarrow> Scalar4 \<times> (nat \<Rightarrow> Scalar4) \<Rightarrow> Scalar4 \<times> (nat \<Rightarrow> Scalar4)" where
  "setup_conjqm rd body st =
     (case st of (mbody, conjqm) \<Rightarrow>
        let mbody' = matrix_dot (ex_space rd body) (ey_space rd body) (ez_space rd body)
                       (angmom rd body) mbody;
            c = quatvec (orientation rd body) mbody'
        in (mbody', conjqm(body := \<lparr>sx = sx c * 2, sy = sy c * 2, sz = sz c * 2, sw = sw c * 2\<rparr>)))"

text \<open>
  \<^verbatim>\<open>setup\<close> (lines 116-284). The fresh \<^verbatim>\<open>GPUArray\<close>s swapped into \<^verbatim>\<open>m_conjqm\<close> and
  \<^verbatim>\<open>m_virial\<close> are zero-filled. The local \<^verbatim>\<open>mbody\<close> is uninitialised in the source; it
  starts as \<open>zero4\<close> here, and only its fourth field, which \<^verbatim>\<open>quatvec\<close> does not read,
  keeps that value. The function is named \<open>setup_nve\<close>, \<open>setup\<close> being an Isabelle keyword.
\<close>

definition setup_nve :: "TwoStepNVERigid \<Rightarrow> error + TwoStepNVERigid" where
  "setup_nve s0 =
     (let s = s0\<lparr>m_n_bodies := getNumMembers (m_body_group s0)\<rparr>
      in if m_n_bodies s = 0 then Inr s
         else
           let s1 = s\<lparr>m_conjqm := (\<lambda>_. zero4), m_virial := (\<lambda>_. 0)\<rparr>
           in bind_err (loop_bodies (m_body_group s1) (m_n_bodies s1)) (\<lambda>bodies.
                let rd1 = fold setup_reset bodies (m_rigid_data s1);
                    rd2 = fold (setup_body (m_pdata s1)) bodies rd1;
                    rd3 = fold setup_velocity bodies rd2;
                    cq = snd (fold (setup_conjqm rd3) bodies (zero4, m_conjqm s1))
                in set_v 0 (s1\<lparr>m_rigid_data := rd3, m_conjqm := cq\<rparr>)))"

subsection \<open>computeForceAndTorque\<close>

definition force_reset :: "nat \<Rightarrow> RigidData \<Rightarrow> RigidData" where
  "force_reset body rd =
     rd\<lparr>force := (force rd)(body := set3 (force rd body) 0 0 0),
        torque := (torque rd)(body := set3 (torque rd body) 0 0 0)\<rparr>"

definition force_particle :: "ParticleData \<Rightarrow> nat \<Rightarrow> nat \<Rightarrow> RigidData \<Rightarrow> RigidData" where
  "force_particle pd body j rd =
     (let pidx = particle_indices rd (body * indices_pitch rd + j);
          fx = sx (net_force pd pidx); fy = sy (net_force pd pidx); fz = sz (net_force pd pidx);
          tx = sx (net_torque pd pidx); ty = sy (net_torque pd pidx); tz = sz (net_torque pd pidx);
          localidx = body * particle_pos_pitch rd + j
      in case body_to_space rd body localidx of (rx, ry, rz) \<Rightarrow>
         rd\<lparr>force := (force rd)(body := add3 (force rd body) fx fy fz),
            torque := (torque rd)(body := add3 (torque rd body)
               (ry * fz - rz * fy + tx) (rz * fx - rx * fz + ty) (rx * fy - ry * fx + tz))\<rparr>)"

definition force_body :: "ParticleData \<Rightarrow> nat \<Rightarrow> RigidData \<Rightarrow> RigidData" where
  "force_body pd body rd = fold (force_particle pd body) [0..<body_size rd body] rd"

definition computeForceAndTorque :: "nat \<Rightarrow> TwoStepNVERigid \<Rightarrow> error + TwoStepNVERigid" where
  "computeForceAndTorque timestep s =
     bind_err (loop_bodies (m_body_group s) (m_n_bodies s)) (\<lambda>bodies.
       Inr (s\<lparr>m_rigid_data :=
              fold (force_body (m_pdata s)) bodies (fold force_reset bodies (m_rigid_data s))\<rparr>))"

subsection \<open>integrateStepOne and integrateStepTwo\<close>

text \<open>The body of the loop of \<^verbatim>\<open>integrateStepOne\<close> (lines 340-402).\<close>

definition stepOne_body :: "BoxDim \<Rightarrow> real \<Rightarrow> nat \<Rightarrow> RigidData \<Rightarrow> RigidData" where
  "stepOne_body b deltaT body rd =
     (let Lx = xhi b - xlo b; Ly = yhi b - ylo b; Lz = zhi b - zlo b;
          dt_half = 0.5 * deltaT;
          dtfm = dt_half / body_mass rd body;
          v = add3 (vel rd body) (dtfm * sx (force rd body)) (dtfm * sy (force rd body))
                (dtfm * sz (force rd body))
      in case wrap_axis (xlo b) (xhi b) Lx (sx (com rd body) + sx v * deltaT) (body_imagex rd body) of (cx, ix) \<Rightarrow>
         case wrap_axis (ylo b) (yhi b) Ly (sy (com rd body) + sy v * deltaT) (body_imagey rd body) of (cy, iy) \<Rightarrow>
         case wrap_axis (zlo b) (zhi b) Lz (sz (com rd body) + sz v * deltaT) (body_imagez rd body) of (cz, iz) \<Rightarrow>
      let am = add3 (angmom rd body) (dt_half * sx (torque rd body))
                 (dt_half * sy (torque rd body)) (dt_half * sz (torque rd body))
      in case advanceQuaternion am (moment_inertia rd body) (angvel rd body)
                (ex_space rd body) (ey_space rd body) (ez_space rd body) deltaT
                (orientation rd body) of (av, ex, ey, ez, q) \<Rightarrow>
         rd\<lparr>vel := (vel rd)(body := v),
            com := (com rd)(body := set3 (com rd body) cx cy cz),
            body_imagex := (body_imagex rd)(body := ix),
            body_imagey := (body_imagey rd)(body := iy),
            body_imagez := (body_imagez rd)(body := iz),
            angmom := (angmom rd)(body := am),
            angvel := (angvel rd)(body := av),
            ex_space := (ex_space rd)(body := ex),
            ey_space := (ey_space rd)(body := ey),
            ez_space := (ez_space rd)(body := ez),
            orientation := (orientation rd)(body := q)\<rparr>)"

definition integrateStepOne :: "nat \<Rightarrow> TwoStepNVERigid \<Rightarrow> error + TwoStepNVERigid" where
  "integrateStepOne timestep s0 =
     bind_err (if m_first_step s0
               then bind_err (setup_nve s0) (\<lambda>s. Inr (s\<lparr>m_first_step := False\<rparr>))
               else Inr s0) (\<lambda>s.
       if m_n_bodies s = 0 then Inr s
       else if \<not> box_assert (box (m_pdata s)) then Inl AssertionFailed
       else bind_err (loop_bodies (m_body_group s) (m_n_bodies s)) (\<lambda>bodies.
              set_xv timestep
                (s\<lparr>m_rigid_data :=
                     fold (stepOne_body (box (m_pdata s)) (m_deltaT s)) bodies (m_rigid_data s)\<rparr>)))"

text \<open>The body of the loop of \<^verbatim>\<open>integrateStepTwo\<close> (lines 448-463).\<close>

definition stepTwo_body :: "real \<Rightarrow> nat \<Rightarrow> RigidData \<Rightarrow> RigidData" where
  "stepTwo_body deltaT body rd =
     (let dt_half = 0.5 * deltaT;
          dtfm = dt_half / body_mass rd body;
          v = add3 (vel rd body) (dtfm * sx (force rd body)) (dtfm * sy (force rd body))
                (dtfm * sz (force rd body));
          am = add3 (angmom rd body) (dt_half * sx (torque rd body))
                 (dt_half * sy (torque rd body)) (dt_half * sz (torque rd body))
      in rd\<lparr>vel := (vel rd)(body := v),
            angmom := (angmom rd)(body := am),
            angvel := (angvel rd)(body :=
              computeAngularVelocity am (moment_inertia rd body)
                (ex_space rd body) (ey_space rd body) (ez_space rd body) (angvel rd body))\<rparr>)"

definition integrateStepTwo :: "nat \<Rightarrow> TwoStepNVERigid \<Rightarrow> error + TwoStepNVERigid" where
  "integrateStepTwo timestep s =
     (if m_n_bodies s = 0 then Inr s
      else bind_err (computeForceAndTorque timestep s) (\<lambda>s1.
           bind_err (loop_bodies (m_body_group s1) (m_n_bodies s1)) (\<lambda>bodies.
             set_v timestep
               (s1\<lparr>m_rigid_data := fold (stepTwo_body (m_deltaT s1)) bodies (m_rigid_data s1)\<rparr>))))"

subsection \<open>getNDOF\<close>

text \<open>
  Modelled from the spec: \<^verbatim>\<open>ParticleGroup::groupIntersection\<close> and the constructor of
  \<^verbatim>\<open>RigidBodyGroup\<close> are not in src/. A particle group is the list of its particle
  indices. The spec (4.1): "compute the set of rigid-body indices whose constituent
  particles intersect" the group, with "ordered member enumeration".
\<close>

definition groupIntersection :: "nat list \<Rightarrow> nat list \<Rightarrow> nat list" where
  "groupIntersection a b = filter (\<lambda>p. p \<in> set b) a"

text \<open>Modelled from the spec: a body whose "constituent particles intersect" the group (4.1).\<close>

definition body_in_group :: "RigidData \<Rightarrow> nat list \<Rightarrow> nat \<Rightarrow> bool" where
  "body_in_group rd grp body =
     (\<exists>j \<in> set [0..<body_size rd body].
        particle_indices rd (body * indices_pitch rd + j) \<in> set grp)"

text \<open>Modelled from the spec: the constructor of \<^verbatim>\<open>RigidBodyGroup\<close>, the bodies of 4.1 in
  index order.\<close>

definition new_RigidBodyGroup :: "RigidData \<Rightarrow> nat list \<Rightarrow> RigidBodyGroup" where
  "new_RigidBodyGroup rd grp = \<lparr>member_idx = filter (body_in_group rd grp) [0..<n_bodies rd]\<rparr>"

text \<open>The body of the loop of \<^verbatim>\<open>getNDOF\<close> (lines 496-518): \<^verbatim>\<open>dof_one--\<close> on 6 or 3 does
  not reach zero.\<close>

definition dof_one :: "nat \<Rightarrow> Scalar4 \<Rightarrow> nat" where
  "dof_one dimension inertia =
     (if dimension = 3
      then (let d = 6;
                d = (if sx inertia = 0 then d - 1 else d);
                d = (if sy inertia = 0 then d - 1 else d);
                d = (if sz inertia = 0 then d - 1 else d)
            in d)
      else (let d = 3;
                d = (if sz inertia = 0 then d - 1 else d)
            in d))"

definition getNDOF_body :: "TwoStepNVERigid \<Rightarrow> nat \<Rightarrow> nat \<Rightarrow> nat" where
  "getNDOF_body s body query_group_dof =
     (if isMember (m_body_group s) body
      then query_group_dof + dof_one (n_dimensions s) (moment_inertia (m_rigid_data s) body)
      else query_group_dof)"

text \<open>\<^verbatim>\<open>getNDOF\<close> holds only read handles; it returns the count together with the
  unchanged integrator.\<close>

definition getNDOF :: "nat list \<Rightarrow> TwoStepNVERigid \<Rightarrow> error + nat \<times> TwoStepNVERigid" where
  "getNDOF query_group s =
     (let intersect_particles = groupIntersection (m_group s) query_group;
          intersect_bodies = new_RigidBodyGroup (m_rigid_data s) intersect_particles
      in bind_err (loop_bodies intersect_bodies (getNumMembers intersect_bodies)) (\<lambda>bodies.
           Inr (fold (getNDOF_body s) bodies 0, s)))"

subsection \<open>The degrees of freedom in the spec's words\<close>

text \<open>
  Spec 4.6: "for each qualifying body, in 3 spatial dimensions contribute 6 minus the
  number of zero principal moments; in 2 dimensions contribute 3 minus 1 if the single
  out-of-plane moment is zero." The source tests \<^verbatim>\<open>dimension == 3\<close> and takes every other
  dimension as 2. A qualifying body is a member of the body group built from the
  intersection of the integrator's particle group with the query group that is also a
  member of the integrator's body group.
\<close>

definition dof_spec :: "nat \<Rightarrow> Scalar4 \<Rightarrow> nat" where
  "dof_spec dimension inertia =
     (if dimension = 3
      then 6 - length (filter (\<lambda>m. m = 0) [sx inertia, sy inertia, sz inertia])
      else 3 - (if sz inertia = 0 then 1 else 0))"

definition qualifying_bodies :: "TwoStepNVERigid \<Rightarrow> nat list \<Rightarrow> nat list" where
  "qualifying_bodies s query_group =
     filter (isMember (m_body_group s))
       (member_idx (new_RigidBodyGroup (m_rigid_data s) (groupIntersection (m_group s) query_group)))"

subsection \<open>What a pass leaves alone\<close>

text \<open>\<open>set_v_erase\<close> blanks the arrays that \<^verbatim>\<open>set_v\<close> writes; two states with the same
  image differ in those arrays only.\<close>

definition set_v_erase :: "TwoStepNVERigid \<Rightarrow> TwoStepNVERigid" where
  "set_v_erase s =
     s\<lparr>m_rigid_data := (m_rigid_data s)\<lparr>particle_oldvel := (\<lambda>_. zero4)\<rparr>,
       m_pdata := (m_pdata s)\<lparr>arrays_vx := (\<lambda>_. 0), arrays_vy := (\<lambda>_. 0), arrays_vz := (\<lambda>_. 0),
                              net_virial := (\<lambda>_. 0)\<rparr>\<rparr>"

subsection \<open>Example states\<close>

text \<open>
  One rigid body (index 0) of mass 2 with one constituent particle (index 0) at its centre
  of mass, at rest at the origin of the cubic box from -5 to 5, with unit orientation and the
  identity basis. The net force on the particle and the aggregated body force are
  \<open>(1, 0, 0)\<close>; torques and angular momentum are zero; the time step is \<open>0.01\<close>. The
  cached old position of the particle is \<open>(1, 0, 0)\<close>.
\<close>

definition unit_x :: Scalar4 where
  "unit_x = \<lparr>sx = 1, sy = 0, sz = 0, sw = 0\<rparr>"

definition unit_y :: Scalar4 where
  "unit_y = \<lparr>sx = 0, sy = 1, sz = 0, sw = 0\<rparr>"

definition unit_z :: Scalar4 where
  "unit_z = \<lparr>sx = 0, sy = 0, sz = 1, sw = 0\<rparr>"

definition ex_rd :: RigidData where
  "ex_rd =
     \<lparr>n_bodies = 1, body_mass = (\<lambda>_. 2), body_size = (\<lambda>_. 1),
      particle_indices = (\<lambda>i. i), indices_pitch = 1,
      particle_pos = (\<lambda>_. zero4), particle_pos_pitch = 1,
      particle_oldpos = (\<lambda>_. unit_x), particle_oldvel = (\<lambda>_. zero4),
      particle_orientation = (\<lambda>_. unit_x),
      com = (\<lambda>_. zero4), vel = (\<lambda>_. zero4),
      moment_inertia = (\<lambda>_. \<lparr>sx = 1, sy = 1, sz = 1, sw = 0\<rparr>),
      angmom = (\<lambda>_. zero4), angvel = (\<lambda>_. zero4), orientation = (\<lambda>_. unit_x),
      ex_space = (\<lambda>_. unit_x), ey_space = (\<lambda>_. unit_y), ez_space = (\<lambda>_. unit_z),
      force = (\<lambda>_. unit_x), torque = (\<lambda>_. zero4),
      body_imagex = (\<lambda>_. 0), body_imagey = (\<lambda>_. 0), body_imagez = (\<lambda>_. 0),
      angmom_init = (\<lambda>_. True)\<rparr>"

definition ex_pd :: ParticleData where
  "ex_pd =
     \<lparr>arrays_x = (\<lambda>_. 0), arrays_y = (\<lambda>_. 0), arrays_z = (\<lambda>_. 0),
      arrays_vx = (\<lambda>_. 0), arrays_vy = (\<lambda>_. 0), arrays_vz = (\<lambda>_. 0),
      arrays_mass = (\<lambda>_. 2),
      arrays_ix = (\<lambda>_. 0), arrays_iy = (\<lambda>_. 0), arrays_iz = (\<lambda>_. 0),
      arrays_tag = (\<lambda>i. i), tag_orientation = (\<lambda>_. unit_x),
      net_force = (\<lambda>_. unit_x), net_torque = (\<lambda>_. zero4), net_virial = (\<lambda>_. 0),
      box = \<lparr>xlo = -5, xhi = 5, ylo = -5, yhi = 5, zlo = -5, zhi = 5\<rparr>\<rparr>"

definition ex_state :: TwoStepNVERigid where
  "ex_state =
     \<lparr>m_rigid_data = ex_rd, m_pdata = ex_pd, m_group = [0],
      m_body_group = \<lparr>member_idx = [0]\<rparr>, n_dimensions = 3,
      m_first_step = False, m_n_bodies = 1, m_deltaT = 1 / 100,
      m_conjqm = (\<lambda>_. zero4), m_virial = (\<lambda>_. 0)\<rparr>"

text \<open>The same integrator before its first step, with an empty body group.\<close>

definition ex_empty :: TwoStepNVERigid where
  "ex_empty = ex_state\<lparr>m_body_group := \<lparr>member_idx = []\<rparr>, m_first_step := True\<rparr>"

text \<open>\<open>kick_erase\<close> blanks the body arrays that the force aggregation, the second
  half-kick and the loops of \<^verbatim>\<open>setup\<close> write; \<open>stepTwo_erase\<close> blanks everything that
  \<^verbatim>\<open>integrateStepTwo\<close> writes, \<open>setup_erase\<close> everything that \<^verbatim>\<open>setup\<close> writes, and
  \<open>set_xv_erase\<close> everything that \<^verbatim>\<open>set_xv\<close> writes.\<close>

definition kick_erase :: "RigidData \<Rightarrow> RigidData" where
  "kick_erase rd =
     rd\<lparr>force := (\<lambda>_. zero4), torque := (\<lambda>_. zero4), vel := (\<lambda>_. zero4),
        angmom := (\<lambda>_. zero4), angvel := (\<lambda>_. zero4)\<rparr>"

definition stepTwo_erase :: "TwoStepNVERigid \<Rightarrow> TwoStepNVERigid" where
  "stepTwo_erase s =
     s\<lparr>m_rigid_data := kick_erase ((m_rigid_data s)\<lparr>particle_oldvel := (\<lambda>_. zero4)\<rparr>),
       m_pdata := (m_pdata s)\<lparr>arrays_vx := (\<lambda>_. 0), arrays_vy := (\<lambda>_. 0), arrays_vz := (\<lambda>_. 0),
                              net_virial := (\<lambda>_. 0)\<rparr>\<rparr>"

definition setup_erase :: "TwoStepNVERigid \<Rightarrow> TwoStepNVERigid" where
  "setup_erase s = stepTwo_erase (s\<lparr>m_n_bodies := 0, m_conjqm := (\<lambda>_. zero4), m_virial := (\<lambda>_. 0)\<rparr>)"

definition set_xv_erase :: "TwoStepNVERigid \<Rightarrow> TwoStepNVERigid" where
  "set_xv_erase s =
     s\<lparr>m_rigid_data := (m_rigid_data s)\<lparr>particle_oldpos := (\<lambda>_. zero4),
                                         particle_oldvel := (\<lambda>_. zero4)\<rparr>,
       m_pdata := (m_pdata s)\<lparr>arrays_x := (\<lambda>_. 0), arrays_y := (\<lambda>_. 0), arrays_z := (\<lambda>_. 0),
                              arrays_ix := (\<lambda>_. 0), arrays_iy := (\<lambda>_. 0), arrays_iz := (\<lambda>_. 0),
                              tag_orientation := (\<lambda>_. zero4),
                              arrays_vx := (\<lambda>_. 0), arrays_vy := (\<lambda>_. 0), arrays_vz := (\<lambda>_. 0)\<rparr>,
       m_virial := (\<lambda>_. 0)\<rparr>"

subsection \<open>Constituent particles\<close>

text \<open>
  The pairs \<open>(body, j)\<close> that the particle loops visit for a list of bodies, the particle
  index \<^verbatim>\<open>pidx\<close> and the slot \<^verbatim>\<open>localidx\<close> of such a pair, and the bodies that the loop
  \<^verbatim>\<open>for (group_idx = 0; group_idx < m_n_bodies; group_idx++)\<close> visits.
\<close>

definition constituents :: "RigidData \<Rightarrow> nat list \<Rightarrow> (nat \<times> nat) list" where
  "constituents rd bodies = concat (map (\<lambda>b. map (Pair b) [0..<body_size rd b]) bodies)"

definition pidx_of :: "RigidData \<Rightarrow> nat \<times> nat \<Rightarrow> nat" where
  "pidx_of rd p = particle_indices rd (fst p * indices_pitch rd + snd p)"

definition localidx_of :: "RigidData \<Rightarrow> nat \<times> nat \<Rightarrow> nat" where
  "localidx_of rd p = fst p * particle_pos_pitch rd + snd p"

definition visited :: "TwoStepNVERigid \<Rightarrow> nat list" where
  "visited s = take (m_n_bodies s) (member_idx (m_body_group s))"

text \<open>What \<^verbatim>\<open>set_xv\<close> and \<^verbatim>\<open>set_v\<close> read and do not write, and what they hold for one
  constituent particle.\<close>

definition proj_static ::
  "TwoStepNVERigid \<Rightarrow>
     (BoxDim \<times> real \<times> (nat \<Rightarrow> real) \<times> (nat \<Rightarrow> nat) \<times> (nat \<Rightarrow> Scalar4)) \<times>
     ((nat \<Rightarrow> nat) \<times> (nat \<Rightarrow> nat) \<times> nat \<times> (nat \<Rightarrow> Scalar4) \<times> nat \<times> (nat \<Rightarrow> Scalar4)) \<times>
     ((nat \<Rightarrow> Scalar4) \<times> (nat \<Rightarrow> Scalar4) \<times> (nat \<Rightarrow> Scalar4) \<times> (nat \<Rightarrow> Scalar4)) \<times>
     ((nat \<Rightarrow> Scalar4) \<times> (nat \<Rightarrow> Scalar4) \<times> (nat \<Rightarrow> Scalar4)) \<times>
     ((nat \<Rightarrow> cint) \<times> (nat \<Rightarrow> cint) \<times> (nat \<Rightarrow> cint))" where
  "proj_static s =
     ((box (m_pdata s), m_deltaT s, arrays_mass (m_pdata s), arrays_tag (m_pdata s),
       net_force (m_pdata s)),
      (body_size (m_rigid_data s), particle_indices (m_rigid_data s),
       indices_pitch (m_rigid_data s), particle_pos (m_rigid_data s),
       particle_pos_pitch (m_rigid_data s), particle_orientation (m_rigid_data s)),
      (com (m_rigid_data s), vel (m_rigid_data s), angvel (m_rigid_data s),
       orientation (m_rigid_data s)),
      (ex_space (m_rigid_data s), ey_space (m_rigid_data s), ez_space (m_rigid_data s)),
      (body_imagex (m_rigid_data s), body_imagey (m_rigid_data s), body_imagez (m_rigid_data s)))"

definition set_xv_view ::
  "nat \<Rightarrow> nat \<Rightarrow> TwoStepNVERigid \<Rightarrow>
     (real \<times> real \<times> real) \<times> (cint \<times> cint \<times> cint) \<times> (real \<times> real \<times> real) \<times>
     Scalar4 \<times> Scalar4 \<times> real" where
  "set_xv_view pidx lidx s =
     ((arrays_x (m_pdata s) pidx, arrays_y (m_pdata s) pidx, arrays_z (m_pdata s) pidx),
      (arrays_ix (m_pdata s) pidx, arrays_iy (m_pdata s) pidx, arrays_iz (m_pdata s) pidx),
      (arrays_vx (m_pdata s) pidx, arrays_vy (m_pdata s) pidx, arrays_vz (m_pdata s) pidx),
      particle_oldpos (m_rigid_data s) lidx, particle_oldvel (m_rigid_data s) lidx,
      m_virial s lidx)"

definition set_v_view ::
  "nat \<Rightarrow> nat \<Rightarrow> TwoStepNVERigid \<Rightarrow> (real \<times> real \<times> real) \<times> real \<times> Scalar4 \<times> Scalar4 \<times> real" where
  "set_v_view pidx lidx s =
     ((arrays_vx (m_pdata s) pidx, arrays_vy (m_pdata s) pidx, arrays_vz (m_pdata s) pidx),
      net_virial (m_pdata s) pidx,
      particle_oldpos (m_rigid_data s) lidx, particle_oldvel (m_rigid_data s) lidx,
      m_virial s lidx)"

definition pos_view ::
  "nat \<Rightarrow> TwoStepNVERigid \<Rightarrow> (real \<times> real \<times> real) \<times> (cint \<times> cint \<times> cint)" where
  "pos_view pidx s =
     ((arrays_x (m_pdata s) pidx, arrays_y (m_pdata s) pidx, arrays_z (m_pdata s) pidx),
      (arrays_ix (m_pdata s) pidx, arrays_iy (m_pdata s) pidx, arrays_iz (m_pdata s) pidx))"

text \<open>The example state after \<^verbatim>\<open>set_v\<close>, after \<^verbatim>\<open>set_xv\<close>, after \<^verbatim>\<open>integrateStepTwo\<close>,
  after \<^verbatim>\<open>integrateStepOne\<close>, and after \<^verbatim>\<open>integrateStepOne\<close> followed by
  \<^verbatim>\<open>integrateStepTwo\<close>.\<close>

definition ex_state_v :: TwoStepNVERigid where
  "ex_state_v = ex_state\<lparr>m_pdata := ex_pd\<lparr>net_virial := (\<lambda>_. 0)(0 := - (1 / 6))\<rparr>\<rparr>"

definition ex_state_xv :: TwoStepNVERigid where
  "ex_state_xv =
     ex_state\<lparr>m_rigid_data := ex_rd\<lparr>particle_oldpos := (\<lambda>_. unit_x)(0 := zero4)\<rparr>,
              m_virial := (\<lambda>_. 0)(0 := - (1 / 6))\<rparr>"

definition ex_state_two :: TwoStepNVERigid where
  "ex_state_two =
     ex_state\<lparr>m_rigid_data := ex_rd\<lparr>
         vel := (\<lambda>_. zero4)(0 := \<lparr>sx = 1 / 400, sy = 0, sz = 0, sw = 0\<rparr>),
         particle_oldvel := (\<lambda>_. zero4)(0 := \<lparr>sx = 1 / 400, sy = 0, sz = 0, sw = 0\<rparr>)\<rparr>,
       m_pdata := ex_pd\<lparr>arrays_vx := (\<lambda>_. 0)(0 := 1 / 400)\<rparr>\<rparr>"

definition ex_state_one :: TwoStepNVERigid where
  "ex_state_one =
     ex_state\<lparr>m_rigid_data := ex_rd\<lparr>
         vel := (\<lambda>_. zero4)(0 := \<lparr>sx = 1 / 400, sy = 0, sz = 0, sw = 0\<rparr>),
         com := (\<lambda>_. zero4)(0 := \<lparr>sx = 1 / 40000, sy = 0, sz = 0, sw = 0\<rparr>),
         particle_oldpos := (\<lambda>_. unit_x)(0 := \<lparr>sx = 1 / 40000, sy = 0, sz = 0, sw = 0\<rparr>),
         particle_oldvel := (\<lambda>_. zero4)(0 := \<lparr>sx = 1 / 400, sy = 0, sz = 0, sw = 0\<rparr>)\<rparr>,
       m_pdata := ex_pd\<lparr>
         arrays_x := (\<lambda>_. 0)(0 := 1 / 40000),
         arrays_vx := (\<lambda>_. 0)(0 := 1 / 400)\<rparr>\<rparr>"

definition ex_state_one_two :: TwoStepNVERigid where
  "ex_state_one_two =
     ex_state_one\<lparr>m_rigid_data := (m_rigid_data ex_state_one)\<lparr>
         vel := (\<lambda>_. zero4)(0 := \<lparr>sx = 1 / 200, sy = 0, sz = 0, sw = 0\<rparr>),
         particle_oldvel := (\<lambda>_. zero4)(0 := \<lparr>sx = 1 / 200, sy = 0, sz = 0, sw = 0\<rparr>)\<rparr>,
       m_pdata := (m_pdata ex_state_one)\<lparr>arrays_vx := (\<lambda>_. 0)(0 := 1 / 200)\<rparr>\<rparr>"

text \<open>Everything the body loops read or write for one body.\<close>

definition body_view ::
  "nat \<Rightarrow> RigidData \<Rightarrow>
     (real \<times> Scalar4 \<times> Scalar4 \<times> Scalar4) \<times> (Scalar4 \<times> Scalar4 \<times> Scalar4 \<times> Scalar4) \<times>
     (Scalar4 \<times> Scalar4 \<times> Scalar4 \<times> Scalar4) \<times> (cint \<times> cint \<times> cint)" where
  "body_view b rd =
     ((body_mass rd b, moment_inertia rd b, force rd b, torque rd b),
      (vel rd b, com rd b, angmom rd b, angvel rd b),
      (orientation rd b, ex_space rd b, ey_space rd b, ez_space rd b),
      (body_imagex rd b, body_imagey rd b, body_imagez rd b))"

definition zero3 :: "Scalar4 \<Rightarrow> bool" where
  "zero3 a = (sx a = 0 \<and> sy a = 0 \<and> sz a = 0)"

text \<open>
  The periodic wrap in the spec's words (4.4, step 2): a drifted coordinate \<open>c\<close> at or
  beyond the high bound is reduced by one box length and the counter incremented by one; a
  coordinate below the low bound is increased by one box length and the counter
  decremented by one; otherwise both are unchanged.
\<close>

definition wrap_once :: "real \<Rightarrow> real \<Rightarrow> real \<Rightarrow> cint \<Rightarrow> real \<Rightarrow> cint \<Rightarrow> bool" where
  "wrap_once lo hi c img c' img' =
     (if c \<ge> hi then c' = c - (hi - lo) \<and> img' = img + 1
      else if c < lo then c' = c + (hi - lo) \<and> img' = img - 1
      else c' = c \<and> img' = img)"

text \<open>The example body after the loop of \<^verbatim>\<open>integrateStepOne\<close>; the example state with
  the body at \<open>xhi - 1/80000\<close>, its rigid data after the loop of \<^verbatim>\<open>integrateStepOne\<close>, and
  its state after \<^verbatim>\<open>integrateStepOne\<close>.\<close>

definition ex_rd_one :: RigidData where
  "ex_rd_one = ex_rd\<lparr>
         vel := (\<lambda>_. zero4)(0 := \<lparr>sx = 1 / 400, sy = 0, sz = 0, sw = 0\<rparr>),
         com := (\<lambda>_. zero4)(0 := \<lparr>sx = 1 / 40000, sy = 0, sz = 0, sw = 0\<rparr>)\<rparr>"

definition ex_wrap :: TwoStepNVERigid where
  "ex_wrap = ex_state\<lparr>m_rigid_data :=
       ex_rd\<lparr>com := (\<lambda>_. \<lparr>sx = 5 - 1 / 80000, sy = 0, sz = 0, sw = 0\<rparr>)\<rparr>\<rparr>"

definition ex_wrap_rd :: RigidData where
  "ex_wrap_rd = ex_rd\<lparr>
         vel := (\<lambda>_. zero4)(0 := \<lparr>sx = 1 / 400, sy = 0, sz = 0, sw = 0\<rparr>),
         com := (\<lambda>_. \<lparr>sx = 5 - 1 / 80000, sy = 0, sz = 0, sw = 0\<rparr>)
                  (0 := \<lparr>sx = 1 / 80000 - 5, sy = 0, sz = 0, sw = 0\<rparr>),
         body_imagex := (\<lambda>_. 0)(0 := 1)\<rparr>"

definition ex_wrap_one :: TwoStepNVERigid where
  "ex_wrap_one =
     ex_state\<lparr>m_rigid_data := ex_wrap_rd\<lparr>
         particle_oldpos := (\<lambda>_. unit_x)(0 := \<lparr>sx = 5 + 1 / 80000, sy = 0, sz = 0, sw = 0\<rparr>),
         particle_oldvel := (\<lambda>_. zero4)(0 := \<lparr>sx = 1 / 400, sy = 0, sz = 0, sw = 0\<rparr>)\<rparr>,
       m_pdata := ex_pd\<lparr>
         arrays_x := (\<lambda>_. 0)(0 := 1 / 80000 - 5),
         arrays_ix := (\<lambda>_. 0)(0 := 1),
         arrays_vx := (\<lambda>_. 0)(0 := 1 / 400)\<rparr>\<rparr>"

subsection \<open>The sums of setup in the spec's words\<close>

text \<open>
  Spec 4.2: "accumulate mass-weighted velocity into COM velocity, accumulate net particle
  force into body force, compute each particle's space-frame offset from COM (rotate its
  fixed local position by the body basis) and accumulate torque = Sigma r x f; if angular
  momentum is uninitialized, also accumulate Sigma r x (m v)." \<open>particle_r\<close> is the offset
  \<open>r\<close> of constituent \<open>j\<close> of a body, \<open>particle_p\<close> its momentum \<open>m v\<close>, \<open>particle_f\<close>
  the net force on it, \<open>cross3\<close> the vector product and \<open>sum3\<close> the componentwise sum
  over a list of constituents.
\<close>

definition cross3 :: "real \<times> real \<times> real \<Rightarrow> real \<times> real \<times> real \<Rightarrow> real \<times> real \<times> real" where
  "cross3 a b =
     (fst (snd a) * snd (snd b) - snd (snd a) * fst (snd b),
      snd (snd a) * fst b - fst a * snd (snd b),
      fst a * fst (snd b) - fst (snd a) * fst b)"

definition sum3 :: "(nat \<Rightarrow> real \<times> real \<times> real) \<Rightarrow> nat list \<Rightarrow> real \<times> real \<times> real" where
  "sum3 f js =
     (sum_list (map (\<lambda>j. fst (f j)) js), sum_list (map (\<lambda>j. fst (snd (f j))) js),
      sum_list (map (\<lambda>j. snd (snd (f j))) js))"

definition particle_r :: "RigidData \<Rightarrow> nat \<Rightarrow> nat \<Rightarrow> real \<times> real \<times> real" where
  "particle_r rd b j = body_to_space rd b (localidx_of rd (b, j))"

definition particle_p :: "ParticleData \<Rightarrow> RigidData \<Rightarrow> nat \<Rightarrow> nat \<Rightarrow> real \<times> real \<times> real" where
  "particle_p pd rd b j =
     (arrays_mass pd (pidx_of rd (b, j)) * arrays_vx pd (pidx_of rd (b, j)),
      arrays_mass pd (pidx_of rd (b, j)) * arrays_vy pd (pidx_of rd (b, j)),
      arrays_mass pd (pidx_of rd (b, j)) * arrays_vz pd (pidx_of rd (b, j)))"

definition particle_f :: "ParticleData \<Rightarrow> RigidData \<Rightarrow> nat \<Rightarrow> nat \<Rightarrow> real \<times> real \<times> real" where
  "particle_f pd rd b j =
     (sx (net_force pd (pidx_of rd (b, j))), sy (net_force pd (pidx_of rd (b, j))),
      sz (net_force pd (pidx_of rd (b, j))))"

definition momentum_sum :: "ParticleData \<Rightarrow> RigidData \<Rightarrow> nat \<Rightarrow> real \<times> real \<times> real" where
  "momentum_sum pd rd b = sum3 (particle_p pd rd b) [0..<body_size rd b]"

definition force_sum :: "ParticleData \<Rightarrow> RigidData \<Rightarrow> nat \<Rightarrow> real \<times> real \<times> real" where
  "force_sum pd rd b = sum3 (particle_f pd rd b) [0..<body_size rd b]"

definition torque_sum :: "ParticleData \<Rightarrow> RigidData \<Rightarrow> nat \<Rightarrow> real \<times> real \<times> real" where
  "torque_sum pd rd b =
     sum3 (\<lambda>j. cross3 (particle_r rd b j) (particle_f pd rd b j)) [0..<body_size rd b]"

definition angmom_sum :: "ParticleData \<Rightarrow> RigidData \<Rightarrow> nat \<Rightarrow> real \<times> real \<times> real" where
  "angmom_sum pd rd b =
     sum3 (\<lambda>j. cross3 (particle_r rd b j) (particle_p pd rd b j)) [0..<body_size rd b]"

definition set3v :: "Scalar4 \<Rightarrow> real \<times> real \<times> real \<Rightarrow> Scalar4" where
  "set3v a v = set3 a (fst v) (fst (snd v)) (snd (snd v))"

definition add3v :: "Scalar4 \<Rightarrow> real \<times> real \<times> real \<Rightarrow> Scalar4" where
  "add3v a v = add3 a (fst v) (fst (snd v)) (snd (snd v))"

text \<open>What the loops of \<^verbatim>\<open>setup\<close> read and do not write, and what they hold for one body.\<close>

definition setup_static ::
  "RigidData \<Rightarrow>
     ((nat \<Rightarrow> real) \<times> (nat \<Rightarrow> nat) \<times> (nat \<Rightarrow> Scalar4) \<times> (nat \<Rightarrow> bool)) \<times>
     ((nat \<Rightarrow> nat) \<times> nat \<times> (nat \<Rightarrow> Scalar4) \<times> nat) \<times>
     ((nat \<Rightarrow> Scalar4) \<times> (nat \<Rightarrow> Scalar4) \<times> (nat \<Rightarrow> Scalar4))" where
  "setup_static rd =
     ((body_mass rd, body_size rd, moment_inertia rd, angmom_init rd),
      (particle_indices rd, indices_pitch rd, particle_pos rd, particle_pos_pitch rd),
      (ex_space rd, ey_space rd, ez_space rd))"

definition setup_dyn :: "nat \<Rightarrow> RigidData \<Rightarrow> Scalar4 \<times> Scalar4 \<times> Scalar4 \<times> Scalar4 \<times> Scalar4" where
  "setup_dyn b rd = (vel rd b, force rd b, torque rd b, angmom rd b, angvel rd b)"

definition setup_view ::
  "nat \<Rightarrow> RigidData \<Rightarrow>
     (((nat \<Rightarrow> real) \<times> (nat \<Rightarrow> nat) \<times> (nat \<Rightarrow> Scalar4) \<times> (nat \<Rightarrow> bool)) \<times>
      ((nat \<Rightarrow> nat) \<times> nat \<times> (nat \<Rightarrow> Scalar4) \<times> nat) \<times>
      ((nat \<Rightarrow> Scalar4) \<times> (nat \<Rightarrow> Scalar4) \<times> (nat \<Rightarrow> Scalar4))) \<times>
     (Scalar4 \<times> Scalar4 \<times> Scalar4 \<times> Scalar4 \<times> Scalar4)" where
  "setup_view b rd = (setup_static rd, setup_dyn b rd)"

text \<open>The basis invariant of the data model (spec 3): "ex/ey/ez form an orthonormal
  [...] basis".\<close>

definition orthonormal :: "Scalar4 \<Rightarrow> Scalar4 \<Rightarrow> Scalar4 \<Rightarrow> bool" where
  "orthonormal ex ey ez =
     (dot3 ex ex = 1 \<and> dot3 ey ey = 1 \<and> dot3 ez ez = 1
      \<and> dot3 ex ey = 0 \<and> dot3 ex ez = 0 \<and> dot3 ey ez = 0)"

text \<open>
  The example integrator before its first step, with the particle at local position
  \<open>(1, 0, 0)\<close> moving with velocity \<open>(0, 1, 0)\<close>, the body's angular momentum preset to
  \<open>(7, 7, 7)\<close> and its flag not set; the rigid data after the loops of \<^verbatim>\<open>setup\<close> and the
  state after \<^verbatim>\<open>setup\<close>; the same with the flag set; a planar body's moments of inertia
  and an angular momentum.
\<close>

definition ex_setup :: TwoStepNVERigid where
  "ex_setup =
     ex_state\<lparr>m_rigid_data := ex_rd\<lparr>angmom_init := (\<lambda>_. False),
                  angmom := (\<lambda>_. \<lparr>sx = 7, sy = 7, sz = 7, sw = 0\<rparr>),
                  particle_pos := (\<lambda>_. unit_x)\<rparr>,
              m_pdata := ex_pd\<lparr>arrays_vy := (\<lambda>_. 1)\<rparr>,
              m_first_step := True, m_n_bodies := 0\<rparr>"

definition ex_setup_rd :: RigidData where
  "ex_setup_rd =
     ex_rd\<lparr>angmom_init := (\<lambda>_. False), particle_pos := (\<lambda>_. unit_x),
           vel := (\<lambda>_. zero4)(0 := \<lparr>sx = 0, sy = 1, sz = 0, sw = 0\<rparr>),
           angmom := (\<lambda>_. \<lparr>sx = 7, sy = 7, sz = 7, sw = 0\<rparr>)(0 := \<lparr>sx = 0, sy = 0, sz = 2, sw = 0\<rparr>),
           angvel := (\<lambda>_. zero4)(0 := \<lparr>sx = 0, sy = 0, sz = 2, sw = 0\<rparr>)\<rparr>"

definition ex_setup_after :: TwoStepNVERigid where
  "ex_setup_after =
     ex_setup\<lparr>m_rigid_data := ex_setup_rd\<lparr>
                  particle_oldvel := (\<lambda>_. zero4)(0 := \<lparr>sx = 0, sy = 3, sz = 0, sw = 0\<rparr>)\<rparr>,
               m_pdata := ex_pd\<lparr>arrays_vy := (\<lambda>_. 1)(0 := 3),
                                 net_virial := (\<lambda>_. 0)(0 := - (1 / 6))\<rparr>,
               m_n_bodies := 1,
               m_conjqm := (\<lambda>_. zero4)(0 := \<lparr>sx = 0, sy = 0, sz = 0, sw = 4\<rparr>)\<rparr>"

definition ex_setup_f :: TwoStepNVERigid where
  "ex_setup_f = ex_setup\<lparr>m_rigid_data := (m_rigid_data ex_setup)\<lparr>angmom_init := (\<lambda>_. True)\<rparr>\<rparr>"

definition ex_setup_f_rd :: RigidData where
  "ex_setup_f_rd =
     ex_rd\<lparr>particle_pos := (\<lambda>_. unit_x),
           vel := (\<lambda>_. zero4)(0 := \<lparr>sx = 0, sy = 1, sz = 0, sw = 0\<rparr>),
           angmom := (\<lambda>_. \<lparr>sx = 7, sy = 7, sz = 7, sw = 0\<rparr>),
           angvel := (\<lambda>_. zero4)(0 := \<lparr>sx = 7, sy = 7, sz = 7, sw = 0\<rparr>)\<rparr>"

definition ex_setup_f_after :: TwoStepNVERigid where
  "ex_setup_f_after =
     ex_setup\<lparr>m_rigid_data := ex_setup_f_rd\<lparr>
                  particle_oldvel := (\<lambda>_. zero4)(0 := \<lparr>sx = 0, sy = 8, sz = - 7, sw = 0\<rparr>)\<rparr>,
               m_pdata := ex_pd\<lparr>arrays_vy := (\<lambda>_. 1)(0 := 8), arrays_vz := (\<lambda>_. 0)(0 := - 7),
                                 net_virial := (\<lambda>_. 0)(0 := - (1 / 6))\<rparr>,
               m_n_bodies := 1,
               m_conjqm := (\<lambda>_. zero4)(0 := \<lparr>sx = 0, sy = 14, sz = 14, sw = 14\<rparr>)\<rparr>"

definition ex_planar :: Scalar4 where
  "ex_planar = \<lparr>sx = 0, sy = 1, sz = 1, sw = 0\<rparr>"

definition ex_am :: Scalar4 where
  "ex_am = \<lparr>sx = 3, sy = 4, sz = 5, sw = 0\<rparr>"

subsection \<open>The projected position in the spec's words\<close>

text \<open>
  Spec 4.5: "rotated local offset r = basis . local_position", the basis vectors being the
  "columns of the rotation matrix" (3): the offset is the local x coordinate times \<open>ex\<close>
  plus the local y coordinate times \<open>ey\<close> plus the local z coordinate times \<open>ez\<close>.
  \<open>scale3\<close> is a vector times a scalar, \<open>plus3\<close> the sum of two vectors.
\<close>

definition scale3 :: "real \<Rightarrow> Scalar4 \<Rightarrow> real \<times> real \<times> real" where
  "scale3 a v = (a * sx v, a * sy v, a * sz v)"

definition plus3 :: "real \<times> real \<times> real \<Rightarrow> real \<times> real \<times> real \<Rightarrow> real \<times> real \<times> real" where
  "plus3 u w = (fst u + fst w, fst (snd u) + fst (snd w), snd (snd u) + snd (snd w))"

definition basis_rotate :: "Scalar4 \<Rightarrow> Scalar4 \<Rightarrow> Scalar4 \<Rightarrow> Scalar4 \<Rightarrow> real \<times> real \<times> real" where
  "basis_rotate ex ey ez p =
     plus3 (scale3 (sx p) ex) (plus3 (scale3 (sy p) ey) (scale3 (sz p) ez))"

subsection \<open>Example states for the projection and for the first step\<close>

text \<open>
  The example body moving with velocity \<open>(3, 0, 0)\<close> while every particle has the velocity
  \<open>(5, 0, 0)\<close>, and the state after \<^verbatim>\<open>set_v\<close>: particle 0, the only constituent, takes the
  velocity of the body; particle 1 belongs to no body.
\<close>

definition ex_moving :: TwoStepNVERigid where
  "ex_moving =
     ex_state\<lparr>m_rigid_data := ex_rd\<lparr>vel := (\<lambda>_. \<lparr>sx = 3, sy = 0, sz = 0, sw = 0\<rparr>)\<rparr>,
              m_pdata := ex_pd\<lparr>arrays_vx := (\<lambda>_. 5)\<rparr>\<rparr>"

definition ex_moving_v :: TwoStepNVERigid where
  "ex_moving_v =
     ex_state\<lparr>m_rigid_data := ex_rd\<lparr>vel := (\<lambda>_. \<lparr>sx = 3, sy = 0, sz = 0, sw = 0\<rparr>),
                  particle_oldvel := (\<lambda>_. zero4)(0 := \<lparr>sx = 3, sy = 0, sz = 0, sw = 0\<rparr>)\<rparr>,
              m_pdata := ex_pd\<lparr>arrays_vx := (\<lambda>_. 5)(0 := 3),
                                net_virial := (\<lambda>_. 0)(0 := 1199 / 6)\<rparr>\<rparr>"

text \<open>
  The example body turned by half a turn about the z axis (orientation \<open>half_turn_z\<close>,
  basis \<open>(-1, 0, 0)\<close>, \<open>(0, -1, 0)\<close>, \<open>(0, 0, 1)\<close>), with its centre of mass at
  \<open>(-4.5, 4, 0)\<close>, image counters \<open>(2, 3, 7)\<close> and its particle at the local position
  \<open>(1, -2, 0)\<close>: the rotated offset is \<open>(-1, 2, 0)\<close>, so the particle leaves the box
  from -5 to 5 below on x and above on y. \<open>ex_proj_xv\<close> is the state after \<^verbatim>\<open>set_xv\<close>.
\<close>

definition half_turn_z :: Scalar4 where
  "half_turn_z = \<lparr>sx = 0, sy = 0, sz = 0, sw = 1\<rparr>"

definition ex_proj :: TwoStepNVERigid where
  "ex_proj =
     ex_state\<lparr>m_rigid_data := ex_rd\<lparr>
        particle_pos := (\<lambda>_. \<lparr>sx = 1, sy = - 2, sz = 0, sw = 0\<rparr>),
        com := (\<lambda>_. \<lparr>sx = - (9 / 2), sy = 4, sz = 0, sw = 0\<rparr>),
        orientation := (\<lambda>_. half_turn_z),
        ex_space := (\<lambda>_. \<lparr>sx = - 1, sy = 0, sz = 0, sw = 0\<rparr>),
        ey_space := (\<lambda>_. \<lparr>sx = 0, sy = - 1, sz = 0, sw = 0\<rparr>),
        body_imagex := (\<lambda>_. 2), body_imagey := (\<lambda>_. 3), body_imagez := (\<lambda>_. 7)\<rparr>\<rparr>"

definition ex_proj_xv :: TwoStepNVERigid where
  "ex_proj_xv =
     ex_state\<lparr>m_rigid_data := ex_rd\<lparr>
        particle_pos := (\<lambda>_. \<lparr>sx = 1, sy = - 2, sz = 0, sw = 0\<rparr>),
        com := (\<lambda>_. \<lparr>sx = - (9 / 2), sy = 4, sz = 0, sw = 0\<rparr>),
        orientation := (\<lambda>_. half_turn_z),
        ex_space := (\<lambda>_. \<lparr>sx = - 1, sy = 0, sz = 0, sw = 0\<rparr>),
        ey_space := (\<lambda>_. \<lparr>sx = 0, sy = - 1, sz = 0, sw = 0\<rparr>),
        body_imagex := (\<lambda>_. 2), body_imagey := (\<lambda>_. 3), body_imagez := (\<lambda>_. 7),
        particle_oldpos := (\<lambda>_. unit_x)(0 := \<lparr>sx = 29 / 2, sy = 36, sz = 70, sw = 0\<rparr>)\<rparr>,
      m_pdata := ex_pd\<lparr>
        arrays_x := (\<lambda>_. 0)(0 := 9 / 2), arrays_y := (\<lambda>_. 0)(0 := - 4),
        arrays_ix := (\<lambda>_. 0)(0 := 1), arrays_iy := (\<lambda>_. 0)(0 := 4),
        arrays_iz := (\<lambda>_. 0)(0 := 7),
        tag_orientation := (\<lambda>_. unit_x)(0 := half_turn_z)\<rparr>,
      m_virial := (\<lambda>_. 0)(0 := - (1 / 6))\<rparr>"

text \<open>
  The example integrator before its first step: the particle is at rest under the net
  force \<open>(1, 0, 0)\<close>, and the velocity, force and torque arrays of the bodies hold the
  values \<open>stale4\<close>, which \<^verbatim>\<open>setup\<close> replaces for the bodies of the group. \<open>ex_fresh_rd\<close>
  is the rigid data after the loops of \<^verbatim>\<open>setup\<close>, \<open>ex_fresh_setup\<close> the state after
  \<^verbatim>\<open>setup\<close>, \<open>ex_fresh_rd_one\<close> the rigid data after the loop of \<^verbatim>\<open>integrateStepOne\<close>,
  \<open>ex_fresh_one\<close> the state after \<^verbatim>\<open>integrateStepOne\<close> and \<open>ex_fresh_one_two\<close> the
  state after \<^verbatim>\<open>integrateStepTwo\<close>.
\<close>

definition stale4 :: Scalar4 where
  "stale4 = \<lparr>sx = 9, sy = 9, sz = 9, sw = 0\<rparr>"

definition ex_fresh :: TwoStepNVERigid where
  "ex_fresh =
     ex_state\<lparr>m_rigid_data := ex_rd\<lparr>vel := (\<lambda>_. stale4), force := (\<lambda>_. stale4),
                                     torque := (\<lambda>_. stale4)\<rparr>,
              m_first_step := True, m_n_bodies := 0\<rparr>"

definition ex_fresh_rd :: RigidData where
  "ex_fresh_rd =
     ex_rd\<lparr>vel := (\<lambda>_. stale4)(0 := zero4), force := (\<lambda>_. stale4)(0 := unit_x),
           torque := (\<lambda>_. stale4)(0 := zero4)\<rparr>"

definition ex_fresh_setup :: TwoStepNVERigid where
  "ex_fresh_setup =
     ex_state\<lparr>m_rigid_data := ex_fresh_rd,
              m_pdata := ex_pd\<lparr>net_virial := (\<lambda>_. 0)(0 := - (1 / 6))\<rparr>,
              m_first_step := True\<rparr>"

definition ex_fresh_rd_one :: RigidData where
  "ex_fresh_rd_one =
     ex_fresh_rd\<lparr>vel := (\<lambda>_. stale4)(0 := \<lparr>sx = 1 / 400, sy = 0, sz = 0, sw = 0\<rparr>),
                 com := (\<lambda>_. zero4)(0 := \<lparr>sx = 1 / 40000, sy = 0, sz = 0, sw = 0\<rparr>)\<rparr>"

definition ex_fresh_one :: TwoStepNVERigid where
  "ex_fresh_one =
     ex_state\<lparr>m_rigid_data := ex_fresh_rd_one\<lparr>
         particle_oldpos := (\<lambda>_. unit_x)(0 := \<lparr>sx = 1 / 40000, sy = 0, sz = 0, sw = 0\<rparr>),
         particle_oldvel := (\<lambda>_. zero4)(0 := \<lparr>sx = 1 / 400, sy = 0, sz = 0, sw = 0\<rparr>)\<rparr>,
       m_pdata := ex_pd\<lparr>
         arrays_x := (\<lambda>_. 0)(0 := 1 / 40000),
         arrays_vx := (\<lambda>_. 0)(0 := 1 / 400),
         net_virial := (\<lambda>_. 0)(0 := - (1 / 6))\<rparr>\<rparr>"

definition ex_fresh_one_two :: TwoStepNVERigid where
  "ex_fresh_one_two =
     ex_fresh_one\<lparr>m_rigid_data := (m_rigid_data ex_fresh_one)\<lparr>
         vel := (\<lambda>_. stale4)(0 := \<lparr>sx = 1 / 200, sy = 0, sz = 0, sw = 0\<rparr>),
         particle_oldvel := (\<lambda>_. zero4)(0 := \<lparr>sx = 1 / 200, sy = 0, sz = 0, sw = 0\<rparr>)\<rparr>,
       m_pdata := (m_pdata ex_fresh_one)\<lparr>arrays_vx := (\<lambda>_. 0)(0 := 1 / 200)\<rparr>\<rparr>"

section \<open>Properties\<close>

subsection \<open>Errors and the member loop\<close>

lemma bind_err_Inr [simp]: "bind_err (Inr v) f = f v"
  by (simp add: bind_err_def)

lemma bind_err_Inl [simp]: "bind_err (Inl e) f = Inl e"
  by (simp add: bind_err_def)

lemma bind_err_eq_Inr: "(bind_err r f = Inr y) = (\<exists>v. r = Inr v \<and> f v = Inr y)"
  by (cases r) simp_all

lemma member_loop_eq:
  "member_loop g js =
     (if \<forall>i \<in> set js. i < length (member_idx g) then Inr (map (\<lambda>i. member_idx g ! i) js)
      else Inl AssertionFailed)"
proof (induction js)
  case Nil
  show ?case by simp
next
  case (Cons i js)
  show ?case
  proof (cases "i < length (member_idx g)")
    case True
    then show ?thesis using Cons by (simp add: getMemberIndex_def getNumMembers_def)
  next
    case False
    then show ?thesis by (simp add: getMemberIndex_def getNumMembers_def)
  qed
qed

text \<open>The loop over the first \<open>n\<close> members visits them in order, and fails when the
  group has fewer than \<open>n\<close>.\<close>

lemma loop_bodies_eq:
  "loop_bodies g n =
     (if n \<le> getNumMembers g then Inr (take n (member_idx g)) else Inl AssertionFailed)"
proof (cases "n \<le> length (member_idx g)")
  case True
  have "take n (member_idx g) = take n (map (\<lambda>i. member_idx g ! i) [0..<length (member_idx g)])"
    by (simp add: map_nth)
  also have "\<dots> = map (\<lambda>i. member_idx g ! i) [0..<n]"
    using True by (simp add: take_map)
  finally have "map (\<lambda>i. member_idx g ! i) [0..<n] = take n (member_idx g)"
    by simp
  then show ?thesis using True
    by (simp add: loop_bodies_def member_loop_eq getNumMembers_def)
next
  case False
  then have "\<not> (\<forall>i \<in> set [0..<n]. i < length (member_idx g))"
    by (auto intro: bexI [of _ "length (member_idx g)"])
  then show ?thesis using False
    by (simp add: loop_bodies_def member_loop_eq getNumMembers_def)
qed

lemma fold_invariant:
  assumes "\<And>a x. g (f a x) = g x"
  shows "g (fold f as x) = g x"
  by (induction as arbitrary: x) (simp_all add: assms)

subsection \<open>Degrees of freedom\<close>

lemma dof_one_spec: "dof_one d inertia = dof_spec d inertia"
  by (simp add: dof_one_def dof_spec_def Let_def)

lemma fold_getNDOF_body:
  "fold (getNDOF_body s) bs acc =
     acc + sum_list (map (\<lambda>b. dof_spec (n_dimensions s) (moment_inertia (m_rigid_data s) b))
                      (filter (isMember (m_body_group s)) bs))"
  by (induction bs arbitrary: acc) (simp_all add: getNDOF_body_def dof_one_spec)

text \<open>
  C6. For every query group, \<^verbatim>\<open>getNDOF\<close> returns the sum, over the qualifying bodies, of
  the degrees of freedom of the spec (6 minus the number of zero principal moments in
  three dimensions, 3 minus one for a zero z moment otherwise), and returns the
  integrator unchanged. It never fails.
\<close>

theorem getNDOF_sum:
  "getNDOF query_group s =
     Inr (sum_list (map (\<lambda>b. dof_spec (n_dimensions s) (moment_inertia (m_rigid_data s) b))
                     (qualifying_bodies s query_group)), s)"
  by (simp add: getNDOF_def Let_def loop_bodies_eq getNumMembers_def fold_getNDOF_body
        qualifying_bodies_def)

theorem getNDOF_sum_witness:
  "getNDOF [0] ex_state = Inr (6, ex_state)"
  using getNDOF_sum [of "[0]" ex_state]
  by (simp add: qualifying_bodies_def new_RigidBodyGroup_def groupIntersection_def
        body_in_group_def isMember_def dof_spec_def ex_state_def ex_rd_def)

subsection \<open>The empty group\<close>

text \<open>
  C7. When the body group has no members, \<^verbatim>\<open>integrateStepOne\<close> returns without an
  error and leaves the rigid data, the particle data and the integrator's own arrays as
  they were, and \<^verbatim>\<open>integrateStepTwo\<close> after it returns the state it was given. The
  integrator is either before its first step, or \<^verbatim>\<open>setup\<close> has cached the member count 0
  in \<^verbatim>\<open>m_n_bodies\<close>, the variable that both early returns test.
\<close>

theorem empty_group_noop:
  assumes "member_idx (m_body_group s) = []"
    and "m_first_step s \<or> m_n_bodies s = 0"
  shows "\<exists>s1. integrateStepOne t s = Inr s1
           \<and> m_rigid_data s1 = m_rigid_data s \<and> m_pdata s1 = m_pdata s
           \<and> m_conjqm s1 = m_conjqm s \<and> m_virial s1 = m_virial s
           \<and> integrateStepTwo t s1 = Inr s1"
proof (cases "m_first_step s")
  case True
  have "setup_nve s = Inr (s\<lparr>m_n_bodies := 0\<rparr>)"
    using assms(1) by (simp add: setup_nve_def getNumMembers_def Let_def)
  then have "integrateStepOne t s = Inr (s\<lparr>m_n_bodies := 0, m_first_step := False\<rparr>)"
    using True by (simp add: integrateStepOne_def)
  then show ?thesis by (simp add: integrateStepTwo_def)
next
  case False
  then have "integrateStepOne t s = Inr s"
    using assms(2) by (simp add: integrateStepOne_def)
  then show ?thesis using False assms(2) by (simp add: integrateStepTwo_def)
qed

theorem empty_group_noop_witness:
  "member_idx (m_body_group ex_empty) = [] \<and> (m_first_step ex_empty \<or> m_n_bodies ex_empty = 0)
   \<and> (\<exists>s1. integrateStepOne 0 ex_empty = Inr s1
           \<and> m_rigid_data s1 = m_rigid_data ex_empty \<and> m_pdata s1 = m_pdata ex_empty
           \<and> m_conjqm s1 = m_conjqm ex_empty \<and> m_virial s1 = m_virial ex_empty
           \<and> integrateStepTwo 0 s1 = Inr s1)"
  using empty_group_noop [of ex_empty 0] by (simp add: ex_empty_def)

subsection \<open>What set_v leaves alone\<close>

lemma set_v_particle_erase: "set_v_erase (set_v_particle b j s) = set_v_erase s"
  unfolding set_v_erase_def set_v_particle_def Let_def
  by (simp split: prod.splits)

lemma set_v_body_erase: "set_v_erase (set_v_body b s) = set_v_erase s"
  unfolding set_v_body_def
  by (rule fold_invariant) (rule set_v_particle_erase)

lemma fold_set_v_body_erase: "set_v_erase (fold set_v_body bs s) = set_v_erase s"
  by (rule fold_invariant) (rule set_v_body_erase)

lemma set_v_erase: "set_v t s = Inr s' \<Longrightarrow> set_v_erase s' = set_v_erase s"
  by (auto simp: set_v_def bind_err_eq_Inr fold_set_v_body_erase)

lemma set_v_erase_D:
  assumes "set_v_erase s' = set_v_erase s"
  shows "s' = s\<lparr>m_rigid_data := (m_rigid_data s)\<lparr>particle_oldvel := particle_oldvel (m_rigid_data s')\<rparr>,
                m_pdata := (m_pdata s)\<lparr>arrays_vx := arrays_vx (m_pdata s'),
                                       arrays_vy := arrays_vy (m_pdata s'),
                                       arrays_vz := arrays_vz (m_pdata s'),
                                       net_virial := net_virial (m_pdata s')\<rparr>\<rparr>"
proof -
  let ?u = "\<lambda>x. x\<lparr>m_rigid_data := (m_rigid_data x)\<lparr>particle_oldvel := particle_oldvel (m_rigid_data s')\<rparr>,
                m_pdata := (m_pdata x)\<lparr>arrays_vx := arrays_vx (m_pdata s'),
                                       arrays_vy := arrays_vy (m_pdata s'),
                                       arrays_vz := arrays_vz (m_pdata s'),
                                       net_virial := net_virial (m_pdata s')\<rparr>\<rparr>"
  have "s' = ?u s'" by simp
  also have "\<dots> = ?u (set_v_erase s')" by (simp add: set_v_erase_def)
  also have "\<dots> = ?u (set_v_erase s)" by (simp only: assms)
  also have "\<dots> = ?u s" by (simp add: set_v_erase_def)
  finally show ?thesis .
qed

lemma set_v_total: "m_n_bodies s \<le> getNumMembers (m_body_group s) \<Longrightarrow> \<exists>s'. set_v t s = Inr s'"
  by (simp add: set_v_def loop_bodies_eq)

subsection \<open>What the force aggregation and the second half-kick leave alone\<close>

lemma setup_reset_erase: "kick_erase (setup_reset b rd) = kick_erase rd"
  by (simp add: kick_erase_def setup_reset_def Let_def)

lemma setup_particle_erase: "kick_erase (setup_particle pd b j rd) = kick_erase rd"
  by (simp add: kick_erase_def setup_particle_def Let_def split: prod.splits)

lemma setup_body_erase: "kick_erase (setup_body pd b rd) = kick_erase rd"
  unfolding setup_body_def by (rule fold_invariant) (rule setup_particle_erase)

lemma setup_velocity_erase: "kick_erase (setup_velocity b rd) = kick_erase rd"
  by (simp add: kick_erase_def setup_velocity_def Let_def)

lemma force_reset_erase: "kick_erase (force_reset b rd) = kick_erase rd"
  by (simp add: kick_erase_def force_reset_def)

lemma force_particle_erase: "kick_erase (force_particle pd b j rd) = kick_erase rd"
  by (simp add: kick_erase_def force_particle_def Let_def split: prod.splits)

lemma force_body_erase: "kick_erase (force_body pd b rd) = kick_erase rd"
  unfolding force_body_def by (rule fold_invariant) (rule force_particle_erase)

lemma stepTwo_body_erase: "kick_erase (stepTwo_body dt b rd) = kick_erase rd"
  by (simp add: kick_erase_def stepTwo_body_def Let_def)

lemma stepTwo_erase_rd:
  "kick_erase rd' = kick_erase (m_rigid_data s) \<Longrightarrow>
   stepTwo_erase (s\<lparr>m_rigid_data := rd'\<rparr>) = stepTwo_erase s"
proof -
  assume a: "kick_erase rd' = kick_erase (m_rigid_data s)"
  have "kick_erase (rd'\<lparr>particle_oldvel := (\<lambda>_. zero4)\<rparr>) = (kick_erase rd')\<lparr>particle_oldvel := (\<lambda>_. zero4)\<rparr>"
    by (simp add: kick_erase_def)
  also have "\<dots> = (kick_erase (m_rigid_data s))\<lparr>particle_oldvel := (\<lambda>_. zero4)\<rparr>"
    by (simp only: a)
  also have "\<dots> = kick_erase ((m_rigid_data s)\<lparr>particle_oldvel := (\<lambda>_. zero4)\<rparr>)"
    by (simp add: kick_erase_def)
  finally show ?thesis by (simp add: stepTwo_erase_def)
qed

lemma computeForceAndTorque_erase:
  "computeForceAndTorque t s = Inr s' \<Longrightarrow> stepTwo_erase s' = stepTwo_erase s"
  by (auto simp: computeForceAndTorque_def bind_err_eq_Inr fold_invariant force_body_erase
        force_reset_erase intro!: stepTwo_erase_rd)

lemma computeForceAndTorque_other:
  "computeForceAndTorque t s = Inr s' \<Longrightarrow> s' = s\<lparr>m_rigid_data := m_rigid_data s'\<rparr>"
  by (auto simp: computeForceAndTorque_def bind_err_eq_Inr)

lemma set_v_stepTwo_erase:
  assumes "set_v_erase s' = set_v_erase s"
  shows "stepTwo_erase s' = stepTwo_erase s"
proof -
  have "stepTwo_erase s' = stepTwo_erase (set_v_erase s')"
    by (simp add: stepTwo_erase_def set_v_erase_def kick_erase_def)
  also have "\<dots> = stepTwo_erase (set_v_erase s)" by (simp only: assms)
  also have "\<dots> = stepTwo_erase s"
    by (simp add: stepTwo_erase_def set_v_erase_def kick_erase_def)
  finally show ?thesis .
qed

lemma integrateStepTwo_erase:
  assumes "integrateStepTwo t s = Inr s'"
  shows "stepTwo_erase s' = stepTwo_erase s"
proof (cases "m_n_bodies s = 0")
  case True
  then show ?thesis using assms by (simp add: integrateStepTwo_def)
next
  case False
  then obtain s1 bodies where 1: "computeForceAndTorque t s = Inr s1"
    and 2: "set_v t (s1\<lparr>m_rigid_data := fold (stepTwo_body (m_deltaT s1)) bodies (m_rigid_data s1)\<rparr>) = Inr s'"
    using assms by (auto simp: integrateStepTwo_def bind_err_eq_Inr)
  have "stepTwo_erase s' = stepTwo_erase (s1\<lparr>m_rigid_data := fold (stepTwo_body (m_deltaT s1)) bodies (m_rigid_data s1)\<rparr>)"
    by (rule set_v_stepTwo_erase) (rule set_v_erase [OF 2])
  also have "\<dots> = stepTwo_erase s1"
    by (rule stepTwo_erase_rd) (simp add: fold_invariant stepTwo_body_erase)
  also have "\<dots> = stepTwo_erase s" by (rule computeForceAndTorque_erase [OF 1])
  finally show ?thesis .
qed

lemma stepTwo_erase_D:
  assumes "stepTwo_erase s' = stepTwo_erase s"
  shows "s' = s\<lparr>m_rigid_data := (m_rigid_data s)\<lparr>
                   force := force (m_rigid_data s'), torque := torque (m_rigid_data s'),
                   vel := vel (m_rigid_data s'), angmom := angmom (m_rigid_data s'),
                   angvel := angvel (m_rigid_data s'),
                   particle_oldvel := particle_oldvel (m_rigid_data s')\<rparr>,
                m_pdata := (m_pdata s)\<lparr>arrays_vx := arrays_vx (m_pdata s'),
                                       arrays_vy := arrays_vy (m_pdata s'),
                                       arrays_vz := arrays_vz (m_pdata s'),
                                       net_virial := net_virial (m_pdata s')\<rparr>\<rparr>"
proof -
  let ?u = "\<lambda>x. x\<lparr>m_rigid_data := (m_rigid_data x)\<lparr>
                   force := force (m_rigid_data s'), torque := torque (m_rigid_data s'),
                   vel := vel (m_rigid_data s'), angmom := angmom (m_rigid_data s'),
                   angvel := angvel (m_rigid_data s'),
                   particle_oldvel := particle_oldvel (m_rigid_data s')\<rparr>,
                m_pdata := (m_pdata x)\<lparr>arrays_vx := arrays_vx (m_pdata s'),
                                       arrays_vy := arrays_vy (m_pdata s'),
                                       arrays_vz := arrays_vz (m_pdata s'),
                                       net_virial := net_virial (m_pdata s')\<rparr>\<rparr>"
  have "s' = ?u s'" by simp
  also have "\<dots> = ?u (stepTwo_erase s')" by (simp add: stepTwo_erase_def kick_erase_def)
  also have "\<dots> = ?u (stepTwo_erase s)" by (simp only: assms)
  also have "\<dots> = ?u s" by (simp add: stepTwo_erase_def kick_erase_def)
  finally show ?thesis .
qed

subsection \<open>The example state, evaluated\<close>

lemmas ex_defs = ex_state_def ex_rd_def ex_pd_def zero4_def unit_x_def unit_y_def unit_z_def

lemma fun_upd_const: "(\<lambda>_. c)(i := c) = (\<lambda>_. c)"
  by (rule ext) simp

lemma upt_0_1: "[0..<1] = [0]"
  by (simp add: upt_rec)

lemmas eval_defs = loop_bodies_eq getNumMembers_def Let_def upt_0_1 fun_upd_const
  set3_def add3_def body_to_space_def virial_term_def fc_component_def
  computeAngularVelocity_def angvel_from_body_def angbody_def dot3_def

lemma set_v_ex: "set_v 0 ex_state = Inr ex_state_v"
  by (simp add: set_v_def set_v_body_def set_v_particle_def eval_defs ex_defs ex_state_v_def)

lemma stepTwo_ex: "integrateStepTwo 0 ex_state = Inr ex_state_two"
  by (simp add: integrateStepTwo_def computeForceAndTorque_def set_v_def set_v_body_def
        set_v_particle_def force_reset_def force_body_def force_particle_def stepTwo_body_def
        eval_defs ex_defs ex_state_two_def)

lemma quat_ex:
  "normalize (quatquat \<lparr>sx = 1, sy = 0, sz = 0, sw = 0\<rparr> \<lparr>sx = 1, sy = 0, sz = 0, sw = 0\<rparr>)
     = \<lparr>sx = 1, sy = 0, sz = 0, sw = 0\<rparr>"
  by (simp add: normalize_def quatquat_def quat_norm_def)

lemma wrap_axis_inside: "lo \<le> c \<Longrightarrow> c < hi \<Longrightarrow> wrap_axis lo hi L c i = (c, i)"
  by (simp add: wrap_axis_def)

lemma wrap_axis_high: "hi \<le> c \<Longrightarrow> wrap_axis lo hi L c i = (c - L, i + 1)"
  by (simp add: wrap_axis_def)

lemma wrap_axis_low: "c < lo \<Longrightarrow> c < hi \<Longrightarrow> wrap_axis lo hi L c i = (c + L, i - 1)"
  by (simp add: wrap_axis_def)

lemma set_xv_particle_ex: "set_xv_particle 0 0 ex_state = ex_state_xv"
  by (simp add: set_xv_particle_def eval_defs ex_defs ex_state_xv_def quat_ex wrap_axis_inside)

lemma set_xv_ex: "set_xv 0 ex_state = Inr ex_state_xv"
proof -
  have "set_xv 0 ex_state = Inr (set_xv_particle 0 0 ex_state)"
    by (simp add: set_xv_def set_xv_body_def loop_bodies_eq getNumMembers_def upt_0_1
          box_assert_def ex_defs)
  then show ?thesis by (simp only: set_xv_particle_ex)
qed

lemma visited_ex: "visited ex_state = [0]"
  by (simp add: visited_def ex_state_def)

lemma constituents_ex: "constituents (m_rigid_data ex_state) [0] = [(0, 0)]"
  by (simp add: constituents_def ex_state_def ex_rd_def upt_0_1)

subsection \<open>What integrateStepTwo writes\<close>

text \<open>
  C5, as amended. \<^verbatim>\<open>integrateStepTwo\<close> writes only the body force, torque, velocity, angular
  momentum and angular velocity, the particle velocities together with their cached copy
  \<^verbatim>\<open>particle_oldvel\<close>, and the net virial: the state it returns is the state it was given
  with these arrays replaced. The centre of mass, orientation, basis vectors and image
  counters of every body, and the position, image counters and orientation of every
  particle, are unchanged.
\<close>

theorem integrateStepTwo_writes:
  assumes "integrateStepTwo t s = Inr s'"
  shows "s' = s\<lparr>m_rigid_data := (m_rigid_data s)\<lparr>
                   force := force (m_rigid_data s'), torque := torque (m_rigid_data s'),
                   vel := vel (m_rigid_data s'), angmom := angmom (m_rigid_data s'),
                   angvel := angvel (m_rigid_data s'),
                   particle_oldvel := particle_oldvel (m_rigid_data s')\<rparr>,
                m_pdata := (m_pdata s)\<lparr>arrays_vx := arrays_vx (m_pdata s'),
                                       arrays_vy := arrays_vy (m_pdata s'),
                                       arrays_vz := arrays_vz (m_pdata s'),
                                       net_virial := net_virial (m_pdata s')\<rparr>\<rparr>"
  by (rule stepTwo_erase_D) (rule integrateStepTwo_erase [OF assms])

theorem integrateStepTwo_writes_witness:
  "integrateStepTwo 0 ex_state = Inr ex_state_two
   \<and> ex_state_two = ex_state\<lparr>m_rigid_data := (m_rigid_data ex_state)\<lparr>
                   force := force (m_rigid_data ex_state_two), torque := torque (m_rigid_data ex_state_two),
                   vel := vel (m_rigid_data ex_state_two), angmom := angmom (m_rigid_data ex_state_two),
                   angvel := angvel (m_rigid_data ex_state_two),
                   particle_oldvel := particle_oldvel (m_rigid_data ex_state_two)\<rparr>,
                m_pdata := (m_pdata ex_state)\<lparr>arrays_vx := arrays_vx (m_pdata ex_state_two),
                                       arrays_vy := arrays_vy (m_pdata ex_state_two),
                                       arrays_vz := arrays_vz (m_pdata ex_state_two),
                                       net_virial := net_virial (m_pdata ex_state_two)\<rparr>\<rparr>"
  by (rule conjI [OF stepTwo_ex integrateStepTwo_writes [OF stepTwo_ex]])

text \<open>
  C5 as stated fails: on the example state \<^verbatim>\<open>integrateStepTwo\<close> changes the cached old
  velocity of particle 0, which is not among the quantities the claim lets it mutate.
\<close>

theorem integrateStepTwo_oldvel_counterexample:
  "integrateStepTwo 0 ex_state = Inr ex_state_two
   \<and> particle_oldvel (m_rigid_data ex_state_two) 0 \<noteq> particle_oldvel (m_rigid_data ex_state) 0"
proof -
  have "integrateStepTwo 0 ex_state = Inr ex_state_two"
    by (simp add: integrateStepTwo_def computeForceAndTorque_def set_v_def set_v_body_def
          set_v_particle_def force_reset_def force_body_def force_particle_def stepTwo_body_def
          eval_defs ex_defs ex_state_two_def)
  moreover have "particle_oldvel (m_rigid_data ex_state_two) 0 \<noteq> particle_oldvel (m_rigid_data ex_state) 0"
    by (simp add: ex_state_two_def ex_defs)
  ultimately show ?thesis by simp
qed

subsection \<open>Loops that touch one index at a time\<close>

lemma fold_other:
  assumes "\<And>c x. I x \<Longrightarrow> c \<in> set bs \<Longrightarrow> I (f c x) \<and> v (f c x) = v x" and "I x"
  shows "I (fold f bs x) \<and> v (fold f bs x) = v x"
  using assms
proof (induction bs arbitrary: x)
  case Nil
  then show ?case by simp
next
  case (Cons a bs)
  have 1: "I (f a x) \<and> v (f a x) = v x" using Cons.prems by simp
  have "I (fold f bs (f a x)) \<and> v (fold f bs (f a x)) = v (f a x)"
    by (rule Cons.IH) (use Cons.prems 1 in auto)
  then show ?case using 1 by simp
qed

lemma fold_local:
  assumes inv: "\<And>c x. I x \<Longrightarrow> I (f c x)"
    and other: "\<And>c x. I x \<Longrightarrow> c \<in> set bs \<Longrightarrow> c \<noteq> b \<Longrightarrow> v (f c x) = v x"
    and loc: "\<And>x y. I x \<Longrightarrow> I y \<Longrightarrow> v x = v y \<Longrightarrow> v (f b x) = v (f b y)"
    and "distinct bs" and "b \<in> set bs" and "I x"
  shows "v (fold f bs x) = v (f b x)"
  using assms(4-) other
proof (induction bs arbitrary: x)
  case Nil
  then show ?case by simp
next
  case (Cons a bs)
  show ?case
  proof (cases "a = b")
    case True
    then have nb: "b \<notin> set bs" using Cons.prems(1) by simp
    have "I (fold f bs (f b x)) \<and> v (fold f bs (f b x)) = v (f b x)"
    proof (rule fold_other [where I = I])
      show "I (f b x)" using Cons.prems(3) by (rule inv)
    next
      fix c y assume "I y" "c \<in> set bs"
      then show "I (f c y) \<and> v (f c y) = v y"
        using nb inv Cons.prems(4) [of y c] by auto
    qed
    then show ?thesis using True by simp
  next
    case False
    then have bin: "b \<in> set bs" using Cons.prems(2) by simp
    have "v (fold f bs (f a x)) = v (f b (f a x))"
    proof (rule Cons.IH)
      show "distinct bs" using Cons.prems(1) by simp
      show "b \<in> set bs" by (rule bin)
      show "I (f a x)" using Cons.prems(3) by (rule inv)
      fix y c assume "I y" "c \<in> set bs" "c \<noteq> b"
      then show "v (f c y) = v y" using Cons.prems(4) [of y c] by simp
    qed
    moreover have "v (f a x) = v x"
      using Cons.prems(4) [of x a] Cons.prems(3) False by simp
    then have "v (f b (f a x)) = v (f b x)"
      using loc [of "f a x" x] inv Cons.prems(3) by simp
    ultimately show ?thesis by simp
  qed
qed

lemma fold_flatten:
  assumes g: "\<And>b x. g b x = fold (h b) [0..<n x b] x"
    and n: "\<And>b j x. n (h b j x) = n x"
  shows "fold g bs x =
         fold (\<lambda>p. h (fst p) (snd p)) (concat (map (\<lambda>b. map (Pair b) [0..<n x b]) bs)) x"
proof (induction bs arbitrary: x)
  case Nil
  show ?case by simp
next
  case (Cons b bs)
  have ng: "n (g b x) = n x"
    unfolding g by (rule fold_invariant) (rule n)
  have 1: "g b x = fold (\<lambda>p. h (fst p) (snd p)) (map (Pair b) [0..<n x b]) x"
    unfolding g by (simp add: fold_map comp_def)
  have "fold g (b # bs) x = fold g bs (g b x)" by simp
  also have "\<dots> = fold (\<lambda>p. h (fst p) (snd p))
                     (concat (map (\<lambda>b. map (Pair b) [0..<n x b]) bs)) (g b x)"
    using Cons.IH [of "g b x"] by (simp add: ng)
  finally show ?case by (simp add: 1)
qed

lemma distinct_constituents: "distinct bodies \<Longrightarrow> distinct (constituents rd bodies)"
  by (induction bodies) (auto simp: constituents_def distinct_map inj_on_def)

lemma set_constituents:
  "set (constituents rd bodies) = {(b, j). b \<in> set bodies \<and> j < body_size rd b}"
  by (auto simp: constituents_def)

lemma set_xv_particle_static: "proj_static (set_xv_particle b j s) = proj_static s"
  by (simp add: proj_static_def set_xv_particle_def Let_def case_prod_beta)

lemma set_v_particle_static: "proj_static (set_v_particle b j s) = proj_static s"
  by (simp add: proj_static_def set_v_particle_def Let_def case_prod_beta)

lemma proj_static_body_size:
  "proj_static x = proj_static y \<Longrightarrow> body_size (m_rigid_data x) = body_size (m_rigid_data y)"
  by (simp add: proj_static_def)

lemma fold_set_xv_body:
  "fold set_xv_body bodies s =
     fold (\<lambda>p. set_xv_particle (fst p) (snd p)) (constituents (m_rigid_data s) bodies) s"
  unfolding constituents_def
  by (rule fold_flatten [where n = "\<lambda>x. body_size (m_rigid_data x)"])
     (simp_all add: set_xv_body_def proj_static_body_size [OF set_xv_particle_static])

lemma fold_set_v_body:
  "fold set_v_body bodies s =
     fold (\<lambda>p. set_v_particle (fst p) (snd p)) (constituents (m_rigid_data s) bodies) s"
  unfolding constituents_def
  by (rule fold_flatten [where n = "\<lambda>x. body_size (m_rigid_data x)"])
     (simp_all add: set_v_body_def proj_static_body_size [OF set_v_particle_static])

subsection \<open>One constituent particle in set_xv and set_v\<close>

lemma set_xv_particle_other:
  assumes "proj_static x = proj_static s0"
    and "pidx_of (m_rigid_data s0) c \<noteq> pidx" and "localidx_of (m_rigid_data s0) c \<noteq> lidx"
  shows "set_xv_view pidx lidx (set_xv_particle (fst c) (snd c) x) = set_xv_view pidx lidx x"
proof -
  have eqs: "particle_indices (m_rigid_data x) = particle_indices (m_rigid_data s0)"
    "indices_pitch (m_rigid_data x) = indices_pitch (m_rigid_data s0)"
    "particle_pos_pitch (m_rigid_data x) = particle_pos_pitch (m_rigid_data s0)"
    using assms(1) by (simp_all add: proj_static_def)
  show ?thesis
    using assms(2,3)
    by (simp add: eqs set_xv_view_def set_xv_particle_def Let_def case_prod_beta
          pidx_of_def localidx_of_def)
qed

lemma set_xv_particle_loc:
  assumes "proj_static x = proj_static y"
    and "set_xv_view pidx lidx x = set_xv_view pidx lidx y"
    and "lidx = localidx_of (m_rigid_data x) (b, j)"
  shows "set_xv_view pidx lidx (set_xv_particle b j x) = set_xv_view pidx lidx (set_xv_particle b j y)"
proof -
  have l: "b * particle_pos_pitch (m_rigid_data y) + j = lidx"
    "b * particle_pos_pitch (m_rigid_data x) + j = lidx"
    using assms(1,3) by (simp_all add: localidx_of_def proj_static_def)
  show ?thesis
    using assms(1,2)
    by (clarsimp simp: set_xv_view_def proj_static_def set_xv_particle_def Let_def case_prod_beta l
          body_to_space_def)
qed

lemma fold_set_xv_particle_at:
  assumes "distinct ps" and "(b, j) \<in> set ps"
    and "inj_on (pidx_of (m_rigid_data s)) (set ps)"
    and "inj_on (localidx_of (m_rigid_data s)) (set ps)"
  shows "set_xv_view (pidx_of (m_rigid_data s) (b, j)) (localidx_of (m_rigid_data s) (b, j))
           (fold (\<lambda>p. set_xv_particle (fst p) (snd p)) ps s)
         = set_xv_view (pidx_of (m_rigid_data s) (b, j)) (localidx_of (m_rigid_data s) (b, j))
             (set_xv_particle b j s)"
proof -
  let ?I = "\<lambda>x. proj_static x = proj_static s"
  let ?f = "\<lambda>p. set_xv_particle (fst p) (snd p)"
  let ?v = "set_xv_view (pidx_of (m_rigid_data s) (b, j)) (localidx_of (m_rigid_data s) (b, j))"
  have "?v (fold ?f ps s) = ?v (?f (b, j) s)"
  proof (rule fold_local [where I = ?I])
    show "\<And>c x. ?I x \<Longrightarrow> ?I (?f c x)" by (simp add: set_xv_particle_static)
    show "distinct ps" "(b, j) \<in> set ps" "?I s" using assms by simp_all
  next
    fix c x assume "?I x" "c \<in> set ps" "c \<noteq> (b, j)"
    then show "?v (?f c x) = ?v x"
      using assms(2,3,4) by (intro set_xv_particle_other) (auto dest: inj_onD)
  next
    fix x y assume xy: "?I x" "?I y" "?v x = ?v y"
    have "localidx_of (m_rigid_data s) (b, j) = localidx_of (m_rigid_data x) (b, j)"
      using xy(1) by (simp add: proj_static_def localidx_of_def)
    then show "?v (?f (b, j) x) = ?v (?f (b, j) y)"
      using xy set_xv_particle_loc [of x y _ _ b j] by simp
  qed
  then show ?thesis by simp
qed

lemma set_xv_particle_pos_other:
  assumes "proj_static x = proj_static s0"
    and "pidx_of (m_rigid_data s0) c \<noteq> pidx"
  shows "pos_view pidx (set_xv_particle (fst c) (snd c) x) = pos_view pidx x"
proof -
  have eqs: "particle_indices (m_rigid_data x) = particle_indices (m_rigid_data s0)"
    "indices_pitch (m_rigid_data x) = indices_pitch (m_rigid_data s0)"
    using assms(1) by (simp_all add: proj_static_def)
  show ?thesis
    using assms(2)
    by (simp add: eqs pos_view_def set_xv_particle_def Let_def case_prod_beta pidx_of_def)
qed

lemma set_xv_particle_pos_loc:
  assumes "proj_static x = proj_static y" and "pos_view pidx x = pos_view pidx y"
  shows "pos_view pidx (set_xv_particle b j x) = pos_view pidx (set_xv_particle b j y)"
  using assms
  by (clarsimp simp: pos_view_def proj_static_def set_xv_particle_def Let_def case_prod_beta
        body_to_space_def)

lemma fold_set_xv_particle_pos:
  assumes "distinct ps" and "(b, j) \<in> set ps"
    and "inj_on (pidx_of (m_rigid_data s)) (set ps)"
  shows "pos_view (pidx_of (m_rigid_data s) (b, j))
           (fold (\<lambda>p. set_xv_particle (fst p) (snd p)) ps s)
         = pos_view (pidx_of (m_rigid_data s) (b, j)) (set_xv_particle b j s)"
proof -
  let ?I = "\<lambda>x. proj_static x = proj_static s"
  let ?f = "\<lambda>p. set_xv_particle (fst p) (snd p)"
  let ?v = "pos_view (pidx_of (m_rigid_data s) (b, j))"
  have "?v (fold ?f ps s) = ?v (?f (b, j) s)"
  proof (rule fold_local [where I = ?I])
    show "\<And>c x. ?I x \<Longrightarrow> ?I (?f c x)" by (simp add: set_xv_particle_static)
    show "distinct ps" "(b, j) \<in> set ps" "?I s" using assms by simp_all
  next
    fix c x assume "?I x" "c \<in> set ps" "c \<noteq> (b, j)"
    then show "?v (?f c x) = ?v x"
      using assms(2,3) by (intro set_xv_particle_pos_other) (auto dest: inj_onD)
  next
    fix x y assume xy: "?I x" "?I y" "?v x = ?v y"
    then show "?v (?f (b, j) x) = ?v (?f (b, j) y)"
      using set_xv_particle_pos_loc [of x y _ b j] by simp
  qed
  then show ?thesis by simp
qed

lemma set_xv_Inr:
  assumes "set_xv t s = Inr s'"
  shows "s' = fold (\<lambda>p. set_xv_particle (fst p) (snd p)) (constituents (m_rigid_data s) (visited s)) s"
    and "box_assert (box (m_pdata s))"
  using assms
  by (auto simp: set_xv_def bind_err_eq_Inr loop_bodies_eq visited_def fold_set_xv_body
      split: if_splits)

lemma set_v_Inr:
  assumes "set_v t s = Inr s'"
  shows "s' = fold (\<lambda>p. set_v_particle (fst p) (snd p)) (constituents (m_rigid_data s) (visited s)) s"
  using assms
  by (auto simp: set_v_def bind_err_eq_Inr loop_bodies_eq visited_def fold_set_v_body
      split: if_splits)

subsection \<open>What set_v writes\<close>

lemma set_v_moving_ex: "set_v 0 ex_moving = Inr ex_moving_v"
  by (simp add: set_v_def set_v_body_def set_v_particle_def eval_defs ex_defs ex_moving_def
        ex_moving_v_def)

lemma set_v_particle_vel_other:
  assumes "proj_static x = proj_static s0" and "pidx_of (m_rigid_data s0) c \<noteq> p"
  shows "arrays_vx (m_pdata (set_v_particle (fst c) (snd c) x)) p = arrays_vx (m_pdata x) p"
    and "arrays_vy (m_pdata (set_v_particle (fst c) (snd c) x)) p = arrays_vy (m_pdata x) p"
    and "arrays_vz (m_pdata (set_v_particle (fst c) (snd c) x)) p = arrays_vz (m_pdata x) p"
    and "net_virial (m_pdata (set_v_particle (fst c) (snd c) x)) p = net_virial (m_pdata x) p"
proof -
  have eqs: "particle_indices (m_rigid_data x) = particle_indices (m_rigid_data s0)"
    "indices_pitch (m_rigid_data x) = indices_pitch (m_rigid_data s0)"
    using assms(1) by (simp_all add: proj_static_def)
  show "arrays_vx (m_pdata (set_v_particle (fst c) (snd c) x)) p = arrays_vx (m_pdata x) p"
    and "arrays_vy (m_pdata (set_v_particle (fst c) (snd c) x)) p = arrays_vy (m_pdata x) p"
    and "arrays_vz (m_pdata (set_v_particle (fst c) (snd c) x)) p = arrays_vz (m_pdata x) p"
    and "net_virial (m_pdata (set_v_particle (fst c) (snd c) x)) p = net_virial (m_pdata x) p"
    using assms(2)
    by (simp_all add: eqs set_v_particle_def Let_def case_prod_beta pidx_of_def)
qed

lemma set_v_particle_oldvel_other:
  assumes "proj_static x = proj_static s0" and "localidx_of (m_rigid_data s0) c \<noteq> l"
  shows "particle_oldvel (m_rigid_data (set_v_particle (fst c) (snd c) x)) l
         = particle_oldvel (m_rigid_data x) l"
proof -
  have eqs: "particle_pos_pitch (m_rigid_data x) = particle_pos_pitch (m_rigid_data s0)"
    using assms(1) by (simp_all add: proj_static_def)
  show ?thesis
    using assms(2)
    by (simp add: eqs set_v_particle_def Let_def case_prod_beta localidx_of_def)
qed

lemma set_v_other_particle:
  assumes "set_v t s = Inr s'"
    and "p \<notin> pidx_of (m_rigid_data s) ` set (constituents (m_rigid_data s) (visited s))"
  shows "arrays_vx (m_pdata s') p = arrays_vx (m_pdata s) p"
    and "arrays_vy (m_pdata s') p = arrays_vy (m_pdata s) p"
    and "arrays_vz (m_pdata s') p = arrays_vz (m_pdata s) p"
    and "net_virial (m_pdata s') p = net_virial (m_pdata s) p"
proof -
  let ?cs = "constituents (m_rigid_data s) (visited s)"
  let ?I = "\<lambda>x. proj_static x = proj_static s"
  let ?f = "\<lambda>c. set_v_particle (fst c) (snd c)"
  let ?v = "\<lambda>x. (arrays_vx (m_pdata x) p, arrays_vy (m_pdata x) p, arrays_vz (m_pdata x) p,
                  net_virial (m_pdata x) p)"
  have "?I (fold ?f ?cs s) \<and> ?v (fold ?f ?cs s) = ?v s"
  proof (rule fold_other [where I = ?I])
    show "?I s" by simp
  next
    fix c x assume x: "?I x" and c: "c \<in> set ?cs"
    have ne: "pidx_of (m_rigid_data s) c \<noteq> p" using assms(2) c by auto
    show "?I (?f c x) \<and> ?v (?f c x) = ?v x"
      by (simp add: set_v_particle_static x set_v_particle_vel_other [OF x ne])
  qed
  then have "?v s' = ?v s" by (simp add: set_v_Inr [OF assms(1)])
  then show "arrays_vx (m_pdata s') p = arrays_vx (m_pdata s) p"
    and "arrays_vy (m_pdata s') p = arrays_vy (m_pdata s) p"
    and "arrays_vz (m_pdata s') p = arrays_vz (m_pdata s) p"
    and "net_virial (m_pdata s') p = net_virial (m_pdata s) p"
    by simp_all
qed

lemma set_v_other_slot:
  assumes "set_v t s = Inr s'"
    and "l \<notin> localidx_of (m_rigid_data s) ` set (constituents (m_rigid_data s) (visited s))"
  shows "particle_oldvel (m_rigid_data s') l = particle_oldvel (m_rigid_data s) l"
proof -
  let ?cs = "constituents (m_rigid_data s) (visited s)"
  let ?I = "\<lambda>x. proj_static x = proj_static s"
  let ?f = "\<lambda>c. set_v_particle (fst c) (snd c)"
  let ?v = "\<lambda>x. particle_oldvel (m_rigid_data x) l"
  have "?I (fold ?f ?cs s) \<and> ?v (fold ?f ?cs s) = ?v s"
  proof (rule fold_other [where I = ?I])
    show "?I s" by simp
  next
    fix c x assume x: "?I x" and c: "c \<in> set ?cs"
    have ne: "localidx_of (m_rigid_data s) c \<noteq> l" using assms(2) c by auto
    show "?I (?f c x) \<and> ?v (?f c x) = ?v x"
      by (simp add: set_v_particle_static x set_v_particle_oldvel_other [OF x ne])
  qed
  then show ?thesis by (simp add: set_v_Inr [OF assms(1)])
qed

text \<open>
  C10. \<^verbatim>\<open>set_v\<close> writes only the particle velocities \<^verbatim>\<open>arrays.vx, vy, vz\<close>, the cached old
  velocity \<^verbatim>\<open>particle_oldvel\<close> and the net virial, and in these arrays only the entries of
  the constituent particles of the visited bodies. The state it returns is the state it
  was given with these five arrays replaced: particle positions, image counters and
  orientations, and every body-level array, are the same arrays as before. A particle index
  \<open>p\<close> that is the \<^verbatim>\<open>pidx\<close> of no constituent keeps its velocity and its net virial, and a
  slot \<open>l\<close> that is the \<^verbatim>\<open>localidx\<close> of no constituent keeps its cached old velocity.
\<close>

theorem set_v_writes_only_velocities:
  assumes "set_v t s = Inr s'"
  shows "s' = s\<lparr>m_rigid_data := (m_rigid_data s)\<lparr>particle_oldvel := particle_oldvel (m_rigid_data s')\<rparr>,
                m_pdata := (m_pdata s)\<lparr>arrays_vx := arrays_vx (m_pdata s'),
                                       arrays_vy := arrays_vy (m_pdata s'),
                                       arrays_vz := arrays_vz (m_pdata s'),
                                       net_virial := net_virial (m_pdata s')\<rparr>\<rparr>
       \<and> (\<forall>p. p \<notin> pidx_of (m_rigid_data s) ` set (constituents (m_rigid_data s) (visited s)) \<longrightarrow>
              arrays_vx (m_pdata s') p = arrays_vx (m_pdata s) p
            \<and> arrays_vy (m_pdata s') p = arrays_vy (m_pdata s) p
            \<and> arrays_vz (m_pdata s') p = arrays_vz (m_pdata s) p
            \<and> net_virial (m_pdata s') p = net_virial (m_pdata s) p)
       \<and> (\<forall>l. l \<notin> localidx_of (m_rigid_data s) ` set (constituents (m_rigid_data s) (visited s)) \<longrightarrow>
              particle_oldvel (m_rigid_data s') l = particle_oldvel (m_rigid_data s) l)"
proof (intro conjI allI impI)
  show "s' = s\<lparr>m_rigid_data := (m_rigid_data s)\<lparr>particle_oldvel := particle_oldvel (m_rigid_data s')\<rparr>,
                m_pdata := (m_pdata s)\<lparr>arrays_vx := arrays_vx (m_pdata s'),
                                       arrays_vy := arrays_vy (m_pdata s'),
                                       arrays_vz := arrays_vz (m_pdata s'),
                                       net_virial := net_virial (m_pdata s')\<rparr>\<rparr>"
    by (rule set_v_erase_D) (rule set_v_erase [OF assms])
next
  fix p
  assume p: "p \<notin> pidx_of (m_rigid_data s) ` set (constituents (m_rigid_data s) (visited s))"
  show "arrays_vx (m_pdata s') p = arrays_vx (m_pdata s) p"
    by (rule set_v_other_particle(1) [OF assms p])
  show "arrays_vy (m_pdata s') p = arrays_vy (m_pdata s) p"
    by (rule set_v_other_particle(2) [OF assms p])
  show "arrays_vz (m_pdata s') p = arrays_vz (m_pdata s) p"
    by (rule set_v_other_particle(3) [OF assms p])
  show "net_virial (m_pdata s') p = net_virial (m_pdata s) p"
    by (rule set_v_other_particle(4) [OF assms p])
next
  fix l
  assume "l \<notin> localidx_of (m_rigid_data s) ` set (constituents (m_rigid_data s) (visited s))"
  then show "particle_oldvel (m_rigid_data s') l = particle_oldvel (m_rigid_data s) l"
    by (rule set_v_other_slot [OF assms])
qed

lemma visited_moving: "visited ex_moving = [0]"
  by (simp add: visited_def ex_moving_def ex_state_def)

lemma constituents_moving: "constituents (m_rigid_data ex_moving) [0] = [(0, 0)]"
  by (simp add: constituents_def ex_moving_def ex_state_def ex_rd_def upt_0_1)

theorem set_v_writes_only_velocities_witness:
  "set_v 0 ex_moving = Inr ex_moving_v
   \<and> (1::nat) \<notin> pidx_of (m_rigid_data ex_moving) ` set (constituents (m_rigid_data ex_moving) (visited ex_moving))
   \<and> (1::nat) \<notin> localidx_of (m_rigid_data ex_moving) ` set (constituents (m_rigid_data ex_moving) (visited ex_moving))
   \<and> arrays_vx (m_pdata ex_moving) 0 = 5 \<and> arrays_vx (m_pdata ex_moving_v) 0 = 3
   \<and> arrays_vx (m_pdata ex_moving) 1 = 5 \<and> arrays_vx (m_pdata ex_moving_v) 1 = 5
   \<and> net_virial (m_pdata ex_moving_v) 1 = net_virial (m_pdata ex_moving) 1
   \<and> particle_oldvel (m_rigid_data ex_moving_v) 1 = particle_oldvel (m_rigid_data ex_moving) 1
   \<and> arrays_x (m_pdata ex_moving_v) = arrays_x (m_pdata ex_moving)
   \<and> com (m_rigid_data ex_moving_v) = com (m_rigid_data ex_moving)"
proof -
  have p: "(1::nat) \<notin> pidx_of (m_rigid_data ex_moving) ` set (constituents (m_rigid_data ex_moving) (visited ex_moving))"
    unfolding visited_moving constituents_moving
    by (simp add: pidx_of_def ex_moving_def ex_state_def ex_rd_def)
  have l: "(1::nat) \<notin> localidx_of (m_rigid_data ex_moving) ` set (constituents (m_rigid_data ex_moving) (visited ex_moving))"
    unfolding visited_moving constituents_moving
    by (simp add: localidx_of_def ex_moving_def ex_state_def ex_rd_def)
  have v: "arrays_vx (m_pdata ex_moving) 0 = 5" "arrays_vx (m_pdata ex_moving_v) 0 = 3"
    "arrays_vx (m_pdata ex_moving) 1 = 5"
    "arrays_x (m_pdata ex_moving_v) = arrays_x (m_pdata ex_moving)"
    "com (m_rigid_data ex_moving_v) = com (m_rigid_data ex_moving)"
    by (simp_all add: ex_moving_def ex_moving_v_def ex_defs)
  show ?thesis
    using set_v_writes_only_velocities [OF set_v_moving_ex] set_v_moving_ex p l v by simp
qed


subsection \<open>The projected position\<close>

lemma wrap_axis_once:
  "wrap_axis lo hi (hi - lo) c img = (c', img') \<Longrightarrow> wrap_once lo hi c img c' img'"
  by (auto simp: wrap_axis_def wrap_once_def split: if_splits)

lemma body_to_space_rotate:
  "body_to_space rd b l
     = basis_rotate (ex_space rd b) (ey_space rd b) (ez_space rd b) (particle_pos rd l)"
  by (simp add: body_to_space_def basis_rotate_def plus3_def scale3_def mult.commute)

lemma set_xv_wrap_axis:
  assumes "set_xv t s = Inr s'"
    and "distinct (visited s)"
    and "inj_on (pidx_of (m_rigid_data s)) (set (constituents (m_rigid_data s) (visited s)))"
    and "b \<in> set (visited s)" and "j < body_size (m_rigid_data s) b"
  shows "wrap_axis (xlo (box (m_pdata s))) (xhi (box (m_pdata s)))
             (xhi (box (m_pdata s)) - xlo (box (m_pdata s)))
             (sx (com (m_rigid_data s) b)
                + fst (body_to_space (m_rigid_data s) b (localidx_of (m_rigid_data s) (b, j))))
             (body_imagex (m_rigid_data s) b)
         = (arrays_x (m_pdata s') (pidx_of (m_rigid_data s) (b, j)),
            arrays_ix (m_pdata s') (pidx_of (m_rigid_data s) (b, j)))"
    and "wrap_axis (ylo (box (m_pdata s))) (yhi (box (m_pdata s)))
             (yhi (box (m_pdata s)) - ylo (box (m_pdata s)))
             (sy (com (m_rigid_data s) b)
                + fst (snd (body_to_space (m_rigid_data s) b (localidx_of (m_rigid_data s) (b, j)))))
             (body_imagey (m_rigid_data s) b)
         = (arrays_y (m_pdata s') (pidx_of (m_rigid_data s) (b, j)),
            arrays_iy (m_pdata s') (pidx_of (m_rigid_data s) (b, j)))"
    and "wrap_axis (zlo (box (m_pdata s))) (zhi (box (m_pdata s)))
             (zhi (box (m_pdata s)) - zlo (box (m_pdata s)))
             (sz (com (m_rigid_data s) b)
                + snd (snd (body_to_space (m_rigid_data s) b (localidx_of (m_rigid_data s) (b, j)))))
             (body_imagez (m_rigid_data s) b)
         = (arrays_z (m_pdata s') (pidx_of (m_rigid_data s) (b, j)),
            arrays_iz (m_pdata s') (pidx_of (m_rigid_data s) (b, j)))"
proof -
  let ?ps = "constituents (m_rigid_data s) (visited s)"
  have "(b, j) \<in> set ?ps" using assms(4,5) by (simp add: set_constituents)
  then have "pos_view (pidx_of (m_rigid_data s) (b, j)) s'
             = pos_view (pidx_of (m_rigid_data s) (b, j)) (set_xv_particle b j s)"
    unfolding set_xv_Inr(1) [OF assms(1)]
    using assms(2,3) by (intro fold_set_xv_particle_pos distinct_constituents)
  then show "wrap_axis (xlo (box (m_pdata s))) (xhi (box (m_pdata s)))
             (xhi (box (m_pdata s)) - xlo (box (m_pdata s)))
             (sx (com (m_rigid_data s) b)
                + fst (body_to_space (m_rigid_data s) b (localidx_of (m_rigid_data s) (b, j))))
             (body_imagex (m_rigid_data s) b)
         = (arrays_x (m_pdata s') (pidx_of (m_rigid_data s) (b, j)),
            arrays_ix (m_pdata s') (pidx_of (m_rigid_data s) (b, j)))"
    and "wrap_axis (ylo (box (m_pdata s))) (yhi (box (m_pdata s)))
             (yhi (box (m_pdata s)) - ylo (box (m_pdata s)))
             (sy (com (m_rigid_data s) b)
                + fst (snd (body_to_space (m_rigid_data s) b (localidx_of (m_rigid_data s) (b, j)))))
             (body_imagey (m_rigid_data s) b)
         = (arrays_y (m_pdata s') (pidx_of (m_rigid_data s) (b, j)),
            arrays_iy (m_pdata s') (pidx_of (m_rigid_data s) (b, j)))"
    and "wrap_axis (zlo (box (m_pdata s))) (zhi (box (m_pdata s)))
             (zhi (box (m_pdata s)) - zlo (box (m_pdata s)))
             (sz (com (m_rigid_data s) b)
                + snd (snd (body_to_space (m_rigid_data s) b (localidx_of (m_rigid_data s) (b, j)))))
             (body_imagez (m_rigid_data s) b)
         = (arrays_z (m_pdata s') (pidx_of (m_rigid_data s) (b, j)),
            arrays_iz (m_pdata s') (pidx_of (m_rigid_data s) (b, j)))"
    by (simp_all add: pos_view_def set_xv_particle_def Let_def case_prod_beta pidx_of_def localidx_of_def)
qed

text \<open>
  C9. In \<^verbatim>\<open>set_xv\<close>, for every constituent particle \<open>j\<close> of every visited body \<open>b\<close>, with
  \<open>r\<close> the local position of the particle rotated by the basis of the body
  (\<open>basis_rotate\<close>): on each axis the coordinate and the image counter of the particle are
  related by \<open>wrap_once\<close> to the centre of mass plus \<open>r\<close> and to the image counter of the
  body. A coordinate at or beyond the high bound is reduced by one box length and the
  counter is the body's plus one; a coordinate below the low bound is increased by one box
  length and the counter is the body's minus one; otherwise the coordinate is the centre of
  mass plus \<open>r\<close> and the counter is the body's. The bodies are visited once, and no
  particle index belongs to two constituents.
\<close>

theorem set_xv_position:
  assumes "set_xv t s = Inr s'"
    and "distinct (visited s)"
    and "inj_on (pidx_of (m_rigid_data s)) (set (constituents (m_rigid_data s) (visited s)))"
    and "b \<in> set (visited s)" and "j < body_size (m_rigid_data s) b"
    and "p = pidx_of (m_rigid_data s) (b, j)"
    and "r = basis_rotate (ex_space (m_rigid_data s) b) (ey_space (m_rigid_data s) b)
               (ez_space (m_rigid_data s) b)
               (particle_pos (m_rigid_data s) (localidx_of (m_rigid_data s) (b, j)))"
  shows "wrap_once (xlo (box (m_pdata s))) (xhi (box (m_pdata s)))
           (sx (com (m_rigid_data s) b) + fst r) (body_imagex (m_rigid_data s) b)
           (arrays_x (m_pdata s') p) (arrays_ix (m_pdata s') p)
       \<and> wrap_once (ylo (box (m_pdata s))) (yhi (box (m_pdata s)))
           (sy (com (m_rigid_data s) b) + fst (snd r)) (body_imagey (m_rigid_data s) b)
           (arrays_y (m_pdata s') p) (arrays_iy (m_pdata s') p)
       \<and> wrap_once (zlo (box (m_pdata s))) (zhi (box (m_pdata s)))
           (sz (com (m_rigid_data s) b) + snd (snd r)) (body_imagez (m_rigid_data s) b)
           (arrays_z (m_pdata s') p) (arrays_iz (m_pdata s') p)"
proof -
  note w = set_xv_wrap_axis [OF assms(1-5), unfolded body_to_space_rotate]
  show ?thesis
    unfolding assms(6,7)
    by (intro conjI wrap_axis_once) (rule w(1), rule w(2), rule w(3))
qed

lemma quat_half_turn: "normalize (quatquat half_turn_z \<lparr>sx = 1, sy = 0, sz = 0, sw = 0\<rparr>) = half_turn_z"
  by (simp add: normalize_def quatquat_def quat_norm_def half_turn_z_def)

lemma set_xv_particle_proj: "set_xv_particle 0 0 ex_proj = ex_proj_xv"
  by (simp add: set_xv_particle_def eval_defs ex_defs ex_proj_def ex_proj_xv_def quat_half_turn
        wrap_axis_inside wrap_axis_high wrap_axis_low)

lemma set_xv_proj_ex: "set_xv 0 ex_proj = Inr ex_proj_xv"
proof -
  have "set_xv 0 ex_proj = Inr (set_xv_particle 0 0 ex_proj)"
    by (simp add: set_xv_def set_xv_body_def loop_bodies_eq getNumMembers_def upt_0_1
          box_assert_def ex_defs ex_proj_def)
  then show ?thesis by (simp only: set_xv_particle_proj)
qed

lemma visited_proj: "visited ex_proj = [0]"
  by (simp add: visited_def ex_proj_def ex_state_def)

lemma constituents_proj: "constituents (m_rigid_data ex_proj) [0] = [(0, 0)]"
  by (simp add: constituents_def ex_proj_def ex_state_def ex_rd_def upt_0_1)

theorem set_xv_position_witness:
  "set_xv 0 ex_proj = Inr ex_proj_xv
   \<and> distinct (visited ex_proj)
   \<and> inj_on (pidx_of (m_rigid_data ex_proj)) (set (constituents (m_rigid_data ex_proj) (visited ex_proj)))
   \<and> 0 \<in> set (visited ex_proj) \<and> 0 < body_size (m_rigid_data ex_proj) 0
   \<and> 0 = pidx_of (m_rigid_data ex_proj) (0, 0)
   \<and> basis_rotate (ex_space (m_rigid_data ex_proj) 0) (ey_space (m_rigid_data ex_proj) 0)
         (ez_space (m_rigid_data ex_proj) 0)
         (particle_pos (m_rigid_data ex_proj) (localidx_of (m_rigid_data ex_proj) (0, 0)))
       = (- 1, 2, 0)
   \<and> sx (com (m_rigid_data ex_proj) 0) = - (9 / 2) \<and> body_imagex (m_rigid_data ex_proj) 0 = 2
   \<and> arrays_x (m_pdata ex_proj_xv) 0 = 9 / 2 \<and> arrays_ix (m_pdata ex_proj_xv) 0 = 1
   \<and> sy (com (m_rigid_data ex_proj) 0) = 4 \<and> body_imagey (m_rigid_data ex_proj) 0 = 3
   \<and> arrays_y (m_pdata ex_proj_xv) 0 = - 4 \<and> arrays_iy (m_pdata ex_proj_xv) 0 = 4
   \<and> sz (com (m_rigid_data ex_proj) 0) = 0 \<and> body_imagez (m_rigid_data ex_proj) 0 = 7
   \<and> arrays_z (m_pdata ex_proj_xv) 0 = 0 \<and> arrays_iz (m_pdata ex_proj_xv) 0 = 7"
proof -
  have h2: "distinct (visited ex_proj)" by (simp add: visited_proj)
  have h3: "inj_on (pidx_of (m_rigid_data ex_proj))
              (set (constituents (m_rigid_data ex_proj) (visited ex_proj)))"
    by (simp add: visited_proj constituents_proj)
  have h4: "0 \<in> set (visited ex_proj)" by (simp add: visited_proj)
  have h5: "0 < body_size (m_rigid_data ex_proj) 0" by (simp add: ex_proj_def ex_state_def ex_rd_def)
  have h6: "0 = pidx_of (m_rigid_data ex_proj) (0, 0)"
    by (simp add: pidx_of_def ex_proj_def ex_state_def ex_rd_def)
  have h7: "basis_rotate (ex_space (m_rigid_data ex_proj) 0) (ey_space (m_rigid_data ex_proj) 0)
               (ez_space (m_rigid_data ex_proj) 0)
               (particle_pos (m_rigid_data ex_proj) (localidx_of (m_rigid_data ex_proj) (0, 0)))
            = (- 1, 2, 0)"
    by (simp add: basis_rotate_def plus3_def scale3_def localidx_of_def ex_proj_def ex_defs)
  have c: "sx (com (m_rigid_data ex_proj) 0) = - (9 / 2)" "body_imagex (m_rigid_data ex_proj) 0 = 2"
    "sy (com (m_rigid_data ex_proj) 0) = 4" "body_imagey (m_rigid_data ex_proj) 0 = 3"
    "sz (com (m_rigid_data ex_proj) 0) = 0" "body_imagez (m_rigid_data ex_proj) 0 = 7"
    "box (m_pdata ex_proj) = \<lparr>xlo = -5, xhi = 5, ylo = -5, yhi = 5, zlo = -5, zhi = 5\<rparr>"
    by (simp_all add: ex_proj_def ex_defs)
  show ?thesis
    using set_xv_position [OF set_xv_proj_ex h2 h3 h4 h5 h6 h7 [symmetric]] set_xv_proj_ex h2 h3 h4 h5 h6 h7
    by (simp add: c wrap_once_def)
qed


subsection \<open>The virial in the two passes\<close>

lemma set_xv_particle_erase: "set_xv_erase (set_xv_particle b j s) = set_xv_erase s"
  unfolding set_xv_erase_def set_xv_particle_def Let_def
  by (simp add: case_prod_beta)

lemma set_xv_erase:
  assumes "set_xv t s = Inr s'"
  shows "set_xv_erase s' = set_xv_erase s"
  by (subst set_xv_Inr(1) [OF assms], rule fold_invariant) (rule set_xv_particle_erase)

lemma set_xv_net_virial:
  assumes "set_xv t s = Inr s'"
  shows "net_virial (m_pdata s') = net_virial (m_pdata s)"
proof -
  have "net_virial (m_pdata (set_xv_erase s')) = net_virial (m_pdata (set_xv_erase s))"
    by (simp only: set_xv_erase [OF assms])
  then show ?thesis by (simp add: set_xv_erase_def)
qed

lemma set_xv_particle_virial:
  "set_xv_view (pidx_of (m_rigid_data s) (b, j)) (localidx_of (m_rigid_data s) (b, j)) (set_xv_particle b j s) = V
   \<Longrightarrow> snd (snd (snd (snd (snd V)))) =
       virial_term (arrays_mass (m_pdata s) (pidx_of (m_rigid_data s) (b, j))) (0.5 * m_deltaT s)
         (particle_oldpos (m_rigid_data s) (localidx_of (m_rigid_data s) (b, j)))
         (particle_oldvel (m_rigid_data s) (localidx_of (m_rigid_data s) (b, j)))
         (fst (fst (snd (snd V)))) (fst (snd (fst (snd (snd V))))) (snd (snd (fst (snd (snd V)))))
         (net_force (m_pdata s) (pidx_of (m_rigid_data s) (b, j)))"
  by (auto simp: set_xv_view_def set_xv_particle_def Let_def case_prod_beta pidx_of_def localidx_of_def)

lemma set_v_particle_other:
  assumes "proj_static x = proj_static s0"
    and "pidx_of (m_rigid_data s0) c \<noteq> pidx" and "localidx_of (m_rigid_data s0) c \<noteq> lidx"
  shows "set_v_view pidx lidx (set_v_particle (fst c) (snd c) x) = set_v_view pidx lidx x"
proof -
  have eqs: "particle_indices (m_rigid_data x) = particle_indices (m_rigid_data s0)"
    "indices_pitch (m_rigid_data x) = indices_pitch (m_rigid_data s0)"
    "particle_pos_pitch (m_rigid_data x) = particle_pos_pitch (m_rigid_data s0)"
    using assms(1) by (simp_all add: proj_static_def)
  show ?thesis
    using assms(2,3)
    by (simp add: eqs set_v_view_def set_v_particle_def Let_def case_prod_beta
          pidx_of_def localidx_of_def)
qed

lemma set_v_particle_loc:
  assumes "proj_static x = proj_static y"
    and "set_v_view pidx lidx x = set_v_view pidx lidx y"
    and "lidx = localidx_of (m_rigid_data x) (b, j)"
    and "pidx = pidx_of (m_rigid_data x) (b, j)"
  shows "set_v_view pidx lidx (set_v_particle b j x) = set_v_view pidx lidx (set_v_particle b j y)"
proof -
  have l: "b * particle_pos_pitch (m_rigid_data y) + j = lidx"
    "b * particle_pos_pitch (m_rigid_data x) + j = lidx"
    "particle_indices (m_rigid_data y) (b * indices_pitch (m_rigid_data y) + j) = pidx"
    using assms(1,3,4) by (simp_all add: localidx_of_def pidx_of_def proj_static_def)
  show ?thesis
    using assms(1,2)
    by (clarsimp simp: set_v_view_def proj_static_def set_v_particle_def Let_def case_prod_beta l
          body_to_space_def)
qed

lemma fold_set_v_particle_at:
  assumes "distinct ps" and "(b, j) \<in> set ps"
    and "inj_on (pidx_of (m_rigid_data s)) (set ps)"
    and "inj_on (localidx_of (m_rigid_data s)) (set ps)"
  shows "set_v_view (pidx_of (m_rigid_data s) (b, j)) (localidx_of (m_rigid_data s) (b, j))
           (fold (\<lambda>p. set_v_particle (fst p) (snd p)) ps s)
         = set_v_view (pidx_of (m_rigid_data s) (b, j)) (localidx_of (m_rigid_data s) (b, j))
             (set_v_particle b j s)"
proof -
  let ?I = "\<lambda>x. proj_static x = proj_static s"
  let ?f = "\<lambda>p. set_v_particle (fst p) (snd p)"
  let ?v = "set_v_view (pidx_of (m_rigid_data s) (b, j)) (localidx_of (m_rigid_data s) (b, j))"
  have "?v (fold ?f ps s) = ?v (?f (b, j) s)"
  proof (rule fold_local [where I = ?I])
    show "\<And>c x. ?I x \<Longrightarrow> ?I (?f c x)" by (simp add: set_v_particle_static)
    show "distinct ps" "(b, j) \<in> set ps" "?I s" using assms by simp_all
  next
    fix c x assume "?I x" "c \<in> set ps" "c \<noteq> (b, j)"
    then show "?v (?f c x) = ?v x"
      using assms(2,3,4) by (intro set_v_particle_other) (auto dest: inj_onD)
  next
    fix x y assume xy: "?I x" "?I y" "?v x = ?v y"
    have "localidx_of (m_rigid_data s) (b, j) = localidx_of (m_rigid_data x) (b, j)"
      "pidx_of (m_rigid_data s) (b, j) = pidx_of (m_rigid_data x) (b, j)"
      using xy(1) by (simp_all add: proj_static_def localidx_of_def pidx_of_def)
    then show "?v (?f (b, j) x) = ?v (?f (b, j) y)"
      using xy set_v_particle_loc [of x y _ _ b j] by simp
  qed
  then show ?thesis by simp
qed

lemma set_v_particle_virial:
  "set_v_view (pidx_of (m_rigid_data s) (b, j)) (localidx_of (m_rigid_data s) (b, j)) (set_v_particle b j s) = V
   \<Longrightarrow> fst (snd V) =
       net_virial (m_pdata s) (pidx_of (m_rigid_data s) (b, j))
       + m_virial s (localidx_of (m_rigid_data s) (b, j))
       + virial_term (arrays_mass (m_pdata s) (pidx_of (m_rigid_data s) (b, j))) (0.5 * m_deltaT s)
         (particle_oldpos (m_rigid_data s) (localidx_of (m_rigid_data s) (b, j)))
         (particle_oldvel (m_rigid_data s) (localidx_of (m_rigid_data s) (b, j)))
         (fst (fst V)) (fst (snd (fst V))) (snd (snd (fst V)))
         (net_force (m_pdata s) (pidx_of (m_rigid_data s) (b, j)))"
  by (auto simp: set_v_view_def set_v_particle_def Let_def case_prod_beta pidx_of_def localidx_of_def)

text \<open>
  C2, as amended. For every constituent particle of every visited body, with the implied
  constraint force \<open>fc = mass (new velocity - cached old velocity) / (dt / 2) - net force\<close>
  and the term \<open>0.5 (cached old position . fc) / 3\<close> as \<open>virial_term\<close>: \<^verbatim>\<open>set_xv\<close> leaves
  the global per-particle virial unchanged and stores the term in the particle's slot of
  the integrator's own array \<^verbatim>\<open>m_virial\<close>; \<^verbatim>\<open>set_v\<close> adds to the particle's entry of the
  global virial the value stored in that slot and its own term. The bodies are visited
  once, and no particle index or slot belongs to two constituents.
\<close>

theorem virial_two_parts:
  assumes "distinct (visited s)"
    and "inj_on (pidx_of (m_rigid_data s)) (set (constituents (m_rigid_data s) (visited s)))"
    and "inj_on (localidx_of (m_rigid_data s)) (set (constituents (m_rigid_data s) (visited s)))"
    and "b \<in> set (visited s)" and "j < body_size (m_rigid_data s) b"
    and "pidx = pidx_of (m_rigid_data s) (b, j)" and "lidx = localidx_of (m_rigid_data s) (b, j)"
  shows "(\<forall>s1. set_xv t s = Inr s1 \<longrightarrow>
            net_virial (m_pdata s1) = net_virial (m_pdata s)
          \<and> m_virial s1 lidx =
              virial_term (arrays_mass (m_pdata s) pidx) (0.5 * m_deltaT s)
                (particle_oldpos (m_rigid_data s) lidx) (particle_oldvel (m_rigid_data s) lidx)
                (arrays_vx (m_pdata s1) pidx) (arrays_vy (m_pdata s1) pidx)
                (arrays_vz (m_pdata s1) pidx) (net_force (m_pdata s) pidx))
       \<and> (\<forall>s2. set_v t s = Inr s2 \<longrightarrow>
            net_virial (m_pdata s2) pidx =
              net_virial (m_pdata s) pidx + m_virial s lidx
              + virial_term (arrays_mass (m_pdata s) pidx) (0.5 * m_deltaT s)
                  (particle_oldpos (m_rigid_data s) lidx) (particle_oldvel (m_rigid_data s) lidx)
                  (arrays_vx (m_pdata s2) pidx) (arrays_vy (m_pdata s2) pidx)
                  (arrays_vz (m_pdata s2) pidx) (net_force (m_pdata s) pidx))"
proof (intro conjI allI impI)
  let ?ps = "constituents (m_rigid_data s) (visited s)"
  have mem: "(b, j) \<in> set ?ps" using assms(4,5) by (simp add: set_constituents)
  have d: "distinct ?ps" using assms(1) by (rule distinct_constituents)
  {
    fix s1 assume 1: "set_xv t s = Inr s1"
    show "net_virial (m_pdata s1) = net_virial (m_pdata s)" by (rule set_xv_net_virial [OF 1])
    have "set_xv_view (pidx_of (m_rigid_data s) (b, j)) (localidx_of (m_rigid_data s) (b, j)) (set_xv_particle b j s)
          = set_xv_view (pidx_of (m_rigid_data s) (b, j)) (localidx_of (m_rigid_data s) (b, j)) s1"
      unfolding set_xv_Inr(1) [OF 1]
      using mem d assms(2,3) by (intro fold_set_xv_particle_at [symmetric])
    from set_xv_particle_virial [OF this]
    show "m_virial s1 lidx =
              virial_term (arrays_mass (m_pdata s) pidx) (0.5 * m_deltaT s)
                (particle_oldpos (m_rigid_data s) lidx) (particle_oldvel (m_rigid_data s) lidx)
                (arrays_vx (m_pdata s1) pidx) (arrays_vy (m_pdata s1) pidx)
                (arrays_vz (m_pdata s1) pidx) (net_force (m_pdata s) pidx)"
      by (simp add: set_xv_view_def assms(6,7))
  }
  {
    fix s2 assume 2: "set_v t s = Inr s2"
    have "set_v_view (pidx_of (m_rigid_data s) (b, j)) (localidx_of (m_rigid_data s) (b, j)) (set_v_particle b j s)
          = set_v_view (pidx_of (m_rigid_data s) (b, j)) (localidx_of (m_rigid_data s) (b, j)) s2"
      unfolding set_v_Inr [OF 2]
      using mem d assms(2,3) by (intro fold_set_v_particle_at [symmetric])
    from set_v_particle_virial [OF this]
    show "net_virial (m_pdata s2) pidx =
              net_virial (m_pdata s) pidx + m_virial s lidx
              + virial_term (arrays_mass (m_pdata s) pidx) (0.5 * m_deltaT s)
                  (particle_oldpos (m_rigid_data s) lidx) (particle_oldvel (m_rigid_data s) lidx)
                  (arrays_vx (m_pdata s2) pidx) (arrays_vy (m_pdata s2) pidx)
                  (arrays_vz (m_pdata s2) pidx) (net_force (m_pdata s) pidx)"
      by (simp add: set_v_view_def assms(6,7))
  }
qed

theorem virial_two_parts_witness:
  "distinct (visited ex_state)
   \<and> inj_on (pidx_of (m_rigid_data ex_state)) (set (constituents (m_rigid_data ex_state) (visited ex_state)))
   \<and> inj_on (localidx_of (m_rigid_data ex_state)) (set (constituents (m_rigid_data ex_state) (visited ex_state)))
   \<and> 0 \<in> set (visited ex_state) \<and> 0 < body_size (m_rigid_data ex_state) 0
   \<and> 0 = pidx_of (m_rigid_data ex_state) (0, 0) \<and> 0 = localidx_of (m_rigid_data ex_state) (0, 0)
   \<and> set_xv 0 ex_state = Inr ex_state_xv
   \<and> net_virial (m_pdata ex_state_xv) = net_virial (m_pdata ex_state)
   \<and> m_virial ex_state_xv 0 =
        virial_term (arrays_mass (m_pdata ex_state) 0) (0.5 * m_deltaT ex_state)
          (particle_oldpos (m_rigid_data ex_state) 0) (particle_oldvel (m_rigid_data ex_state) 0)
          (arrays_vx (m_pdata ex_state_xv) 0) (arrays_vy (m_pdata ex_state_xv) 0)
          (arrays_vz (m_pdata ex_state_xv) 0) (net_force (m_pdata ex_state) 0)
   \<and> set_v 0 ex_state = Inr ex_state_v
   \<and> net_virial (m_pdata ex_state_v) 0 =
        net_virial (m_pdata ex_state) 0 + m_virial ex_state 0
        + virial_term (arrays_mass (m_pdata ex_state) 0) (0.5 * m_deltaT ex_state)
            (particle_oldpos (m_rigid_data ex_state) 0) (particle_oldvel (m_rigid_data ex_state) 0)
            (arrays_vx (m_pdata ex_state_v) 0) (arrays_vy (m_pdata ex_state_v) 0)
            (arrays_vz (m_pdata ex_state_v) 0) (net_force (m_pdata ex_state) 0)"
proof -
  have h1: "distinct (visited ex_state)" by (simp add: visited_ex)
  have h2: "inj_on (pidx_of (m_rigid_data ex_state))
              (set (constituents (m_rigid_data ex_state) (visited ex_state)))"
    by (simp add: visited_ex constituents_ex)
  have h3: "inj_on (localidx_of (m_rigid_data ex_state))
              (set (constituents (m_rigid_data ex_state) (visited ex_state)))"
    by (simp add: visited_ex constituents_ex)
  have h4: "0 \<in> set (visited ex_state)" by (simp add: visited_ex)
  have h5: "0 < body_size (m_rigid_data ex_state) 0" by (simp add: ex_state_def ex_rd_def)
  have h6: "0 = pidx_of (m_rigid_data ex_state) (0, 0)"
    by (simp add: pidx_of_def ex_state_def ex_rd_def)
  have h7: "0 = localidx_of (m_rigid_data ex_state) (0, 0)"
    by (simp add: localidx_of_def ex_state_def ex_rd_def)
  show ?thesis
    using virial_two_parts [OF h1 h2 h3 h4 h5 h6 h7, of 0] set_xv_ex set_v_ex h1 h2 h3 h4 h5 h6 h7
    by blast
qed

text \<open>
  C2 as stated fails for \<^verbatim>\<open>set_xv\<close>: on the example state the term of particle 0 is
  \<open>-1/6\<close>, and the particle's entry of the global virial is the same after the pass as
  before, not increased by the term.
\<close>

theorem set_xv_virial_counterexample:
  "set_xv 0 ex_state = Inr ex_state_xv
   \<and> net_virial (m_pdata ex_state_xv) 0 \<noteq>
        net_virial (m_pdata ex_state) 0
        + virial_term (arrays_mass (m_pdata ex_state) 0) (0.5 * m_deltaT ex_state)
            (particle_oldpos (m_rigid_data ex_state) 0) (particle_oldvel (m_rigid_data ex_state) 0)
            (arrays_vx (m_pdata ex_state_xv) 0) (arrays_vy (m_pdata ex_state_xv) 0)
            (arrays_vz (m_pdata ex_state_xv) 0) (net_force (m_pdata ex_state) 0)"
proof -
  have "set_xv 0 ex_state = Inr (set_xv_particle 0 0 ex_state)"
    by (simp add: set_xv_def set_xv_body_def loop_bodies_eq getNumMembers_def upt_0_1
          box_assert_def ex_defs)
  then have "set_xv 0 ex_state = Inr ex_state_xv" by (simp only: set_xv_particle_ex)
  moreover have "net_virial (m_pdata ex_state_xv) 0 \<noteq>
        net_virial (m_pdata ex_state) 0
        + virial_term (arrays_mass (m_pdata ex_state) 0) (0.5 * m_deltaT ex_state)
            (particle_oldpos (m_rigid_data ex_state) 0) (particle_oldvel (m_rigid_data ex_state) 0)
            (arrays_vx (m_pdata ex_state_xv) 0) (arrays_vy (m_pdata ex_state_xv) 0)
            (arrays_vz (m_pdata ex_state_xv) 0) (net_force (m_pdata ex_state) 0)"
    by (simp add: ex_state_xv_def ex_defs virial_term_def fc_component_def)
  ultimately show ?thesis by simp
qed

subsection \<open>One body in the loops of the two steps\<close>

lemma stepOne_body_other:
  "c \<noteq> b \<Longrightarrow> body_view b (stepOne_body bx dt c rd) = body_view b rd"
  by (simp add: body_view_def stepOne_body_def Let_def case_prod_beta)

lemma body_view_eqs:
  assumes "body_view b x = body_view b y"
  shows "body_mass x b = body_mass y b" "moment_inertia x b = moment_inertia y b"
    "force x b = force y b" "torque x b = torque y b" "vel x b = vel y b" "com x b = com y b"
    "angmom x b = angmom y b" "angvel x b = angvel y b" "orientation x b = orientation y b"
    "ex_space x b = ex_space y b" "ey_space x b = ey_space y b" "ez_space x b = ez_space y b"
    "body_imagex x b = body_imagex y b" "body_imagey x b = body_imagey y b"
    "body_imagez x b = body_imagez y b"
  using assms by (simp_all add: body_view_def)

lemma stepOne_body_loc:
  assumes "body_view b x = body_view b y"
  shows "body_view b (stepOne_body bx dt b x) = body_view b (stepOne_body bx dt b y)"
  by (simp add: body_view_def stepOne_body_def Let_def case_prod_beta body_view_eqs [OF assms])

lemma fold_stepOne_body:
  assumes "distinct bs" and "b \<in> set bs"
  shows "body_view b (fold (stepOne_body bx dt) bs rd) = body_view b (stepOne_body bx dt b rd)"
proof (rule fold_local [where I = "\<lambda>_. True"])
  show "distinct bs" "b \<in> set bs" by (rule assms)+
  show "True" "\<And>c x. True" by simp_all
next
  fix c x assume "c \<noteq> b"
  then show "body_view b (stepOne_body bx dt c x) = body_view b x" by (rule stepOne_body_other)
next
  fix x y assume "body_view b x = body_view b y"
  then show "body_view b (stepOne_body bx dt b x) = body_view b (stepOne_body bx dt b y)"
    by (rule stepOne_body_loc)
qed

lemma stepTwo_body_other:
  "c \<noteq> b \<Longrightarrow> body_view b (stepTwo_body dt c rd) = body_view b rd"
  by (simp add: body_view_def stepTwo_body_def Let_def)

lemma stepTwo_body_loc:
  assumes "body_view b x = body_view b y"
  shows "body_view b (stepTwo_body dt b x) = body_view b (stepTwo_body dt b y)"
  by (simp add: body_view_def stepTwo_body_def Let_def body_view_eqs [OF assms])

lemma fold_stepTwo_body:
  assumes "distinct bs" and "b \<in> set bs"
  shows "body_view b (fold (stepTwo_body dt) bs rd) = body_view b (stepTwo_body dt b rd)"
proof (rule fold_local [where I = "\<lambda>_. True"])
  show "distinct bs" "b \<in> set bs" by (rule assms)+
  show "True" "\<And>c x. True" by simp_all
next
  fix c x assume "c \<noteq> b"
  then show "body_view b (stepTwo_body dt c x) = body_view b x" by (rule stepTwo_body_other)
next
  fix x y assume "body_view b x = body_view b y"
  then show "body_view b (stepTwo_body dt b x) = body_view b (stepTwo_body dt b y)"
    by (rule stepTwo_body_loc)
qed

lemma set_xv_rigid:
  assumes "set_xv t s = Inr s'"
  shows "body_view b (m_rigid_data s') = body_view b (m_rigid_data s)"
    and "visited s' = visited s"
proof -
  have e: "set_xv_erase s' = set_xv_erase s" by (rule set_xv_erase [OF assms])
  have "body_view b (m_rigid_data s') = body_view b (m_rigid_data (set_xv_erase s'))"
    by (simp add: set_xv_erase_def body_view_def)
  also have "\<dots> = body_view b (m_rigid_data (set_xv_erase s))" by (simp only: e)
  also have "\<dots> = body_view b (m_rigid_data s)"
    by (simp add: set_xv_erase_def body_view_def)
  finally show "body_view b (m_rigid_data s') = body_view b (m_rigid_data s)" .
  have "visited s' = visited (set_xv_erase s')"
    by (simp add: set_xv_erase_def visited_def)
  also have "\<dots> = visited (set_xv_erase s)" by (simp only: e)
  also have "\<dots> = visited s"
    by (simp add: set_xv_erase_def visited_def)
  finally show "visited s' = visited s" .
qed

subsection \<open>What setup leaves alone\<close>

lemma set_v_setup_erase:
  assumes "set_v_erase a = set_v_erase b"
  shows "setup_erase a = setup_erase b"
proof -
  have "setup_erase a = setup_erase (set_v_erase a)"
    by (simp add: setup_erase_def stepTwo_erase_def set_v_erase_def kick_erase_def)
  also have "\<dots> = setup_erase (set_v_erase b)" by (simp only: assms)
  also have "\<dots> = setup_erase b"
    by (simp add: setup_erase_def stepTwo_erase_def set_v_erase_def kick_erase_def)
  finally show ?thesis .
qed

lemma kick_erase_oldvel:
  assumes "kick_erase rd' = kick_erase rd"
  shows "kick_erase (rd'\<lparr>particle_oldvel := f\<rparr>) = kick_erase (rd\<lparr>particle_oldvel := f\<rparr>)"
proof -
  have "kick_erase (rd'\<lparr>particle_oldvel := f\<rparr>) = (kick_erase rd')\<lparr>particle_oldvel := f\<rparr>"
    by (simp add: kick_erase_def)
  also have "\<dots> = (kick_erase rd)\<lparr>particle_oldvel := f\<rparr>" by (simp only: assms)
  also have "\<dots> = kick_erase (rd\<lparr>particle_oldvel := f\<rparr>)" by (simp add: kick_erase_def)
  finally show ?thesis .
qed

lemma setup_erase_eqI:
  assumes "kick_erase (m_rigid_data x) = kick_erase (m_rigid_data s)"
    and "m_pdata x = m_pdata s" and "m_group x = m_group s"
    and "m_body_group x = m_body_group s" and "n_dimensions x = n_dimensions s"
    and "m_first_step x = m_first_step s" and "m_deltaT x = m_deltaT s"
  shows "setup_erase x = setup_erase s"
  by (rule TwoStepNVERigid.equality)
     (simp_all add: setup_erase_def stepTwo_erase_def kick_erase_oldvel [OF assms(1)] assms(2-))

lemma setup_nve_erase:
  assumes "setup_nve s = Inr s'"
  shows "setup_erase s' = setup_erase s"
    and "m_n_bodies s' = getNumMembers (m_body_group s)"
proof -
  let ?n = "getNumMembers (m_body_group s)"
  have "\<exists>x. (x = s' \<or> set_v 0 x = Inr s') \<and> m_n_bodies x = ?n
          \<and> kick_erase (m_rigid_data x) = kick_erase (m_rigid_data s)
          \<and> m_pdata x = m_pdata s \<and> m_group x = m_group s
          \<and> m_body_group x = m_body_group s \<and> n_dimensions x = n_dimensions s
          \<and> m_first_step x = m_first_step s \<and> m_deltaT x = m_deltaT s"
  proof (cases "?n = 0")
    case True
    then have "s' = s\<lparr>m_n_bodies := ?n\<rparr>" using assms by (simp add: setup_nve_def Let_def)
    then show ?thesis by (intro exI [of _ s']) simp
  next
    case False
    then obtain bodies where
      "set_v 0 (s\<lparr>m_n_bodies := ?n, m_conjqm := (\<lambda>_. zero4), m_virial := (\<lambda>_. 0)\<rparr>
          \<lparr>m_rigid_data := fold setup_velocity bodies
               (fold (setup_body (m_pdata s)) bodies (fold setup_reset bodies (m_rigid_data s))),
           m_conjqm := snd (fold (setup_conjqm (fold setup_velocity bodies
               (fold (setup_body (m_pdata s)) bodies (fold setup_reset bodies (m_rigid_data s)))))
              bodies (zero4, \<lambda>_. zero4))\<rparr>) = Inr s'"
      (is "set_v 0 ?x = _")
      using assms by (auto simp: setup_nve_def Let_def bind_err_eq_Inr)
    then show ?thesis
      by (intro exI [of _ ?x])
         (simp add: fold_invariant setup_reset_erase setup_body_erase setup_velocity_erase)
  qed
  then obtain x where x: "x = s' \<or> set_v 0 x = Inr s'" "m_n_bodies x = ?n"
    and e: "setup_erase x = setup_erase s"
    by (auto intro: setup_erase_eqI)
  have v: "set_v_erase s' = set_v_erase x" using x(1) by (auto dest: set_v_erase)
  show "setup_erase s' = setup_erase s"
    using set_v_setup_erase [OF v] e by simp
  have "m_n_bodies s' = m_n_bodies (set_v_erase s')" by (simp add: set_v_erase_def)
  also have "\<dots> = m_n_bodies (set_v_erase x)" by (simp only: v)
  also have "\<dots> = ?n" by (simp add: set_v_erase_def x)
  finally show "m_n_bodies s' = ?n" .
qed

lemma setup_erase_cong:
  assumes "setup_erase a = setup_erase b" and "\<And>x. F x = F (setup_erase x)"
  shows "F a = F b"
proof -
  have "F a = F (setup_erase a)" by (rule assms(2))
  also have "\<dots> = F (setup_erase b)" by (simp only: assms(1))
  also have "\<dots> = F b" by (rule assms(2) [symmetric])
  finally show ?thesis .
qed

lemmas setup_erase_defs = setup_erase_def stepTwo_erase_def kick_erase_def

subsection \<open>The first step and the periodic wrap\<close>

lemma stepOne_body_wrap:
  "(sx (com (stepOne_body bx dt b rd) b), body_imagex (stepOne_body bx dt b rd) b)
     = wrap_axis (xlo bx) (xhi bx) (xhi bx - xlo bx)
         (sx (com rd b) + sx (vel (stepOne_body bx dt b rd) b) * dt) (body_imagex rd b)"
  "(sy (com (stepOne_body bx dt b rd) b), body_imagey (stepOne_body bx dt b rd) b)
     = wrap_axis (ylo bx) (yhi bx) (yhi bx - ylo bx)
         (sy (com rd b) + sy (vel (stepOne_body bx dt b rd) b) * dt) (body_imagey rd b)"
  "(sz (com (stepOne_body bx dt b rd) b), body_imagez (stepOne_body bx dt b rd) b)
     = wrap_axis (zlo bx) (zhi bx) (zhi bx - zlo bx)
         (sz (com rd b) + sz (vel (stepOne_body bx dt b rd) b) * dt) (body_imagez rd b)"
  by (simp_all add: stepOne_body_def Let_def case_prod_beta set3_def add3_def)

text \<open>The state in which the body loop of \<^verbatim>\<open>integrateStepOne\<close> starts, and what the loop
  does to one body.\<close>

lemma integrateStepOne_loop:
  assumes "integrateStepOne t s = Inr s1" and "b \<in> set (visited s1)" and "distinct (visited s1)"
  shows "\<exists>rd0. body_view b (m_rigid_data s1)
                 = body_view b (stepOne_body (box (m_pdata s)) (m_deltaT s) b rd0)
           \<and> com rd0 = com (m_rigid_data s)
           \<and> body_imagex rd0 = body_imagex (m_rigid_data s)
           \<and> body_imagey rd0 = body_imagey (m_rigid_data s)
           \<and> body_imagez rd0 = body_imagez (m_rigid_data s)
           \<and> orientation rd0 = orientation (m_rigid_data s)
           \<and> body_mass rd0 = body_mass (m_rigid_data s)
           \<and> (\<not> m_first_step s \<longrightarrow> rd0 = m_rigid_data s)
           \<and> (m_first_step s \<longrightarrow>
                (\<exists>sa. setup_nve s = Inr sa \<and> rd0 = m_rigid_data sa
                    \<and> visited s1 = member_idx (m_body_group s)))"
    and "box_assert (box (m_pdata s))"
    and "m_deltaT s1 = m_deltaT s"
proof -
  obtain sb where pre: "(if m_first_step s
                         then bind_err (setup_nve s) (\<lambda>x. Inr (x\<lparr>m_first_step := False\<rparr>))
                         else Inr s) = Inr sb"
    and rest: "(if m_n_bodies sb = 0 then Inr sb
                else if \<not> box_assert (box (m_pdata sb)) then Inl AssertionFailed
                else bind_err (loop_bodies (m_body_group sb) (m_n_bodies sb)) (\<lambda>bodies.
                  set_xv t (sb\<lparr>m_rigid_data :=
                     fold (stepOne_body (box (m_pdata sb)) (m_deltaT sb)) bodies (m_rigid_data sb)\<rparr>)))
               = Inr s1"
    using assms(1) by (auto simp: integrateStepOne_def bind_err_eq_Inr)
  have keep: "F sb = F s" if "\<And>x. F x = F (setup_erase x)" "\<And>x. F (x\<lparr>m_first_step := False\<rparr>) = F x" for F :: "TwoStepNVERigid \<Rightarrow> 'a"
  proof (cases "m_first_step s")
    case True
    then obtain sa where sa: "setup_nve s = Inr sa" and sb: "sb = sa\<lparr>m_first_step := False\<rparr>"
      using pre by (auto simp: bind_err_eq_Inr)
    have "F sa = F s" using setup_nve_erase(1) [OF sa] that(1) by (rule setup_erase_cong)
    then show ?thesis using that(2) sb by simp
  next
    case False
    then show ?thesis using pre by simp
  qed
  have k1: "com (m_rigid_data sb) = com (m_rigid_data s)"
    by (rule keep) (simp_all add: setup_erase_defs)
  have k2: "body_imagex (m_rigid_data sb) = body_imagex (m_rigid_data s)"
    by (rule keep) (simp_all add: setup_erase_defs)
  have k3: "body_imagey (m_rigid_data sb) = body_imagey (m_rigid_data s)"
    by (rule keep) (simp_all add: setup_erase_defs)
  have k4: "body_imagez (m_rigid_data sb) = body_imagez (m_rigid_data s)"
    by (rule keep) (simp_all add: setup_erase_defs)
  have k5: "orientation (m_rigid_data sb) = orientation (m_rigid_data s)"
    by (rule keep) (simp_all add: setup_erase_defs)
  have k6: "body_mass (m_rigid_data sb) = body_mass (m_rigid_data s)"
    by (rule keep) (simp_all add: setup_erase_defs)
  have k7: "box (m_pdata sb) = box (m_pdata s)"
    by (rule keep) (simp_all add: setup_erase_defs)
  have k8: "m_deltaT sb = m_deltaT s"
    by (rule keep) (simp_all add: setup_erase_defs)
  have k9: "\<not> m_first_step s \<longrightarrow> m_rigid_data sb = m_rigid_data s"
    using pre by auto
  have k10: "m_body_group sb = m_body_group s"
    by (rule keep) (simp_all add: setup_erase_defs)
  have k11: "m_first_step s \<longrightarrow>
               (\<exists>sa. setup_nve s = Inr sa \<and> m_rigid_data sb = m_rigid_data sa
                   \<and> visited sb = member_idx (m_body_group s))"
  proof
    assume "m_first_step s"
    then obtain sa where sa: "setup_nve s = Inr sa" and sb: "sb = sa\<lparr>m_first_step := False\<rparr>"
      using pre by (auto simp: bind_err_eq_Inr)
    have "m_n_bodies sb = getNumMembers (m_body_group s)"
      using setup_nve_erase(2) [OF sa] by (simp add: sb)
    then have "visited sb = member_idx (m_body_group s)"
      by (simp add: visited_def k10 getNumMembers_def)
    then show "\<exists>sa. setup_nve s = Inr sa \<and> m_rigid_data sb = m_rigid_data sa
                   \<and> visited sb = member_idx (m_body_group s)"
      using sa sb by (intro exI [of _ sa]) simp
  qed
  have nz: "m_n_bodies sb \<noteq> 0"
  proof
    assume z: "m_n_bodies sb = 0"
    then have "s1 = sb" using rest by simp
    then show False using assms(2) z by (simp add: visited_def)
  qed
  then obtain sl where ba: "box_assert (box (m_pdata sb))"
    and sl: "sl = sb\<lparr>m_rigid_data :=
                     fold (stepOne_body (box (m_pdata sb)) (m_deltaT sb)) (visited sb) (m_rigid_data sb)\<rparr>"
    and xv: "set_xv t sl = Inr s1"
    using rest by (auto simp: bind_err_eq_Inr loop_bodies_eq visited_def split: if_splits)
  have vis: "visited s1 = visited sb"
    using set_xv_rigid(2) [OF xv] by (simp add: sl visited_def)
  have "body_view b (m_rigid_data s1) = body_view b (m_rigid_data sl)"
    by (rule set_xv_rigid(1) [OF xv])
  also have "\<dots> = body_view b (stepOne_body (box (m_pdata sb)) (m_deltaT sb) b (m_rigid_data sb))"
    using assms(2,3) by (simp add: sl vis fold_stepOne_body)
  finally have "body_view b (m_rigid_data s1)
       = body_view b (stepOne_body (box (m_pdata s)) (m_deltaT s) b (m_rigid_data sb))"
    by (simp add: k7 k8)
  then show "\<exists>rd0. body_view b (m_rigid_data s1)
                 = body_view b (stepOne_body (box (m_pdata s)) (m_deltaT s) b rd0)
           \<and> com rd0 = com (m_rigid_data s)
           \<and> body_imagex rd0 = body_imagex (m_rigid_data s)
           \<and> body_imagey rd0 = body_imagey (m_rigid_data s)
           \<and> body_imagez rd0 = body_imagez (m_rigid_data s)
           \<and> orientation rd0 = orientation (m_rigid_data s)
           \<and> body_mass rd0 = body_mass (m_rigid_data s)
           \<and> (\<not> m_first_step s \<longrightarrow> rd0 = m_rigid_data s)
           \<and> (m_first_step s \<longrightarrow>
                (\<exists>sa. setup_nve s = Inr sa \<and> rd0 = m_rigid_data sa
                    \<and> visited s1 = member_idx (m_body_group s)))"
    using k1 k2 k3 k4 k5 k6 k9 k11 by (intro exI [of _ "m_rigid_data sb"]) (simp add: vis)
  show "box_assert (box (m_pdata s))" using ba by (simp add: k7)
  have "m_deltaT s1 = m_deltaT (set_xv_erase s1)" by (simp add: set_xv_erase_def)
  also have "\<dots> = m_deltaT (set_xv_erase sl)" by (simp only: set_xv_erase [OF xv])
  also have "\<dots> = m_deltaT s" by (simp add: set_xv_erase_def sl k8)
  finally show "m_deltaT s1 = m_deltaT s" .
qed

text \<open>
  C3. For every body that \<^verbatim>\<open>integrateStepOne\<close> visits (each once) and every axis, with
  the drifted coordinate being the old centre of mass plus the new velocity times the time
  step: the new coordinate and image counter are related to the drifted coordinate and the
  old counter by \<open>wrap_once\<close>, one adjustment at most, whatever the size of the drift. A
  body at \<open>xhi - eps\<close> drifting by \<open>2 eps\<close>, with \<open>eps\<close> positive and smaller than the box
  length, ends inside \<open>[xlo, xhi)\<close> with its counter increased by one. The theorem holds
  for the first step, where \<^verbatim>\<open>setup\<close> runs before the loop, as for the later ones.
\<close>

theorem stepOne_wraps_once:
  assumes "integrateStepOne t s = Inr s1"
    and "distinct (visited s1)" and "b \<in> set (visited s1)"
  shows "wrap_once (xlo (box (m_pdata s))) (xhi (box (m_pdata s)))
           (sx (com (m_rigid_data s) b) + sx (vel (m_rigid_data s1) b) * m_deltaT s)
           (body_imagex (m_rigid_data s) b)
           (sx (com (m_rigid_data s1) b)) (body_imagex (m_rigid_data s1) b)
       \<and> wrap_once (ylo (box (m_pdata s))) (yhi (box (m_pdata s)))
           (sy (com (m_rigid_data s) b) + sy (vel (m_rigid_data s1) b) * m_deltaT s)
           (body_imagey (m_rigid_data s) b)
           (sy (com (m_rigid_data s1) b)) (body_imagey (m_rigid_data s1) b)
       \<and> wrap_once (zlo (box (m_pdata s))) (zhi (box (m_pdata s)))
           (sz (com (m_rigid_data s) b) + sz (vel (m_rigid_data s1) b) * m_deltaT s)
           (body_imagez (m_rigid_data s) b)
           (sz (com (m_rigid_data s1) b)) (body_imagez (m_rigid_data s1) b)
       \<and> (\<forall>eps. 0 < eps \<and> eps < xhi (box (m_pdata s)) - xlo (box (m_pdata s))
                \<and> sx (com (m_rigid_data s) b) = xhi (box (m_pdata s)) - eps
                \<and> sx (vel (m_rigid_data s1) b) * m_deltaT s = 2 * eps
              \<longrightarrow> xlo (box (m_pdata s)) \<le> sx (com (m_rigid_data s1) b)
                \<and> sx (com (m_rigid_data s1) b) < xhi (box (m_pdata s))
                \<and> body_imagex (m_rigid_data s1) b = body_imagex (m_rigid_data s) b + 1)"
proof -
  let ?bx = "box (m_pdata s)" and ?dt = "m_deltaT s"
  obtain rd0 where v: "body_view b (m_rigid_data s1) = body_view b (stepOne_body ?bx ?dt b rd0)"
    and k: "com rd0 = com (m_rigid_data s)" "body_imagex rd0 = body_imagex (m_rigid_data s)"
      "body_imagey rd0 = body_imagey (m_rigid_data s)" "body_imagez rd0 = body_imagez (m_rigid_data s)"
    using integrateStepOne_loop(1) [OF assms(1,3,2)] by blast
  note e = body_view_eqs [OF v]
  have x: "wrap_once (xlo ?bx) (xhi ?bx)
           (sx (com (m_rigid_data s) b) + sx (vel (m_rigid_data s1) b) * ?dt)
           (body_imagex (m_rigid_data s) b)
           (sx (com (m_rigid_data s1) b)) (body_imagex (m_rigid_data s1) b)"
    using stepOne_body_wrap(1) [of ?bx ?dt b rd0]
    by (intro wrap_axis_once) (simp add: e k)
  have y: "wrap_once (ylo ?bx) (yhi ?bx)
           (sy (com (m_rigid_data s) b) + sy (vel (m_rigid_data s1) b) * ?dt)
           (body_imagey (m_rigid_data s) b)
           (sy (com (m_rigid_data s1) b)) (body_imagey (m_rigid_data s1) b)"
    using stepOne_body_wrap(2) [of ?bx ?dt b rd0]
    by (intro wrap_axis_once) (simp add: e k)
  have z: "wrap_once (zlo ?bx) (zhi ?bx)
           (sz (com (m_rigid_data s) b) + sz (vel (m_rigid_data s1) b) * ?dt)
           (body_imagez (m_rigid_data s) b)
           (sz (com (m_rigid_data s1) b)) (body_imagez (m_rigid_data s1) b)"
    using stepOne_body_wrap(3) [of ?bx ?dt b rd0]
    by (intro wrap_axis_once) (simp add: e k)
  have eps: "xlo ?bx \<le> sx (com (m_rigid_data s1) b)
                \<and> sx (com (m_rigid_data s1) b) < xhi ?bx
                \<and> body_imagex (m_rigid_data s1) b = body_imagex (m_rigid_data s) b + 1"
    if "0 < eps \<and> eps < xhi ?bx - xlo ?bx
                \<and> sx (com (m_rigid_data s) b) = xhi ?bx - eps
                \<and> sx (vel (m_rigid_data s1) b) * ?dt = 2 * eps" for eps
    using x that by (simp add: wrap_once_def)
  show ?thesis using x y z eps by blast
qed

subsection \<open>A body without angular momentum\<close>

lemma quatquat_one: "quatquat q \<lparr>sx = 1, sy = 0, sz = 0, sw = 0\<rparr> = q"
  by (simp add: quatquat_def)

lemma axis_rotation_0: "axis_rotation k 0 = \<lparr>sx = 1, sy = 0, sz = 0, sw = 0\<rparr>"
  by (simp add: axis_rotation_def)

lemma normalize_unit: "quat_norm q = 1 \<Longrightarrow> normalize q = q"
  by (simp add: normalize_def)

lemma dot3_zero3: "zero3 am \<Longrightarrow> dot3 e am = 0"
  by (simp add: dot3_def zero3_def)

lemma computeAngularVelocity_zero3:
  "zero3 am \<Longrightarrow> computeAngularVelocity am inertia ex ey ez av = set3 av 0 0 0"
  by (simp add: computeAngularVelocity_def dot3_zero3 angbody_def angvel_from_body_def set3_def)

lemma rotate_about_axis_zero3:
  "zero3 am \<Longrightarrow> rotate_about_axis k am inertia dt (av, ex, ey, ez, q) =
     (set3 av 0 0 0, exFromQuaternion q ex, eyFromQuaternion q ey, ezFromQuaternion q ez, q)"
  by (simp add: rotate_about_axis_def dot3_zero3 angbody_def axis_rotation_0 quatquat_one
        computeAngularVelocity_zero3 Let_def)

lemma advanceQuaternion_zero3:
  assumes "zero3 am" and "quat_norm q = 1"
  shows "advanceQuaternion am inertia av ex ey ez dt q =
     (set3 av 0 0 0, exFromQuaternion q ex, eyFromQuaternion q ey, ezFromQuaternion q ez, q)"
  using assms
  by (simp add: advanceQuaternion_def rotate_about_axis_zero3 normalize_unit Let_def
        computeAngularVelocity_zero3 set3_def exFromQuaternion_def eyFromQuaternion_def
        ezFromQuaternion_def)

lemma stepOne_body_rest:
  assumes "zero3 (angmom rd b)" and "zero3 (torque rd b)" and "quat_norm (orientation rd b) = 1"
  shows "orientation (stepOne_body bx dt b rd) b = orientation rd b"
proof -
  have "zero3 (add3 (angmom rd b) (0.5 * dt * sx (torque rd b)) (0.5 * dt * sy (torque rd b))
                 (0.5 * dt * sz (torque rd b)))"
    using assms(1,2) by (simp add: zero3_def add3_def)
  then show ?thesis
    using assms(3) by (simp add: stepOne_body_def Let_def case_prod_beta advanceQuaternion_zero3)
qed

lemma stepOne_body_vel:
  "vel (stepOne_body bx dt b rd) b =
     add3 (vel rd b) (0.5 * dt / body_mass rd b * sx (force rd b))
       (0.5 * dt / body_mass rd b * sy (force rd b)) (0.5 * dt / body_mass rd b * sz (force rd b))"
  by (simp add: stepOne_body_def Let_def case_prod_beta)

lemma stepTwo_body_vel:
  "vel (stepTwo_body dt b rd) b =
     add3 (vel rd b) (0.5 * dt / body_mass rd b * sx (force rd b))
       (0.5 * dt / body_mass rd b * sy (force rd b)) (0.5 * dt / body_mass rd b * sz (force rd b))"
  by (simp add: stepTwo_body_def Let_def)

subsection \<open>The second step\<close>

lemma force_stage_field:
  assumes "\<And>x f t. F (x\<lparr>force := f, torque := t\<rparr>) = F x"
  shows "F (fold (force_body pd) bs (fold force_reset bs rd)) = F rd"
proof -
  have r: "F (force_reset b x) = F x" for b x
    by (simp add: force_reset_def assms)
  have p: "F (force_particle pd b j x) = F x" for b j x
    by (simp add: force_particle_def Let_def case_prod_beta assms)
  have b: "F (force_body pd b x) = F x" for b x
    unfolding force_body_def by (rule fold_invariant) (rule p)
  have "F (fold (force_body pd) bs (fold force_reset bs rd)) = F (fold force_reset bs rd)"
    by (rule fold_invariant) (rule b)
  also have "\<dots> = F rd" by (rule fold_invariant) (rule r)
  finally show ?thesis .
qed

lemma computeForceAndTorque_keeps:
  assumes "computeForceAndTorque t s = Inr sf"
  shows "vel (m_rigid_data sf) = vel (m_rigid_data s)"
    and "body_mass (m_rigid_data sf) = body_mass (m_rigid_data s)"
    and "angmom (m_rigid_data sf) = angmom (m_rigid_data s)"
    and "angvel (m_rigid_data sf) = angvel (m_rigid_data s)"
    and "moment_inertia (m_rigid_data sf) = moment_inertia (m_rigid_data s)"
    and "ex_space (m_rigid_data sf) = ex_space (m_rigid_data s)"
    and "ey_space (m_rigid_data sf) = ey_space (m_rigid_data s)"
    and "ez_space (m_rigid_data sf) = ez_space (m_rigid_data s)"
    and "m_deltaT sf = m_deltaT s" and "visited sf = visited s"
  using assms
  by (auto simp: computeForceAndTorque_def bind_err_eq_Inr force_stage_field visited_def)

lemma set_v_rigid:
  assumes "set_v t s = Inr s'"
  shows "body_view b (m_rigid_data s') = body_view b (m_rigid_data s)"
proof -
  have e: "set_v_erase s' = set_v_erase s" by (rule set_v_erase [OF assms])
  have "body_view b (m_rigid_data s') = body_view b (m_rigid_data (set_v_erase s'))"
    by (simp add: set_v_erase_def body_view_def)
  also have "\<dots> = body_view b (m_rigid_data (set_v_erase s))" by (simp only: e)
  also have "\<dots> = body_view b (m_rigid_data s)"
    by (simp add: set_v_erase_def body_view_def)
  finally show ?thesis .
qed

lemma integrateStepTwo_loop:
  assumes "integrateStepTwo t s = Inr s'" and "b \<in> set (visited s)" and "distinct (visited s)"
  shows "\<exists>sf. computeForceAndTorque t s = Inr sf
           \<and> body_view b (m_rigid_data s')
               = body_view b (stepTwo_body (m_deltaT s) b (m_rigid_data sf))"
proof -
  have nz: "m_n_bodies s \<noteq> 0"
  proof
    assume "m_n_bodies s = 0"
    then show False using assms(2) by (simp add: visited_def)
  qed
  then obtain sf where f: "computeForceAndTorque t s = Inr sf"
    and v: "set_v t (sf\<lparr>m_rigid_data :=
               fold (stepTwo_body (m_deltaT sf)) (visited sf) (m_rigid_data sf)\<rparr>) = Inr s'"
    using assms(1)
    by (auto simp: integrateStepTwo_def bind_err_eq_Inr loop_bodies_eq visited_def split: if_splits)
  note k = computeForceAndTorque_keeps [OF f]
  have "body_view b (m_rigid_data s')
        = body_view b (fold (stepTwo_body (m_deltaT sf)) (visited sf) (m_rigid_data sf))"
    using set_v_rigid [OF v] by simp
  also have "\<dots> = body_view b (stepTwo_body (m_deltaT s) b (m_rigid_data sf))"
    using assms(2,3) by (simp add: k fold_stepTwo_body)
  finally show ?thesis using f by blast
qed

subsection \<open>The steps on the example states\<close>

lemma stepOne_body_ex:
  "stepOne_body (box ex_pd) (1 / 100) 0 ex_rd = ex_rd_one"
  by (simp add: stepOne_body_def Let_def advanceQuaternion_zero3 zero3_def quat_norm_def
        wrap_axis_inside add3_def set3_def exFromQuaternion_def eyFromQuaternion_def
        ezFromQuaternion_def fun_upd_const ex_rd_one_def ex_rd_def ex_pd_def zero4_def unit_x_def
        unit_y_def unit_z_def)

lemma set_xv_particle_one:
  "set_xv_particle 0 0 (ex_state\<lparr>m_rigid_data := ex_rd_one\<rparr>) = ex_state_one"
  by (simp add: set_xv_particle_def eval_defs ex_defs ex_rd_one_def ex_state_one_def quat_ex
        wrap_axis_inside)

lemma stepOne_ex: "integrateStepOne 0 ex_state = Inr ex_state_one"
proof -
  have "integrateStepOne 0 ex_state
        = set_xv 0 (ex_state\<lparr>m_rigid_data := stepOne_body (box ex_pd) (1 / 100) 0 ex_rd\<rparr>)"
    by (simp add: integrateStepOne_def loop_bodies_eq getNumMembers_def box_assert_def
          ex_state_def ex_pd_def)
  also have "\<dots> = set_xv 0 (ex_state\<lparr>m_rigid_data := ex_rd_one\<rparr>)"
    by (simp only: stepOne_body_ex)
  also have "\<dots> = Inr (set_xv_particle 0 0 (ex_state\<lparr>m_rigid_data := ex_rd_one\<rparr>))"
    by (simp add: set_xv_def set_xv_body_def loop_bodies_eq getNumMembers_def upt_0_1
          box_assert_def ex_defs ex_rd_one_def)
  finally show ?thesis by (simp only: set_xv_particle_one)
qed

lemma stepTwo_one_ex: "integrateStepTwo 0 ex_state_one = Inr ex_state_one_two"
  by (simp add: integrateStepTwo_def computeForceAndTorque_def set_v_def set_v_body_def
        set_v_particle_def force_reset_def force_body_def force_particle_def stepTwo_body_def
        eval_defs ex_defs ex_state_one_def ex_state_one_two_def)

lemma stepOne_body_wrap_ex:
  "stepOne_body (box ex_pd) (1 / 100) 0 (m_rigid_data ex_wrap) = ex_wrap_rd"
  by (simp add: stepOne_body_def Let_def advanceQuaternion_zero3 zero3_def quat_norm_def
        wrap_axis_inside wrap_axis_high add3_def set3_def exFromQuaternion_def
        eyFromQuaternion_def ezFromQuaternion_def fun_upd_const ex_wrap_def ex_wrap_rd_def
        ex_rd_def ex_pd_def zero4_def unit_x_def unit_y_def unit_z_def)

lemma set_xv_particle_wrap:
  "set_xv_particle 0 0 (ex_wrap\<lparr>m_rigid_data := ex_wrap_rd\<rparr>) = ex_wrap_one"
  by (simp add: set_xv_particle_def eval_defs ex_defs ex_wrap_def ex_wrap_rd_def ex_wrap_one_def
        quat_ex wrap_axis_inside)

lemma stepOne_wrap_ex: "integrateStepOne 0 ex_wrap = Inr ex_wrap_one"
proof -
  have "integrateStepOne 0 ex_wrap
        = set_xv 0 (ex_wrap\<lparr>m_rigid_data :=
             stepOne_body (box ex_pd) (1 / 100) 0 (m_rigid_data ex_wrap)\<rparr>)"
    by (simp add: integrateStepOne_def loop_bodies_eq getNumMembers_def box_assert_def
          ex_wrap_def ex_state_def ex_pd_def)
  also have "\<dots> = set_xv 0 (ex_wrap\<lparr>m_rigid_data := ex_wrap_rd\<rparr>)"
    by (simp only: stepOne_body_wrap_ex)
  also have "\<dots> = Inr (set_xv_particle 0 0 (ex_wrap\<lparr>m_rigid_data := ex_wrap_rd\<rparr>))"
    by (simp add: set_xv_def set_xv_body_def loop_bodies_eq getNumMembers_def upt_0_1
          box_assert_def ex_defs ex_wrap_def ex_wrap_rd_def)
  finally show ?thesis by (simp only: set_xv_particle_wrap)
qed

theorem stepOne_wraps_once_witness:
  "integrateStepOne 0 ex_wrap = Inr ex_wrap_one
   \<and> distinct (visited ex_wrap_one) \<and> 0 \<in> set (visited ex_wrap_one)
   \<and> 0 < (1 / 80000 :: real)
   \<and> 1 / 80000 < xhi (box (m_pdata ex_wrap)) - xlo (box (m_pdata ex_wrap))
   \<and> sx (com (m_rigid_data ex_wrap) 0) = xhi (box (m_pdata ex_wrap)) - 1 / 80000
   \<and> sx (vel (m_rigid_data ex_wrap_one) 0) * m_deltaT ex_wrap = 2 * (1 / 80000)
   \<and> xlo (box (m_pdata ex_wrap)) \<le> sx (com (m_rigid_data ex_wrap_one) 0)
   \<and> sx (com (m_rigid_data ex_wrap_one) 0) < xhi (box (m_pdata ex_wrap))
   \<and> body_imagex (m_rigid_data ex_wrap_one) 0 = body_imagex (m_rigid_data ex_wrap) 0 + 1"
proof -
  have h2: "distinct (visited ex_wrap_one)"
    by (simp add: visited_def ex_wrap_one_def ex_state_def)
  have h3: "0 \<in> set (visited ex_wrap_one)"
    by (simp add: visited_def ex_wrap_one_def ex_state_def)
  have p: "0 < (1 / 80000 :: real)
     \<and> 1 / 80000 < xhi (box (m_pdata ex_wrap)) - xlo (box (m_pdata ex_wrap))
     \<and> sx (com (m_rigid_data ex_wrap) 0) = xhi (box (m_pdata ex_wrap)) - 1 / 80000
     \<and> sx (vel (m_rigid_data ex_wrap_one) 0) * m_deltaT ex_wrap = 2 * (1 / 80000)"
    by (simp add: ex_wrap_def ex_wrap_one_def ex_wrap_rd_def ex_defs)
  show ?thesis
    using stepOne_wraps_once [OF stepOne_wrap_ex h2 h3] stepOne_wrap_ex h2 h3 p by blast
qed

lemma force_one_ex: "computeForceAndTorque 0 ex_state_one = Inr ex_state_one"
proof -
  have "m_rigid_data ex_state_one\<lparr>force := (\<lambda>_. unit_x), torque := (\<lambda>_. zero4)\<rparr>
        = m_rigid_data ex_state_one"
    by (simp add: ex_state_one_def ex_rd_def)
  then show ?thesis
    by (simp add: computeForceAndTorque_def force_reset_def force_body_def force_particle_def
          eval_defs ex_defs ex_state_one_def)
qed

subsection \<open>One body in the loops of setup\<close>

lemma fold_cong_view:
  assumes "\<And>a x y. v x = v y \<Longrightarrow> v (f a x) = v (f a y)" and "v x = v y"
  shows "v (fold f as x) = v (fold f as y)"
  using assms(2)
proof (induction as arbitrary: x y)
  case Nil
  then show ?case by simp
next
  case (Cons a as)
  have "v (f a x) = v (f a y)" using Cons.prems by (rule assms(1))
  then have "v (fold f as (f a x)) = v (fold f as (f a y))" by (rule Cons.IH)
  then show ?case by simp
qed

lemma setup_static_eqs:
  assumes "setup_static x = setup_static y"
  shows "body_mass x = body_mass y" "body_size x = body_size y"
    "moment_inertia x = moment_inertia y" "angmom_init x = angmom_init y"
    "particle_indices x = particle_indices y" "indices_pitch x = indices_pitch y"
    "particle_pos x = particle_pos y" "particle_pos_pitch x = particle_pos_pitch y"
    "ex_space x = ex_space y" "ey_space x = ey_space y" "ez_space x = ez_space y"
  using assms by (simp_all add: setup_static_def)

lemma setup_view_eqs:
  assumes "setup_view b x = setup_view b y"
  shows "setup_static x = setup_static y"
    "vel x b = vel y b" "force x b = force y b" "torque x b = torque y b"
    "angmom x b = angmom y b" "angvel x b = angvel y b"
  using assms by (simp_all add: setup_view_def setup_dyn_def)

lemma setup_reset_static: "setup_static (setup_reset c x) = setup_static x"
  by (simp add: setup_static_def setup_reset_def Let_def)

lemma setup_particle_static: "setup_static (setup_particle pd c j x) = setup_static x"
  by (simp add: setup_static_def setup_particle_def Let_def case_prod_beta)

lemma setup_body_static: "setup_static (setup_body pd c x) = setup_static x"
  unfolding setup_body_def by (rule fold_invariant) (rule setup_particle_static)

lemma setup_velocity_static: "setup_static (setup_velocity c x) = setup_static x"
  by (simp add: setup_static_def setup_velocity_def Let_def)

lemma setup_reset_other: "c \<noteq> b \<Longrightarrow> setup_view b (setup_reset c x) = setup_view b x"
  by (simp add: setup_view_def setup_reset_static) (simp add: setup_dyn_def setup_reset_def Let_def)

lemma setup_particle_other:
  "c \<noteq> b \<Longrightarrow> setup_view b (setup_particle pd c j x) = setup_view b x"
  by (simp add: setup_view_def setup_particle_static)
     (simp add: setup_dyn_def setup_particle_def Let_def case_prod_beta)

lemma setup_body_other: "c \<noteq> b \<Longrightarrow> setup_view b (setup_body pd c x) = setup_view b x"
  unfolding setup_body_def by (rule fold_invariant) (rule setup_particle_other)

lemma setup_velocity_other: "c \<noteq> b \<Longrightarrow> setup_view b (setup_velocity c x) = setup_view b x"
  by (simp add: setup_view_def setup_velocity_static)
     (simp add: setup_dyn_def setup_velocity_def Let_def)

lemma setup_reset_loc:
  assumes "setup_view b x = setup_view b y"
  shows "setup_view b (setup_reset b x) = setup_view b (setup_reset b y)"
  using setup_view_eqs [OF assms] setup_static_eqs [OF setup_view_eqs(1) [OF assms]]
  by (simp add: setup_view_def setup_reset_static) (simp add: setup_dyn_def setup_reset_def Let_def)

lemma setup_particle_loc:
  assumes "setup_view b x = setup_view b y"
  shows "setup_view b (setup_particle pd b j x) = setup_view b (setup_particle pd b j y)"
proof -
  note e = setup_view_eqs [OF assms] and st = setup_static_eqs [OF setup_view_eqs(1) [OF assms]]
  have "setup_dyn b (setup_particle pd b j x) = setup_dyn b (setup_particle pd b j y)"
    by (simp add: setup_dyn_def setup_particle_def Let_def case_prod_beta body_to_space_def
          e(2-) st)
  then show ?thesis by (simp add: setup_view_def setup_particle_static e(1))
qed

lemma setup_body_loc:
  assumes "setup_view b x = setup_view b y"
  shows "setup_view b (setup_body pd b x) = setup_view b (setup_body pd b y)"
proof -
  have n: "body_size x b = body_size y b"
    using setup_static_eqs(2) [OF setup_view_eqs(1) [OF assms]] by simp
  have "setup_view b (fold (setup_particle pd b) [0..<body_size y b] x)
        = setup_view b (fold (setup_particle pd b) [0..<body_size y b] y)"
  proof (rule fold_cong_view)
    show "setup_view b x = setup_view b y" by (rule assms)
  next
    fix a u w assume "setup_view b u = setup_view b w"
    then show "setup_view b (setup_particle pd b a u) = setup_view b (setup_particle pd b a w)"
      by (rule setup_particle_loc)
  qed
  then show ?thesis by (simp add: setup_body_def n)
qed

lemma setup_velocity_loc:
  assumes "setup_view b x = setup_view b y"
  shows "setup_view b (setup_velocity b x) = setup_view b (setup_velocity b y)"
proof -
  note e = setup_view_eqs [OF assms] and st = setup_static_eqs [OF setup_view_eqs(1) [OF assms]]
  have "setup_dyn b (setup_velocity b x) = setup_dyn b (setup_velocity b y)"
    by (simp add: setup_dyn_def setup_velocity_def Let_def e(2-) st)
  then show ?thesis by (simp add: setup_view_def setup_velocity_static e(1))
qed

lemma fold_setup_reset:
  assumes "distinct bs" and "b \<in> set bs"
  shows "setup_view b (fold setup_reset bs rd) = setup_view b (setup_reset b rd)"
proof (rule fold_local [where I = "\<lambda>_. True"])
  show "distinct bs" "b \<in> set bs" by (rule assms)+
  show "True" "\<And>c x. True" by simp_all
next
  fix c x assume "c \<noteq> b"
  then show "setup_view b (setup_reset c x) = setup_view b x" by (rule setup_reset_other)
next
  fix x y assume "setup_view b x = setup_view b y"
  then show "setup_view b (setup_reset b x) = setup_view b (setup_reset b y)"
    by (rule setup_reset_loc)
qed

lemma fold_setup_body:
  assumes "distinct bs" and "b \<in> set bs"
  shows "setup_view b (fold (setup_body pd) bs rd) = setup_view b (setup_body pd b rd)"
proof (rule fold_local [where I = "\<lambda>_. True"])
  show "distinct bs" "b \<in> set bs" by (rule assms)+
  show "True" "\<And>c x. True" by simp_all
next
  fix c x assume "c \<noteq> b"
  then show "setup_view b (setup_body pd c x) = setup_view b x" by (rule setup_body_other)
next
  fix x y assume "setup_view b x = setup_view b y"
  then show "setup_view b (setup_body pd b x) = setup_view b (setup_body pd b y)"
    by (rule setup_body_loc)
qed

lemma fold_setup_velocity:
  assumes "distinct bs" and "b \<in> set bs"
  shows "setup_view b (fold setup_velocity bs rd) = setup_view b (setup_velocity b rd)"
proof (rule fold_local [where I = "\<lambda>_. True"])
  show "distinct bs" "b \<in> set bs" by (rule assms)+
  show "True" "\<And>c x. True" by simp_all
next
  fix c x assume "c \<noteq> b"
  then show "setup_view b (setup_velocity c x) = setup_view b x" by (rule setup_velocity_other)
next
  fix x y assume "setup_view b x = setup_view b y"
  then show "setup_view b (setup_velocity b x) = setup_view b (setup_velocity b y)"
    by (rule setup_velocity_loc)
qed

text \<open>The three loops of \<^verbatim>\<open>setup\<close>, for one body of the group.\<close>

lemma setup_loops_body:
  assumes "distinct bs" and "b \<in> set bs"
  shows "setup_view b (fold setup_velocity bs (fold (setup_body pd) bs (fold setup_reset bs rd)))
         = setup_view b (setup_velocity b (setup_body pd b (setup_reset b rd)))"
proof -
  have 1: "setup_view b (fold setup_reset bs rd) = setup_view b (setup_reset b rd)"
    by (rule fold_setup_reset [OF assms])
  have 2: "setup_view b (fold (setup_body pd) bs (fold setup_reset bs rd))
           = setup_view b (setup_body pd b (setup_reset b rd))"
    using fold_setup_body [OF assms] setup_body_loc [OF 1] by simp
  show ?thesis
    using fold_setup_velocity [OF assms] setup_velocity_loc [OF 2] by simp
qed

lemma add3v_add3v: "add3v (add3v a u) w = add3v a (fst u + fst w, fst (snd u) + fst (snd w), snd (snd u) + snd (snd w))"
  by (simp add: add3v_def add3_def)

lemma sum3_Cons:
  "sum3 f (j # js) = (fst (f j) + fst (sum3 f js), fst (snd (f j)) + fst (snd (sum3 f js)),
                      snd (snd (f j)) + snd (snd (sum3 f js)))"
  by (simp add: sum3_def)

lemma sum3_Nil: "sum3 f [] = (0, 0, 0)"
  by (simp add: sum3_def)

lemma add3v_zero: "add3v a (0, 0, 0) = a"
  by (simp add: add3v_def add3_def)

lemma particle_terms_static:
  assumes "setup_static x = setup_static y"
  shows "particle_r x = particle_r y" "particle_p pd x = particle_p pd y"
    "particle_f pd x = particle_f pd y"
  using setup_static_eqs [OF assms]
  by (auto simp: particle_r_def particle_p_def particle_f_def body_to_space_def pidx_of_def
        localidx_of_def fun_eq_iff)

lemma setup_particle_dyn:
  "setup_dyn b (setup_particle pd b j rd) =
     (add3v (vel rd b) (particle_p pd rd b j), add3v (force rd b) (particle_f pd rd b j),
      add3v (torque rd b) (cross3 (particle_r rd b j) (particle_f pd rd b j)),
      (if angmom_init rd b then angmom rd b
       else add3v (angmom rd b) (cross3 (particle_r rd b j) (particle_p pd rd b j))),
      angvel rd b)"
  by (simp add: setup_dyn_def setup_particle_def Let_def case_prod_beta add3v_def cross3_def
        particle_r_def particle_p_def particle_f_def pidx_of_def localidx_of_def)

lemma fold_setup_particle_dyn:
  "setup_dyn b (fold (setup_particle pd b) js rd) =
     (add3v (vel rd b) (sum3 (particle_p pd rd b) js),
      add3v (force rd b) (sum3 (particle_f pd rd b) js),
      add3v (torque rd b) (sum3 (\<lambda>j. cross3 (particle_r rd b j) (particle_f pd rd b j)) js),
      (if angmom_init rd b then angmom rd b
       else add3v (angmom rd b) (sum3 (\<lambda>j. cross3 (particle_r rd b j) (particle_p pd rd b j)) js)),
      angvel rd b)"
proof (induction js arbitrary: rd)
  case Nil
  show ?case by (simp add: sum3_Nil add3v_zero setup_dyn_def)
next
  case (Cons j js)
  let ?rd = "setup_particle pd b j rd"
  have st: "setup_static ?rd = setup_static rd" by (rule setup_particle_static)
  note t = particle_terms_static [OF st]
  have fl: "angmom_init ?rd b = angmom_init rd b"
    using setup_static_eqs(4) [OF st] by simp
  have d: "vel ?rd b = add3v (vel rd b) (particle_p pd rd b j)"
    "force ?rd b = add3v (force rd b) (particle_f pd rd b j)"
    "torque ?rd b = add3v (torque rd b) (cross3 (particle_r rd b j) (particle_f pd rd b j))"
    "angmom ?rd b = (if angmom_init rd b then angmom rd b
       else add3v (angmom rd b) (cross3 (particle_r rd b j) (particle_p pd rd b j)))"
    "angvel ?rd b = angvel rd b"
    using setup_particle_dyn [of b pd j rd] by (simp_all add: setup_dyn_def)
  show ?case
    using Cons.IH [of ?rd]
    by (simp add: t fl d add3v_add3v sum3_Cons)
qed

lemma set3v_add3v_zero: "add3v (set3 a 0 0 0) v = set3v a v"
  by (simp add: add3v_def set3v_def add3_def set3_def)

lemma setup_body_composite:
  "setup_dyn b (setup_body pd b (setup_reset b rd)) =
     (set3v (vel rd b) (momentum_sum pd rd b), set3v (force rd b) (force_sum pd rd b),
      set3v (torque rd b) (torque_sum pd rd b),
      (if angmom_init rd b then angmom rd b else set3v (angmom rd b) (angmom_sum pd rd b)),
      angvel rd b)"
proof -
  let ?rd = "setup_reset b rd"
  have st: "setup_static ?rd = setup_static rd" by (rule setup_reset_static)
  note t = particle_terms_static [OF st]
  note e = setup_static_eqs [OF st]
  have d: "vel ?rd b = set3 (vel rd b) 0 0 0" "force ?rd b = set3 (force rd b) 0 0 0"
    "torque ?rd b = set3 (torque rd b) 0 0 0"
    "angmom ?rd b = (if angmom_init rd b then angmom rd b else set3 (angmom rd b) 0 0 0)"
    "angvel ?rd b = angvel rd b"
    by (simp_all add: setup_reset_def Let_def)
  show ?thesis
    unfolding setup_body_def fold_setup_particle_dyn
    by (simp add: t e d set3v_add3v_zero momentum_sum_def force_sum_def torque_sum_def
          angmom_sum_def)
qed

lemma setup_nve_loops:
  assumes "setup_nve s = Inr s'" and "member_idx (m_body_group s) \<noteq> []"
  shows "\<exists>x. set_v 0 x = Inr s'
           \<and> m_rigid_data x =
               fold setup_velocity (member_idx (m_body_group s))
                 (fold (setup_body (m_pdata s)) (member_idx (m_body_group s))
                   (fold setup_reset (member_idx (m_body_group s)) (m_rigid_data s)))"
proof -
  let ?bs = "member_idx (m_body_group s)"
  have "set_v 0 (s\<lparr>m_n_bodies := getNumMembers (m_body_group s), m_conjqm := (\<lambda>_. zero4), m_virial := (\<lambda>_. 0)\<rparr>
          \<lparr>m_rigid_data := fold setup_velocity ?bs
               (fold (setup_body (m_pdata s)) ?bs (fold setup_reset ?bs (m_rigid_data s))),
           m_conjqm := snd (fold (setup_conjqm (fold setup_velocity ?bs
               (fold (setup_body (m_pdata s)) ?bs (fold setup_reset ?bs (m_rigid_data s)))))
              ?bs (zero4, \<lambda>_. zero4))\<rparr>) = Inr s'"
    (is "set_v 0 ?x = _")
    using assms by (auto simp: setup_nve_def Let_def bind_err_eq_Inr loop_bodies_eq getNumMembers_def)
  then show ?thesis by (intro exI [of _ ?x]) simp
qed

lemma set_v_setup_view:
  assumes "set_v t x = Inr s'"
  shows "setup_view b (m_rigid_data s') = setup_view b (m_rigid_data x)"
proof -
  have e: "set_v_erase s' = set_v_erase x" by (rule set_v_erase [OF assms])
  have "setup_view b (m_rigid_data s') = setup_view b (m_rigid_data (set_v_erase s'))"
    by (simp add: set_v_erase_def setup_view_def setup_static_def setup_dyn_def)
  also have "\<dots> = setup_view b (m_rigid_data (set_v_erase x))" by (simp only: e)
  also have "\<dots> = setup_view b (m_rigid_data x)"
    by (simp add: set_v_erase_def setup_view_def setup_static_def setup_dyn_def)
  finally show ?thesis .
qed

lemma setup_nve_view:
  assumes "setup_nve s = Inr s'" and "distinct (member_idx (m_body_group s))"
    and "b \<in> set (member_idx (m_body_group s))"
  shows "setup_view b (m_rigid_data s')
         = setup_view b (setup_velocity b (setup_body (m_pdata s) b (setup_reset b (m_rigid_data s))))"
proof -
  have "member_idx (m_body_group s) \<noteq> []" using assms(3) by auto
  then obtain x where v: "set_v 0 x = Inr s'"
    and x: "m_rigid_data x =
               fold setup_velocity (member_idx (m_body_group s))
                 (fold (setup_body (m_pdata s)) (member_idx (m_body_group s))
                   (fold setup_reset (member_idx (m_body_group s)) (m_rigid_data s)))"
    using setup_nve_loops [OF assms(1)] by blast
  show ?thesis
    using set_v_setup_view [OF v] setup_loops_body [OF assms(2,3)] by (simp add: x)
qed

text \<open>A body whose flag is set keeps its angular momentum in every loop of \<^verbatim>\<open>setup\<close>.\<close>

lemma setup_reset_flagged:
  "angmom_init x b \<Longrightarrow> angmom_init (setup_reset c x) b \<and> angmom (setup_reset c x) b = angmom x b"
  by (auto simp: setup_reset_def Let_def)

lemma setup_particle_flagged:
  "angmom_init x b \<Longrightarrow>
   angmom_init (setup_particle pd c j x) b \<and> angmom (setup_particle pd c j x) b = angmom x b"
  by (auto simp: setup_particle_def Let_def case_prod_beta)

lemma setup_body_flagged:
  "angmom_init x b \<Longrightarrow>
   angmom_init (setup_body pd c x) b \<and> angmom (setup_body pd c x) b = angmom x b"
  unfolding setup_body_def
  by (rule fold_other [where I = "\<lambda>x. angmom_init x b" and v = "\<lambda>x. angmom x b"])
     (simp_all add: setup_particle_flagged)

lemma setup_velocity_flagged:
  "angmom_init x b \<Longrightarrow>
   angmom_init (setup_velocity c x) b \<and> angmom (setup_velocity c x) b = angmom x b"
  by (simp add: setup_velocity_def Let_def)

lemma setup_loops_flagged:
  assumes "angmom_init rd b"
  shows "angmom (fold setup_velocity bs (fold (setup_body pd) bs (fold setup_reset bs rd))) b
         = angmom rd b"
proof -
  have 1: "angmom_init (fold setup_reset bs rd) b \<and> angmom (fold setup_reset bs rd) b = angmom rd b"
    by (rule fold_other [where I = "\<lambda>x. angmom_init x b" and v = "\<lambda>x. angmom x b"])
       (simp_all add: setup_reset_flagged assms)
  have 2: "angmom_init (fold (setup_body pd) bs (fold setup_reset bs rd)) b
           \<and> angmom (fold (setup_body pd) bs (fold setup_reset bs rd)) b
              = angmom (fold setup_reset bs rd) b"
    by (rule fold_other [where I = "\<lambda>x. angmom_init x b" and v = "\<lambda>x. angmom x b"])
       (simp_all add: setup_body_flagged 1)
  have 3: "angmom_init (fold setup_velocity bs (fold (setup_body pd) bs (fold setup_reset bs rd))) b
           \<and> angmom (fold setup_velocity bs (fold (setup_body pd) bs (fold setup_reset bs rd))) b
              = angmom (fold (setup_body pd) bs (fold setup_reset bs rd)) b"
    by (rule fold_other [where I = "\<lambda>x. angmom_init x b" and v = "\<lambda>x. angmom x b"])
       (simp_all add: setup_velocity_flagged 2)
  show ?thesis using 1 2 3 by simp
qed

lemma setup_nve_flagged:
  assumes "setup_nve s = Inr s'" and "angmom_init (m_rigid_data s) b"
  shows "angmom (m_rigid_data s') b = angmom (m_rigid_data s) b"
proof (cases "member_idx (m_body_group s) = []")
  case True
  then have "s' = s\<lparr>m_n_bodies := 0\<rparr>"
    using assms(1) by (simp add: setup_nve_def Let_def getNumMembers_def)
  then show ?thesis by simp
next
  case False
  then obtain x where v: "set_v 0 x = Inr s'"
    and x: "m_rigid_data x =
               fold setup_velocity (member_idx (m_body_group s))
                 (fold (setup_body (m_pdata s)) (member_idx (m_body_group s))
                   (fold setup_reset (member_idx (m_body_group s)) (m_rigid_data s)))"
    using setup_nve_loops [OF assms(1)] by blast
  have "angmom (m_rigid_data s') b = angmom (m_rigid_data x) b"
    using setup_view_eqs(5) [OF set_v_setup_view [OF v]] .
  then show ?thesis by (simp add: x setup_loops_flagged assms(2))
qed

subsection \<open>setup on the example states\<close>

lemma setup_loops_ex:
  "setup_velocity 0 (setup_body (m_pdata ex_setup) 0 (setup_reset 0 (m_rigid_data ex_setup)))
     = ex_setup_rd"
  by (simp add: setup_velocity_def setup_body_def setup_particle_def setup_reset_def eval_defs
        ex_setup_def ex_setup_rd_def ex_defs)

lemma setup_conjqm_ex:
  "snd (setup_conjqm ex_setup_rd 0 (zero4, (\<lambda>_. zero4)))
     = (\<lambda>_. zero4)(0 := \<lparr>sx = 0, sy = 0, sz = 0, sw = 4\<rparr>)"
  by (simp add: setup_conjqm_def matrix_dot_def quatvec_def quatquat_def Let_def dot3_def
        ex_setup_rd_def ex_defs)

lemma set_v_setup_ex:
  "set_v_particle 0 0 (ex_setup\<lparr>m_n_bodies := 1, m_rigid_data := ex_setup_rd,
       m_conjqm := (\<lambda>_. zero4)(0 := \<lparr>sx = 0, sy = 0, sz = 0, sw = 4\<rparr>)\<rparr>) = ex_setup_after"
  by (simp add: set_v_particle_def eval_defs ex_setup_def ex_setup_rd_def ex_setup_after_def
        ex_defs)

lemma setup_ex: "setup_nve ex_setup = Inr ex_setup_after"
proof -
  have "setup_nve ex_setup
        = set_v 0 (ex_setup\<lparr>m_n_bodies := 1,
            m_rigid_data := setup_velocity 0 (setup_body (m_pdata ex_setup) 0
                               (setup_reset 0 (m_rigid_data ex_setup))),
            m_conjqm := snd (setup_conjqm (setup_velocity 0 (setup_body (m_pdata ex_setup) 0
                               (setup_reset 0 (m_rigid_data ex_setup)))) 0 (zero4, (\<lambda>_. zero4)))\<rparr>)"
    by (simp add: setup_nve_def Let_def loop_bodies_eq getNumMembers_def fun_upd_const
          ex_setup_def ex_state_def)
  also have "\<dots> = set_v 0 (ex_setup\<lparr>m_n_bodies := 1, m_rigid_data := ex_setup_rd,
       m_conjqm := (\<lambda>_. zero4)(0 := \<lparr>sx = 0, sy = 0, sz = 0, sw = 4\<rparr>)\<rparr>)"
    by (simp only: setup_loops_ex setup_conjqm_ex)
  also have "\<dots> = Inr (set_v_particle 0 0 (ex_setup\<lparr>m_n_bodies := 1, m_rigid_data := ex_setup_rd,
       m_conjqm := (\<lambda>_. zero4)(0 := \<lparr>sx = 0, sy = 0, sz = 0, sw = 4\<rparr>)\<rparr>))"
    by (simp add: set_v_def set_v_body_def loop_bodies_eq getNumMembers_def upt_0_1
          ex_setup_def ex_setup_rd_def ex_defs)
  finally show ?thesis by (simp only: set_v_setup_ex)
qed

lemma setup_velocity_dyn:
  "setup_dyn b (setup_velocity b x) =
     (set3 (vel x b) (sx (vel x b) / body_mass x b) (sy (vel x b) / body_mass x b)
        (sz (vel x b) / body_mass x b),
      force x b, torque x b, angmom x b,
      computeAngularVelocity (angmom x b) (moment_inertia x b) (ex_space x b) (ey_space x b)
        (ez_space x b) (angvel x b))"
  by (simp add: setup_dyn_def setup_velocity_def Let_def)

lemma setup_nve_dyn:
  assumes "setup_nve s = Inr s'" and "distinct (member_idx (m_body_group s))"
    and "b \<in> set (member_idx (m_body_group s))"
  shows "vel (m_rigid_data s') b =
           set3 (vel (m_rigid_data s) b)
             (fst (momentum_sum (m_pdata s) (m_rigid_data s) b) / body_mass (m_rigid_data s) b)
             (fst (snd (momentum_sum (m_pdata s) (m_rigid_data s) b)) / body_mass (m_rigid_data s) b)
             (snd (snd (momentum_sum (m_pdata s) (m_rigid_data s) b)) / body_mass (m_rigid_data s) b)"
    and "force (m_rigid_data s') b
           = set3v (force (m_rigid_data s) b) (force_sum (m_pdata s) (m_rigid_data s) b)"
    and "torque (m_rigid_data s') b
           = set3v (torque (m_rigid_data s) b) (torque_sum (m_pdata s) (m_rigid_data s) b)"
    and "angmom (m_rigid_data s') b =
           (if angmom_init (m_rigid_data s) b then angmom (m_rigid_data s) b
            else set3v (angmom (m_rigid_data s) b) (angmom_sum (m_pdata s) (m_rigid_data s) b))"
    and "angvel (m_rigid_data s') b =
           computeAngularVelocity (angmom (m_rigid_data s') b) (moment_inertia (m_rigid_data s) b)
             (ex_space (m_rigid_data s) b) (ey_space (m_rigid_data s) b)
             (ez_space (m_rigid_data s) b) (angvel (m_rigid_data s) b)"
proof -
  let ?rd = "m_rigid_data s" and ?pd = "m_pdata s"
  let ?X = "setup_body ?pd b (setup_reset b ?rd)"
  have v: "setup_view b (m_rigid_data s') = setup_view b (setup_velocity b ?X)"
    by (rule setup_nve_view [OF assms])
  have st: "setup_static ?X = setup_static ?rd"
    by (simp add: setup_body_static setup_reset_static)
  note e = setup_static_eqs [OF st]
  have X: "vel ?X b = set3v (vel ?rd b) (momentum_sum ?pd ?rd b)"
    "force ?X b = set3v (force ?rd b) (force_sum ?pd ?rd b)"
    "torque ?X b = set3v (torque ?rd b) (torque_sum ?pd ?rd b)"
    "angmom ?X b = (if angmom_init ?rd b then angmom ?rd b
                    else set3v (angmom ?rd b) (angmom_sum ?pd ?rd b))"
    "angvel ?X b = angvel ?rd b"
    using setup_body_composite [of b ?pd ?rd] by (simp_all add: setup_dyn_def)
  have d: "vel (m_rigid_data s') b = set3 (vel ?X b) (sx (vel ?X b) / body_mass ?X b)
             (sy (vel ?X b) / body_mass ?X b) (sz (vel ?X b) / body_mass ?X b)"
    "force (m_rigid_data s') b = force ?X b" "torque (m_rigid_data s') b = torque ?X b"
    "angmom (m_rigid_data s') b = angmom ?X b"
    "angvel (m_rigid_data s') b =
       computeAngularVelocity (angmom ?X b) (moment_inertia ?X b) (ex_space ?X b) (ey_space ?X b)
        (ez_space ?X b) (angvel ?X b)"
    using setup_view_eqs(2-) [OF v] setup_velocity_dyn [of b ?X] by (simp_all add: setup_dyn_def)
  show "vel (m_rigid_data s') b =
           set3 (vel ?rd b) (fst (momentum_sum ?pd ?rd b) / body_mass ?rd b)
             (fst (snd (momentum_sum ?pd ?rd b)) / body_mass ?rd b)
             (snd (snd (momentum_sum ?pd ?rd b)) / body_mass ?rd b)"
    by (simp add: d(1) X(1) e set3v_def set3_def)
  show "force (m_rigid_data s') b = set3v (force ?rd b) (force_sum ?pd ?rd b)"
    by (simp add: d(2) X(2))
  show "torque (m_rigid_data s') b = set3v (torque ?rd b) (torque_sum ?pd ?rd b)"
    by (simp add: d(3) X(3))
  show "angmom (m_rigid_data s') b =
           (if angmom_init ?rd b then angmom ?rd b
            else set3v (angmom ?rd b) (angmom_sum ?pd ?rd b))"
    by (simp add: d(4) X(4))
  show "angvel (m_rigid_data s') b =
           computeAngularVelocity (angmom (m_rigid_data s') b) (moment_inertia ?rd b)
             (ex_space ?rd b) (ey_space ?rd b) (ez_space ?rd b) (angvel ?rd b)"
    by (simp add: d(4,5) X(5) e)
qed

subsection \<open>The scenario of a body at rest\<close>

text \<open>
  C1, as amended. A visited body of mass 2 at rest, with zero torque and angular momentum
  and an orientation of unit norm, under the force \<open>(1, 0, 0)\<close> and with time step
  \<open>0.01\<close>: \<^verbatim>\<open>integrateStepOne\<close> yields the velocity \<open>(0.0025, 0, 0)\<close>, advances the x
  coordinate of the centre of mass by \<open>2.5e-5\<close> (before the periodic wrap) and leaves the
  orientation unchanged; with the force aggregated again as \<open>(1, 0, 0)\<close>,
  \<^verbatim>\<open>integrateStepTwo\<close> yields the velocity \<open>(0.005, 0, 0)\<close>. The theorem covers the first
  call of \<^verbatim>\<open>integrateStepOne\<close> as well as the later ones. On a later call the velocity,
  force, torque and angular momentum are the ones stored for the body. On the first call
  \<^verbatim>\<open>setup\<close> rebuilds them from the constituent particles, whatever the body arrays hold:
  the body is at rest when the momenta of its particles sum to zero, the force is the sum
  of the net forces on its particles, the torque the sum of \<open>r x f\<close>, and the angular
  momentum the stored one if the body's flag is set and the sum of \<open>r x (m v)\<close> otherwise.
\<close>

theorem rest_scenario:
  assumes "integrateStepOne t s = Inr s1"
    and "distinct (visited s1)" and "b \<in> set (visited s1)"
    and "body_mass (m_rigid_data s) b = 2" and "m_deltaT s = 1 / 100"
    and "\<not> m_first_step s \<longrightarrow>
           zero3 (vel (m_rigid_data s) b)
         \<and> sx (force (m_rigid_data s) b) = 1 \<and> sy (force (m_rigid_data s) b) = 0
         \<and> sz (force (m_rigid_data s) b) = 0
         \<and> zero3 (torque (m_rigid_data s) b) \<and> zero3 (angmom (m_rigid_data s) b)"
    and "m_first_step s \<longrightarrow>
           momentum_sum (m_pdata s) (m_rigid_data s) b = (0, 0, 0)
         \<and> force_sum (m_pdata s) (m_rigid_data s) b = (1, 0, 0)
         \<and> torque_sum (m_pdata s) (m_rigid_data s) b = (0, 0, 0)
         \<and> (if angmom_init (m_rigid_data s) b then zero3 (angmom (m_rigid_data s) b)
            else angmom_sum (m_pdata s) (m_rigid_data s) b = (0, 0, 0))"
    and "quat_norm (orientation (m_rigid_data s) b) = 1"
    and "computeForceAndTorque t s1 = Inr sf"
    and "sx (force (m_rigid_data sf) b) = 1" and "sy (force (m_rigid_data sf) b) = 0"
    and "sz (force (m_rigid_data sf) b) = 0"
    and "integrateStepTwo t s1 = Inr s2"
  shows "sx (vel (m_rigid_data s1) b) = 1 / 400 \<and> sy (vel (m_rigid_data s1) b) = 0
       \<and> sz (vel (m_rigid_data s1) b) = 0
       \<and> wrap_once (xlo (box (m_pdata s))) (xhi (box (m_pdata s)))
           (sx (com (m_rigid_data s) b) + 1 / 40000) (body_imagex (m_rigid_data s) b)
           (sx (com (m_rigid_data s1) b)) (body_imagex (m_rigid_data s1) b)
       \<and> orientation (m_rigid_data s1) b = orientation (m_rigid_data s) b
       \<and> sx (vel (m_rigid_data s2) b) = 1 / 200 \<and> sy (vel (m_rigid_data s2) b) = 0
       \<and> sz (vel (m_rigid_data s2) b) = 0"
proof -
  let ?rd = "m_rigid_data s" and ?pd = "m_pdata s"
  obtain rd0 where v: "body_view b (m_rigid_data s1)
                        = body_view b (stepOne_body (box (m_pdata s)) (m_deltaT s) b rd0)"
    and k: "com rd0 = com ?rd" "body_imagex rd0 = body_imagex ?rd"
      "orientation rd0 = orientation ?rd" "body_mass rd0 = body_mass ?rd"
    and r: "\<not> m_first_step s \<longrightarrow> rd0 = ?rd"
    and f: "m_first_step s \<longrightarrow>
                (\<exists>sa. setup_nve s = Inr sa \<and> rd0 = m_rigid_data sa
                    \<and> visited s1 = member_idx (m_body_group s))"
    using integrateStepOne_loop(1) [OF assms(1,3,2)] by blast
  have d0: "zero3 (vel rd0 b) \<and> sx (force rd0 b) = 1 \<and> sy (force rd0 b) = 0
            \<and> sz (force rd0 b) = 0 \<and> zero3 (torque rd0 b) \<and> zero3 (angmom rd0 b)"
  proof (cases "m_first_step s")
    case False
    then show ?thesis using r assms(6) by simp
  next
    case True
    then obtain sa where sa: "setup_nve s = Inr sa" and rd0: "rd0 = m_rigid_data sa"
      and vis: "visited s1 = member_idx (m_body_group s)"
      using f by blast
    have d: "distinct (member_idx (m_body_group s))" using assms(2) by (simp add: vis)
    have m: "b \<in> set (member_idx (m_body_group s))" using assms(3) by (simp add: vis)
    note dyn = setup_nve_dyn(1-4) [OF sa d m]
    have sums: "momentum_sum ?pd ?rd b = (0, 0, 0)" "force_sum ?pd ?rd b = (1, 0, 0)"
      "torque_sum ?pd ?rd b = (0, 0, 0)"
      and am: "if angmom_init ?rd b then zero3 (angmom ?rd b)
               else angmom_sum ?pd ?rd b = (0, 0, 0)"
      using assms(7) True by simp_all
    have "zero3 (angmom (m_rigid_data sa) b)"
      using am by (simp add: dyn(4) zero3_def set3v_def set3_def split: if_splits)
    then show ?thesis
      by (simp add: rd0 dyn(1-3) sums zero3_def set3v_def set3_def)
  qed
  note e = body_view_eqs [OF v]
  have m0: "body_mass rd0 b = 2" by (simp add: k assms(4))
  have dt1: "m_deltaT s1 = 1 / 100"
    using integrateStepOne_loop(3) [OF assms(1,3,2)] assms(5) by simp
  have v1: "vel (m_rigid_data s1) b = add3 (vel rd0 b) (1 / 400) 0 0"
    using d0 by (simp add: e stepOne_body_vel m0 assms(5))
  have m1: "body_mass (m_rigid_data s1) b = 2"
    by (simp add: e stepOne_body_def Let_def case_prod_beta m0)
  have x: "wrap_once (xlo (box (m_pdata s))) (xhi (box (m_pdata s)))
           (sx (com ?rd b) + sx (vel (m_rigid_data s1) b) * m_deltaT s) (body_imagex ?rd b)
           (sx (com (m_rigid_data s1) b)) (body_imagex (m_rigid_data s1) b)"
    using stepOne_body_wrap(1) [of "box (m_pdata s)" "m_deltaT s" b rd0]
    by (intro wrap_axis_once) (simp add: e k)
  have o: "orientation (m_rigid_data s1) b = orientation ?rd b"
    using d0 assms(8) by (simp add: e stepOne_body_rest k)
  obtain sf' where f2: "computeForceAndTorque t s1 = Inr sf'"
    and v2: "body_view b (m_rigid_data s2)
              = body_view b (stepTwo_body (m_deltaT s1) b (m_rigid_data sf'))"
    using integrateStepTwo_loop [OF assms(13,3,2)] by blast
  have sf: "sf' = sf" using f2 assms(9) by simp
  note kf = computeForceAndTorque_keeps [OF assms(9)]
  have "vel (m_rigid_data s2) b = add3 (vel (m_rigid_data s1) b) (1 / 400) 0 0"
    by (simp add: body_view_eqs(5) [OF v2] sf stepTwo_body_vel kf m1 dt1 assms(10-12))
  then show ?thesis
    using v1 x o d0 assms(5) by (simp add: add3_def zero3_def)
qed

lemma setup_loops_fresh:
  "setup_velocity 0 (setup_body (m_pdata ex_fresh) 0 (setup_reset 0 (m_rigid_data ex_fresh)))
     = ex_fresh_rd"
  by (simp add: setup_velocity_def setup_body_def setup_particle_def setup_reset_def eval_defs
        ex_fresh_def ex_fresh_rd_def stale4_def ex_defs)

lemma setup_conjqm_fresh:
  "snd (setup_conjqm ex_fresh_rd 0 (zero4, (\<lambda>_. zero4))) = (\<lambda>_. zero4)"
  by (simp add: setup_conjqm_def matrix_dot_def quatvec_def quatquat_def Let_def dot3_def
        fun_upd_const ex_fresh_rd_def ex_defs)

lemma set_v_setup_fresh:
  "set_v_particle 0 0 (ex_fresh\<lparr>m_n_bodies := 1, m_rigid_data := ex_fresh_rd\<rparr>) = ex_fresh_setup"
  by (simp add: set_v_particle_def eval_defs ex_fresh_def ex_fresh_rd_def ex_fresh_setup_def
        stale4_def ex_defs)

lemma setup_fresh_ex: "setup_nve ex_fresh = Inr ex_fresh_setup"
proof -
  have "setup_nve ex_fresh
        = set_v 0 (ex_fresh\<lparr>m_n_bodies := 1,
            m_rigid_data := setup_velocity 0 (setup_body (m_pdata ex_fresh) 0
                               (setup_reset 0 (m_rigid_data ex_fresh))),
            m_conjqm := snd (setup_conjqm (setup_velocity 0 (setup_body (m_pdata ex_fresh) 0
                               (setup_reset 0 (m_rigid_data ex_fresh)))) 0 (zero4, (\<lambda>_. zero4)))\<rparr>)"
    by (simp add: setup_nve_def Let_def loop_bodies_eq getNumMembers_def fun_upd_const
          ex_fresh_def ex_state_def)
  also have "\<dots> = set_v 0 (ex_fresh\<lparr>m_n_bodies := 1, m_rigid_data := ex_fresh_rd,
       m_conjqm := (\<lambda>_. zero4)\<rparr>)"
    by (simp only: setup_loops_fresh setup_conjqm_fresh)
  also have "\<dots> = set_v 0 (ex_fresh\<lparr>m_n_bodies := 1, m_rigid_data := ex_fresh_rd\<rparr>)"
    by (simp add: ex_fresh_def ex_state_def)
  also have "\<dots> = Inr (set_v_particle 0 0 (ex_fresh\<lparr>m_n_bodies := 1, m_rigid_data := ex_fresh_rd\<rparr>))"
    by (simp add: set_v_def set_v_body_def loop_bodies_eq getNumMembers_def upt_0_1
          ex_fresh_def ex_fresh_rd_def ex_defs)
  finally show ?thesis by (simp only: set_v_setup_fresh)
qed

lemma stepOne_body_fresh:
  "stepOne_body (box ex_pd) (1 / 100) 0 ex_fresh_rd = ex_fresh_rd_one"
  by (simp add: stepOne_body_def Let_def advanceQuaternion_zero3 zero3_def quat_norm_def
        wrap_axis_inside add3_def set3_def exFromQuaternion_def eyFromQuaternion_def
        ezFromQuaternion_def fun_upd_const ex_fresh_rd_one_def ex_fresh_rd_def stale4_def
        ex_rd_def ex_pd_def zero4_def unit_x_def unit_y_def unit_z_def)

lemma set_xv_particle_fresh:
  "set_xv_particle 0 0 (ex_fresh_setup\<lparr>m_first_step := False, m_rigid_data := ex_fresh_rd_one\<rparr>)
     = ex_fresh_one"
  by (simp add: set_xv_particle_def eval_defs ex_defs ex_fresh_setup_def ex_fresh_rd_one_def
        ex_fresh_rd_def ex_fresh_one_def stale4_def quat_ex wrap_axis_inside)

lemma stepOne_fresh_ex: "integrateStepOne 0 ex_fresh = Inr ex_fresh_one"
proof -
  have fs: "m_first_step ex_fresh" by (simp add: ex_fresh_def)
  have "integrateStepOne 0 ex_fresh
        = set_xv 0 (ex_fresh_setup\<lparr>m_first_step := False, m_rigid_data :=
             stepOne_body (box ex_pd) (1 / 100) 0 ex_fresh_rd\<rparr>)"
    by (simp add: integrateStepOne_def fs setup_fresh_ex)
       (simp add: loop_bodies_eq getNumMembers_def box_assert_def
          ex_fresh_setup_def ex_state_def ex_pd_def)
  also have "\<dots> = set_xv 0 (ex_fresh_setup\<lparr>m_first_step := False, m_rigid_data := ex_fresh_rd_one\<rparr>)"
    by (simp only: stepOne_body_fresh)
  also have "\<dots> = Inr (set_xv_particle 0 0
                        (ex_fresh_setup\<lparr>m_first_step := False, m_rigid_data := ex_fresh_rd_one\<rparr>))"
    by (simp add: set_xv_def set_xv_body_def loop_bodies_eq getNumMembers_def upt_0_1
          box_assert_def ex_defs ex_fresh_setup_def ex_fresh_rd_one_def ex_fresh_rd_def)
  finally show ?thesis by (simp only: set_xv_particle_fresh)
qed

lemma force_fresh_ex: "computeForceAndTorque 0 ex_fresh_one = Inr ex_fresh_one"
  by (simp add: computeForceAndTorque_def force_reset_def force_body_def force_particle_def
        eval_defs ex_defs ex_fresh_one_def ex_fresh_rd_one_def ex_fresh_rd_def stale4_def)

lemma stepTwo_fresh_ex: "integrateStepTwo 0 ex_fresh_one = Inr ex_fresh_one_two"
  by (simp add: integrateStepTwo_def computeForceAndTorque_def set_v_def set_v_body_def
        set_v_particle_def force_reset_def force_body_def force_particle_def stepTwo_body_def
        eval_defs ex_defs ex_fresh_one_def ex_fresh_rd_one_def ex_fresh_rd_def stale4_def
        ex_fresh_one_two_def)

lemma sums_fresh:
  "momentum_sum (m_pdata ex_fresh) (m_rigid_data ex_fresh) 0 = (0, 0, 0)"
  "force_sum (m_pdata ex_fresh) (m_rigid_data ex_fresh) 0 = (1, 0, 0)"
  "torque_sum (m_pdata ex_fresh) (m_rigid_data ex_fresh) 0 = (0, 0, 0)"
  by (simp_all add: momentum_sum_def force_sum_def torque_sum_def sum3_def cross3_def
        particle_r_def particle_p_def particle_f_def pidx_of_def localidx_of_def body_to_space_def
        upt_0_1 ex_fresh_def ex_defs)

theorem rest_scenario_witness:
  "integrateStepOne 0 ex_state = Inr ex_state_one
   \<and> distinct (visited ex_state_one) \<and> 0 \<in> set (visited ex_state_one)
   \<and> body_mass (m_rigid_data ex_state) 0 = 2 \<and> m_deltaT ex_state = 1 / 100
   \<and> \<not> m_first_step ex_state
   \<and> zero3 (vel (m_rigid_data ex_state) 0)
   \<and> sx (force (m_rigid_data ex_state) 0) = 1 \<and> sy (force (m_rigid_data ex_state) 0) = 0
   \<and> sz (force (m_rigid_data ex_state) 0) = 0
   \<and> zero3 (torque (m_rigid_data ex_state) 0) \<and> zero3 (angmom (m_rigid_data ex_state) 0)
   \<and> quat_norm (orientation (m_rigid_data ex_state) 0) = 1
   \<and> computeForceAndTorque 0 ex_state_one = Inr ex_state_one
   \<and> sx (force (m_rigid_data ex_state_one) 0) = 1 \<and> sy (force (m_rigid_data ex_state_one) 0) = 0
   \<and> sz (force (m_rigid_data ex_state_one) 0) = 0
   \<and> integrateStepTwo 0 ex_state_one = Inr ex_state_one_two
   \<and> sx (vel (m_rigid_data ex_state_one) 0) = 1 / 400
   \<and> orientation (m_rigid_data ex_state_one) 0 = orientation (m_rigid_data ex_state) 0
   \<and> sx (vel (m_rigid_data ex_state_one_two) 0) = 1 / 200
   \<and> integrateStepOne 0 ex_fresh = Inr ex_fresh_one
   \<and> distinct (visited ex_fresh_one) \<and> 0 \<in> set (visited ex_fresh_one)
   \<and> body_mass (m_rigid_data ex_fresh) 0 = 2 \<and> m_deltaT ex_fresh = 1 / 100
   \<and> m_first_step ex_fresh
   \<and> momentum_sum (m_pdata ex_fresh) (m_rigid_data ex_fresh) 0 = (0, 0, 0)
   \<and> force_sum (m_pdata ex_fresh) (m_rigid_data ex_fresh) 0 = (1, 0, 0)
   \<and> torque_sum (m_pdata ex_fresh) (m_rigid_data ex_fresh) 0 = (0, 0, 0)
   \<and> angmom_init (m_rigid_data ex_fresh) 0 \<and> zero3 (angmom (m_rigid_data ex_fresh) 0)
   \<and> quat_norm (orientation (m_rigid_data ex_fresh) 0) = 1
   \<and> computeForceAndTorque 0 ex_fresh_one = Inr ex_fresh_one
   \<and> sx (force (m_rigid_data ex_fresh_one) 0) = 1 \<and> sy (force (m_rigid_data ex_fresh_one) 0) = 0
   \<and> sz (force (m_rigid_data ex_fresh_one) 0) = 0
   \<and> integrateStepTwo 0 ex_fresh_one = Inr ex_fresh_one_two
   \<and> sx (vel (m_rigid_data ex_fresh) 0) = 9 \<and> sx (force (m_rigid_data ex_fresh) 0) = 9
   \<and> sx (vel (m_rigid_data ex_fresh_one) 0) = 1 / 400
   \<and> orientation (m_rigid_data ex_fresh_one) 0 = orientation (m_rigid_data ex_fresh) 0
   \<and> sx (vel (m_rigid_data ex_fresh_one_two) 0) = 1 / 200"
proof -
  have a1: "\<not> m_first_step ex_state" by (simp add: ex_state_def)
  have a3: "distinct (visited ex_state_one)"
    by (simp add: visited_def ex_state_one_def ex_state_def)
  have a4: "0 \<in> set (visited ex_state_one)"
    by (simp add: visited_def ex_state_one_def ex_state_def)
  have a5: "body_mass (m_rigid_data ex_state) 0 = 2" by (simp add: ex_defs)
  have a6: "m_deltaT ex_state = 1 / 100" by (simp add: ex_defs)
  have a7: "zero3 (vel (m_rigid_data ex_state) 0)
     \<and> sx (force (m_rigid_data ex_state) 0) = 1 \<and> sy (force (m_rigid_data ex_state) 0) = 0
     \<and> sz (force (m_rigid_data ex_state) 0) = 0
     \<and> zero3 (torque (m_rigid_data ex_state) 0) \<and> zero3 (angmom (m_rigid_data ex_state) 0)"
    by (simp add: zero3_def ex_defs)
  have a13: "quat_norm (orientation (m_rigid_data ex_state) 0) = 1"
    by (simp add: quat_norm_def ex_defs)
  have a15: "sx (force (m_rigid_data ex_state_one) 0) = 1"
    "sy (force (m_rigid_data ex_state_one) 0) = 0" "sz (force (m_rigid_data ex_state_one) 0) = 0"
    by (simp_all add: ex_state_one_def ex_defs)
  have later: "integrateStepOne 0 ex_state = Inr ex_state_one
   \<and> distinct (visited ex_state_one) \<and> 0 \<in> set (visited ex_state_one)
   \<and> body_mass (m_rigid_data ex_state) 0 = 2 \<and> m_deltaT ex_state = 1 / 100
   \<and> \<not> m_first_step ex_state
   \<and> zero3 (vel (m_rigid_data ex_state) 0)
   \<and> sx (force (m_rigid_data ex_state) 0) = 1 \<and> sy (force (m_rigid_data ex_state) 0) = 0
   \<and> sz (force (m_rigid_data ex_state) 0) = 0
   \<and> zero3 (torque (m_rigid_data ex_state) 0) \<and> zero3 (angmom (m_rigid_data ex_state) 0)
   \<and> quat_norm (orientation (m_rigid_data ex_state) 0) = 1
   \<and> computeForceAndTorque 0 ex_state_one = Inr ex_state_one
   \<and> sx (force (m_rigid_data ex_state_one) 0) = 1 \<and> sy (force (m_rigid_data ex_state_one) 0) = 0
   \<and> sz (force (m_rigid_data ex_state_one) 0) = 0
   \<and> integrateStepTwo 0 ex_state_one = Inr ex_state_one_two
   \<and> sx (vel (m_rigid_data ex_state_one) 0) = 1 / 400
   \<and> orientation (m_rigid_data ex_state_one) 0 = orientation (m_rigid_data ex_state) 0
   \<and> sx (vel (m_rigid_data ex_state_one_two) 0) = 1 / 200"
    using rest_scenario [OF stepOne_ex a3 a4 a5 a6 _ _ a13 force_one_ex a15 stepTwo_one_ex]
      stepOne_ex a1 a3 a4 a5 a6 a7 a13 force_one_ex a15 stepTwo_one_ex
    by blast
  have b1: "m_first_step ex_fresh" by (simp add: ex_fresh_def)
  have b3: "distinct (visited ex_fresh_one)"
    by (simp add: visited_def ex_fresh_one_def ex_state_def)
  have b4: "0 \<in> set (visited ex_fresh_one)"
    by (simp add: visited_def ex_fresh_one_def ex_state_def)
  have b5: "body_mass (m_rigid_data ex_fresh) 0 = 2" by (simp add: ex_fresh_def ex_defs)
  have b6: "m_deltaT ex_fresh = 1 / 100" by (simp add: ex_fresh_def ex_defs)
  have b7: "angmom_init (m_rigid_data ex_fresh) 0 \<and> zero3 (angmom (m_rigid_data ex_fresh) 0)"
    by (simp add: zero3_def ex_fresh_def ex_defs)
  have b13: "quat_norm (orientation (m_rigid_data ex_fresh) 0) = 1"
    by (simp add: quat_norm_def ex_fresh_def ex_defs)
  have b15: "sx (force (m_rigid_data ex_fresh_one) 0) = 1"
    "sy (force (m_rigid_data ex_fresh_one) 0) = 0" "sz (force (m_rigid_data ex_fresh_one) 0) = 0"
    by (simp_all add: ex_fresh_one_def ex_fresh_rd_one_def ex_fresh_rd_def ex_defs)
  have b16: "sx (vel (m_rigid_data ex_fresh) 0) = 9" "sx (force (m_rigid_data ex_fresh) 0) = 9"
    by (simp_all add: ex_fresh_def stale4_def ex_defs)
  have first: "integrateStepOne 0 ex_fresh = Inr ex_fresh_one
   \<and> distinct (visited ex_fresh_one) \<and> 0 \<in> set (visited ex_fresh_one)
   \<and> body_mass (m_rigid_data ex_fresh) 0 = 2 \<and> m_deltaT ex_fresh = 1 / 100
   \<and> m_first_step ex_fresh
   \<and> momentum_sum (m_pdata ex_fresh) (m_rigid_data ex_fresh) 0 = (0, 0, 0)
   \<and> force_sum (m_pdata ex_fresh) (m_rigid_data ex_fresh) 0 = (1, 0, 0)
   \<and> torque_sum (m_pdata ex_fresh) (m_rigid_data ex_fresh) 0 = (0, 0, 0)
   \<and> angmom_init (m_rigid_data ex_fresh) 0 \<and> zero3 (angmom (m_rigid_data ex_fresh) 0)
   \<and> quat_norm (orientation (m_rigid_data ex_fresh) 0) = 1
   \<and> computeForceAndTorque 0 ex_fresh_one = Inr ex_fresh_one
   \<and> sx (force (m_rigid_data ex_fresh_one) 0) = 1 \<and> sy (force (m_rigid_data ex_fresh_one) 0) = 0
   \<and> sz (force (m_rigid_data ex_fresh_one) 0) = 0
   \<and> integrateStepTwo 0 ex_fresh_one = Inr ex_fresh_one_two
   \<and> sx (vel (m_rigid_data ex_fresh) 0) = 9 \<and> sx (force (m_rigid_data ex_fresh) 0) = 9
   \<and> sx (vel (m_rigid_data ex_fresh_one) 0) = 1 / 400
   \<and> orientation (m_rigid_data ex_fresh_one) 0 = orientation (m_rigid_data ex_fresh) 0
   \<and> sx (vel (m_rigid_data ex_fresh_one_two) 0) = 1 / 200"
    using rest_scenario [OF stepOne_fresh_ex b3 b4 b5 b6 _ _ b13 force_fresh_ex b15 stepTwo_fresh_ex]
      stepOne_fresh_ex b1 b3 b4 b5 b6 b7 sums_fresh b13 force_fresh_ex b15 b16 stepTwo_fresh_ex
    by simp
  show ?thesis using later first by blast
qed


text \<open>
  C1 as stated fails: on the example state, which is the scenario of the claim, the
  velocity after \<^verbatim>\<open>integrateStepOne\<close> is \<open>0.0025\<close> and not \<open>0.005\<close>, the centre of mass
  has not advanced by \<open>5e-5\<close>, and with the force aggregated again as \<open>(1, 0, 0)\<close> the
  velocity after \<^verbatim>\<open>integrateStepTwo\<close> is \<open>0.005\<close> and not \<open>0.01\<close>.
\<close>

theorem rest_scenario_counterexample:
  "integrateStepOne 0 ex_state = Inr ex_state_one
   \<and> sx (vel (m_rigid_data ex_state_one) 0) \<noteq> 5 / 1000
   \<and> sx (com (m_rigid_data ex_state_one) 0) \<noteq> sx (com (m_rigid_data ex_state) 0) + 5 / 100000
   \<and> computeForceAndTorque 0 ex_state_one = Inr ex_state_one
   \<and> sx (force (m_rigid_data ex_state_one) 0) = 1
   \<and> integrateStepTwo 0 ex_state_one = Inr ex_state_one_two
   \<and> sx (vel (m_rigid_data ex_state_one_two) 0) \<noteq> 1 / 100"
proof -
  have "sx (vel (m_rigid_data ex_state_one) 0) \<noteq> 5 / 1000"
    "sx (com (m_rigid_data ex_state_one) 0) \<noteq> sx (com (m_rigid_data ex_state) 0) + 5 / 100000"
    "sx (force (m_rigid_data ex_state_one) 0) = 1"
    "sx (vel (m_rigid_data ex_state_one_two) 0) \<noteq> 1 / 100"
    by (simp_all add: ex_state_one_def ex_state_one_two_def ex_defs)
  then show ?thesis using stepOne_ex force_one_ex stepTwo_one_ex by simp
qed

subsection \<open>Angular momentum in setup\<close>

text \<open>
  C8. \<^verbatim>\<open>setup\<close> leaves the angular momentum of every body whose flag
  \<^verbatim>\<open>angmom_init\<close> is set exactly as it was. For a body of the group (each member listed
  once) whose flag is not set, the x, y and z fields of the angular momentum after
  \<^verbatim>\<open>setup\<close> are the sum of \<open>r x (m v)\<close> over its constituent particles, whatever they were
  before. For every body of the group, whatever its flag, the force, the torque and the
  velocity after \<^verbatim>\<open>setup\<close> are the sums of the spec (the velocity divided by the body mass)
  and do not depend on their values before: they are zeroed unconditionally.
\<close>

theorem setup_angmom:
  assumes "setup_nve s = Inr s'"
  shows "(\<forall>b. angmom_init (m_rigid_data s) b \<longrightarrow>
             angmom (m_rigid_data s') b = angmom (m_rigid_data s) b)
       \<and> (\<forall>b. distinct (member_idx (m_body_group s)) \<and> b \<in> set (member_idx (m_body_group s)) \<longrightarrow>
             (\<not> angmom_init (m_rigid_data s) b \<longrightarrow>
                angmom (m_rigid_data s') b
                  = set3v (angmom (m_rigid_data s) b) (angmom_sum (m_pdata s) (m_rigid_data s) b))
           \<and> force (m_rigid_data s') b
                = set3v (force (m_rigid_data s) b) (force_sum (m_pdata s) (m_rigid_data s) b)
           \<and> torque (m_rigid_data s') b
                = set3v (torque (m_rigid_data s) b) (torque_sum (m_pdata s) (m_rigid_data s) b)
           \<and> vel (m_rigid_data s') b =
               set3 (vel (m_rigid_data s) b)
                 (fst (momentum_sum (m_pdata s) (m_rigid_data s) b) / body_mass (m_rigid_data s) b)
                 (fst (snd (momentum_sum (m_pdata s) (m_rigid_data s) b)) / body_mass (m_rigid_data s) b)
                 (snd (snd (momentum_sum (m_pdata s) (m_rigid_data s) b)) / body_mass (m_rigid_data s) b))"
proof (intro conjI allI impI)
  fix b assume "angmom_init (m_rigid_data s) b"
  then show "angmom (m_rigid_data s') b = angmom (m_rigid_data s) b"
    by (rule setup_nve_flagged [OF assms])
next
  fix b
  assume g: "distinct (member_idx (m_body_group s)) \<and> b \<in> set (member_idx (m_body_group s))"
  then have d: "distinct (member_idx (m_body_group s))"
    and m: "b \<in> set (member_idx (m_body_group s))" by simp_all
  note r = setup_nve_dyn [OF assms d m]
  show "force (m_rigid_data s') b
                = set3v (force (m_rigid_data s) b) (force_sum (m_pdata s) (m_rigid_data s) b)"
    by (rule r(2))
  show "torque (m_rigid_data s') b
                = set3v (torque (m_rigid_data s) b) (torque_sum (m_pdata s) (m_rigid_data s) b)"
    by (rule r(3))
  show "vel (m_rigid_data s') b =
               set3 (vel (m_rigid_data s) b)
                 (fst (momentum_sum (m_pdata s) (m_rigid_data s) b) / body_mass (m_rigid_data s) b)
                 (fst (snd (momentum_sum (m_pdata s) (m_rigid_data s) b)) / body_mass (m_rigid_data s) b)
                 (snd (snd (momentum_sum (m_pdata s) (m_rigid_data s) b)) / body_mass (m_rigid_data s) b)"
    by (rule r(1))
  assume "\<not> angmom_init (m_rigid_data s) b"
  then show "angmom (m_rigid_data s') b
                  = set3v (angmom (m_rigid_data s) b) (angmom_sum (m_pdata s) (m_rigid_data s) b)"
    using r(4) by simp
qed

lemma setup_loops_f_ex:
  "setup_velocity 0 (setup_body (m_pdata ex_setup_f) 0 (setup_reset 0 (m_rigid_data ex_setup_f)))
     = ex_setup_f_rd"
  by (simp add: setup_velocity_def setup_body_def setup_particle_def setup_reset_def eval_defs
        ex_setup_f_def ex_setup_def ex_setup_f_rd_def ex_defs)

lemma setup_conjqm_f_ex:
  "snd (setup_conjqm ex_setup_f_rd 0 (zero4, (\<lambda>_. zero4)))
     = (\<lambda>_. zero4)(0 := \<lparr>sx = 0, sy = 14, sz = 14, sw = 14\<rparr>)"
  by (simp add: setup_conjqm_def matrix_dot_def quatvec_def quatquat_def Let_def dot3_def
        ex_setup_f_rd_def ex_defs)

lemma set_v_setup_f_ex:
  "set_v_particle 0 0 (ex_setup_f\<lparr>m_n_bodies := 1, m_rigid_data := ex_setup_f_rd,
       m_conjqm := (\<lambda>_. zero4)(0 := \<lparr>sx = 0, sy = 14, sz = 14, sw = 14\<rparr>)\<rparr>) = ex_setup_f_after"
  by (simp add: set_v_particle_def eval_defs ex_setup_f_def ex_setup_def ex_setup_f_rd_def
        ex_setup_f_after_def ex_defs)

lemma setup_f_ex: "setup_nve ex_setup_f = Inr ex_setup_f_after"
proof -
  have "setup_nve ex_setup_f
        = set_v 0 (ex_setup_f\<lparr>m_n_bodies := 1,
            m_rigid_data := setup_velocity 0 (setup_body (m_pdata ex_setup_f) 0
                               (setup_reset 0 (m_rigid_data ex_setup_f))),
            m_conjqm := snd (setup_conjqm (setup_velocity 0 (setup_body (m_pdata ex_setup_f) 0
                               (setup_reset 0 (m_rigid_data ex_setup_f)))) 0 (zero4, (\<lambda>_. zero4)))\<rparr>)"
    by (simp add: setup_nve_def Let_def loop_bodies_eq getNumMembers_def fun_upd_const
          ex_setup_f_def ex_setup_def ex_state_def)
  also have "\<dots> = set_v 0 (ex_setup_f\<lparr>m_n_bodies := 1, m_rigid_data := ex_setup_f_rd,
       m_conjqm := (\<lambda>_. zero4)(0 := \<lparr>sx = 0, sy = 14, sz = 14, sw = 14\<rparr>)\<rparr>)"
    by (simp only: setup_loops_f_ex setup_conjqm_f_ex)
  also have "\<dots> = Inr (set_v_particle 0 0 (ex_setup_f\<lparr>m_n_bodies := 1, m_rigid_data := ex_setup_f_rd,
       m_conjqm := (\<lambda>_. zero4)(0 := \<lparr>sx = 0, sy = 14, sz = 14, sw = 14\<rparr>)\<rparr>))"
    by (simp add: set_v_def set_v_body_def loop_bodies_eq getNumMembers_def upt_0_1
          ex_setup_f_def ex_setup_def ex_setup_f_rd_def ex_defs)
  finally show ?thesis by (simp only: set_v_setup_f_ex)
qed

theorem setup_angmom_witness:
  "setup_nve ex_setup = Inr ex_setup_after
   \<and> distinct (member_idx (m_body_group ex_setup)) \<and> 0 \<in> set (member_idx (m_body_group ex_setup))
   \<and> \<not> angmom_init (m_rigid_data ex_setup) 0
   \<and> angmom (m_rigid_data ex_setup_after) 0
        = set3v (angmom (m_rigid_data ex_setup) 0)
            (angmom_sum (m_pdata ex_setup) (m_rigid_data ex_setup) 0)
   \<and> setup_nve ex_setup_f = Inr ex_setup_f_after
   \<and> angmom_init (m_rigid_data ex_setup_f) 0
   \<and> angmom (m_rigid_data ex_setup_f_after) 0 = angmom (m_rigid_data ex_setup_f) 0"
proof -
  have h2: "distinct (member_idx (m_body_group ex_setup))"
    "0 \<in> set (member_idx (m_body_group ex_setup))"
    "\<not> angmom_init (m_rigid_data ex_setup) 0"
    "angmom_init (m_rigid_data ex_setup_f) 0"
    by (simp_all add: ex_setup_f_def ex_setup_def ex_state_def)
  show ?thesis
    using setup_angmom [OF setup_ex] setup_angmom [OF setup_f_ex] setup_ex setup_f_ex h2
    by blast
qed

lemma angmom_sum_ex: "angmom_sum (m_pdata ex_setup) (m_rigid_data ex_setup) 0 = (0, 0, 2)"
  by (simp add: angmom_sum_def sum3_def cross3_def particle_r_def particle_p_def pidx_of_def
        localidx_of_def body_to_space_def upt_0_1 ex_setup_def ex_defs)

subsection \<open>The angular velocity rule\<close>

lemma computeAngularVelocity_checked_eq:
  "computeAngularVelocity_checked am inertia ex ey ez av
     = Some (computeAngularVelocity am inertia ex ey ez av)"
  by (simp add: computeAngularVelocity_checked_def computeAngularVelocity_def
        angbody_component_def scalar_div_def angbody_def)

lemma dot3_angvel_from_body:
  assumes "orthonormal ex ey ez"
  shows "dot3 ex (angvel_from_body ex ey ez wx wy wz av) = wx"
    and "dot3 ey (angvel_from_body ex ey ez wx wy wz av) = wy"
    and "dot3 ez (angvel_from_body ex ey ez wx wy wz av) = wz"
proof -
  have o: "dot3 ex ex = 1" "dot3 ey ey = 1" "dot3 ez ez = 1"
    "dot3 ex ey = 0" "dot3 ex ez = 0" "dot3 ey ez = 0"
    using assms by (simp_all add: orthonormal_def)
  have c: "dot3 ey ex = 0" "dot3 ez ex = 0" "dot3 ez ey = 0"
    using o(4-6) by (simp_all add: dot3_def mult.commute)
  have l: "dot3 a (angvel_from_body ex ey ez wx wy wz av)
           = wx * dot3 a ex + wy * dot3 a ey + wz * dot3 a ez" for a
    by (simp add: dot3_def angvel_from_body_def algebra_simps)
  show "dot3 ex (angvel_from_body ex ey ez wx wy wz av) = wx" by (simp add: l o)
  show "dot3 ey (angvel_from_body ex ey ez wx wy wz av) = wy" by (simp add: l o c)
  show "dot3 ez (angvel_from_body ex ey ez wx wy wz av) = wz" by (simp add: l o c)
qed

lemma advanceQuaternion_angvel:
  "advanceQuaternion am inertia av ex ey ez dt q = (av', ex', ey', ez', q')
   \<Longrightarrow> \<exists>av0. av' = computeAngularVelocity am inertia ex' ey' ez' av0"
  by (auto simp: advanceQuaternion_def Let_def case_prod_beta)

lemma integrateStepTwo_angvel:
  assumes "integrateStepTwo t s = Inr s'" and "b \<in> set (visited s)" and "distinct (visited s)"
  shows "angvel (m_rigid_data s') b =
           computeAngularVelocity (angmom (m_rigid_data s') b) (moment_inertia (m_rigid_data s) b)
             (ex_space (m_rigid_data s) b) (ey_space (m_rigid_data s) b)
             (ez_space (m_rigid_data s) b) (angvel (m_rigid_data s) b)"
proof -
  obtain sf where f: "computeForceAndTorque t s = Inr sf"
    and v: "body_view b (m_rigid_data s')
              = body_view b (stepTwo_body (m_deltaT s) b (m_rigid_data sf))"
    using integrateStepTwo_loop [OF assms] by blast
  note k = computeForceAndTorque_keeps [OF f] and e = body_view_eqs [OF v]
  show ?thesis
    by (simp add: e(7,8) stepTwo_body_def Let_def k)
qed

text \<open>
  C4. The rule is modelled from the spec, \<^verbatim>\<open>computeAngularVelocity\<close> and
  \<^verbatim>\<open>advanceQuaternion\<close> being defined outside src/. With every division checked, the rule
  never divides by zero: the checked computation returns the value the integrator uses. A
  zero principal moment makes the body-frame component exactly zero; for an orthonormal
  basis that component is the projection of the resulting angular velocity on the basis
  vector. The rule is what the code under src/ applies: the angular velocity of a visited
  body after \<^verbatim>\<open>integrateStepTwo\<close>, and of a body of the group after \<^verbatim>\<open>setup\<close>, is the rule
  applied to its angular momentum after the call; the angular velocity returned by the
  orientation advance of \<^verbatim>\<open>integrateStepOne\<close> is the rule applied in the returned basis.
\<close>

theorem zero_moment_no_division:
  "computeAngularVelocity_checked am inertia ex ey ez av
     = Some (computeAngularVelocity am inertia ex ey ez av)
   \<and> (sx inertia = 0 \<longrightarrow> angbody_component (dot3 ex am) (sx inertia) = Some 0)
   \<and> (sy inertia = 0 \<longrightarrow> angbody_component (dot3 ey am) (sy inertia) = Some 0)
   \<and> (sz inertia = 0 \<longrightarrow> angbody_component (dot3 ez am) (sz inertia) = Some 0)
   \<and> (orthonormal ex ey ez \<longrightarrow>
         (sx inertia = 0 \<longrightarrow> dot3 ex (computeAngularVelocity am inertia ex ey ez av) = 0)
       \<and> (sy inertia = 0 \<longrightarrow> dot3 ey (computeAngularVelocity am inertia ex ey ez av) = 0)
       \<and> (sz inertia = 0 \<longrightarrow> dot3 ez (computeAngularVelocity am inertia ex ey ez av) = 0))
   \<and> (integrateStepTwo t s = Inr s' \<and> b \<in> set (visited s) \<and> distinct (visited s) \<longrightarrow>
         angvel (m_rigid_data s') b =
           computeAngularVelocity (angmom (m_rigid_data s') b) (moment_inertia (m_rigid_data s) b)
             (ex_space (m_rigid_data s) b) (ey_space (m_rigid_data s) b)
             (ez_space (m_rigid_data s) b) (angvel (m_rigid_data s) b))
   \<and> (setup_nve u = Inr u' \<and> c \<in> set (member_idx (m_body_group u))
        \<and> distinct (member_idx (m_body_group u)) \<longrightarrow>
         angvel (m_rigid_data u') c =
           computeAngularVelocity (angmom (m_rigid_data u') c) (moment_inertia (m_rigid_data u) c)
             (ex_space (m_rigid_data u) c) (ey_space (m_rigid_data u) c)
             (ez_space (m_rigid_data u) c) (angvel (m_rigid_data u) c))
   \<and> (advanceQuaternion am1 inertia1 av1 ex1 ey1 ez1 deltaT q1 = (av2, ex2, ey2, ez2, q2) \<longrightarrow>
         (\<exists>av0. av2 = computeAngularVelocity am1 inertia1 ex2 ey2 ez2 av0))"
proof (intro conjI impI)
  show "computeAngularVelocity_checked am inertia ex ey ez av
          = Some (computeAngularVelocity am inertia ex ey ez av)"
    by (rule computeAngularVelocity_checked_eq)
  show "sx inertia = 0 \<Longrightarrow> angbody_component (dot3 ex am) (sx inertia) = Some 0"
    by (simp add: angbody_component_def)
  show "sy inertia = 0 \<Longrightarrow> angbody_component (dot3 ey am) (sy inertia) = Some 0"
    by (simp add: angbody_component_def)
  show "sz inertia = 0 \<Longrightarrow> angbody_component (dot3 ez am) (sz inertia) = Some 0"
    by (simp add: angbody_component_def)
  show "orthonormal ex ey ez \<Longrightarrow> sx inertia = 0 \<Longrightarrow>
          dot3 ex (computeAngularVelocity am inertia ex ey ez av) = 0"
    by (simp add: computeAngularVelocity_def dot3_angvel_from_body angbody_def)
  show "orthonormal ex ey ez \<Longrightarrow> sy inertia = 0 \<Longrightarrow>
          dot3 ey (computeAngularVelocity am inertia ex ey ez av) = 0"
    by (simp add: computeAngularVelocity_def dot3_angvel_from_body angbody_def)
  show "orthonormal ex ey ez \<Longrightarrow> sz inertia = 0 \<Longrightarrow>
          dot3 ez (computeAngularVelocity am inertia ex ey ez av) = 0"
    by (simp add: computeAngularVelocity_def dot3_angvel_from_body angbody_def)
  show "integrateStepTwo t s = Inr s' \<and> b \<in> set (visited s) \<and> distinct (visited s) \<Longrightarrow>
         angvel (m_rigid_data s') b =
           computeAngularVelocity (angmom (m_rigid_data s') b) (moment_inertia (m_rigid_data s) b)
             (ex_space (m_rigid_data s) b) (ey_space (m_rigid_data s) b)
             (ez_space (m_rigid_data s) b) (angvel (m_rigid_data s) b)"
    using integrateStepTwo_angvel by blast
  show "setup_nve u = Inr u' \<and> c \<in> set (member_idx (m_body_group u))
        \<and> distinct (member_idx (m_body_group u)) \<Longrightarrow>
         angvel (m_rigid_data u') c =
           computeAngularVelocity (angmom (m_rigid_data u') c) (moment_inertia (m_rigid_data u) c)
             (ex_space (m_rigid_data u) c) (ey_space (m_rigid_data u) c)
             (ez_space (m_rigid_data u) c) (angvel (m_rigid_data u) c)"
    using setup_nve_dyn(5) by blast
  show "advanceQuaternion am1 inertia1 av1 ex1 ey1 ez1 deltaT q1 = (av2, ex2, ey2, ez2, q2) \<Longrightarrow>
         \<exists>av0. av2 = computeAngularVelocity am1 inertia1 ex2 ey2 ez2 av0"
    by (rule advanceQuaternion_angvel)
qed

theorem zero_moment_no_division_witness:
  "sx ex_planar = 0 \<and> orthonormal unit_x unit_y unit_z
   \<and> computeAngularVelocity_checked ex_am ex_planar unit_x unit_y unit_z zero4
       = Some (computeAngularVelocity ex_am ex_planar unit_x unit_y unit_z zero4)
   \<and> angbody_component (dot3 unit_x ex_am) (sx ex_planar) = Some 0
   \<and> dot3 unit_x (computeAngularVelocity ex_am ex_planar unit_x unit_y unit_z zero4) = 0
   \<and> integrateStepTwo 0 ex_state = Inr ex_state_two \<and> 0 \<in> set (visited ex_state)
   \<and> distinct (visited ex_state)
   \<and> angvel (m_rigid_data ex_state_two) 0 =
           computeAngularVelocity (angmom (m_rigid_data ex_state_two) 0)
             (moment_inertia (m_rigid_data ex_state) 0)
             (ex_space (m_rigid_data ex_state) 0) (ey_space (m_rigid_data ex_state) 0)
             (ez_space (m_rigid_data ex_state) 0) (angvel (m_rigid_data ex_state) 0)
   \<and> setup_nve ex_setup = Inr ex_setup_after \<and> 0 \<in> set (member_idx (m_body_group ex_setup))
   \<and> distinct (member_idx (m_body_group ex_setup))
   \<and> angvel (m_rigid_data ex_setup_after) 0 =
           computeAngularVelocity (angmom (m_rigid_data ex_setup_after) 0)
             (moment_inertia (m_rigid_data ex_setup) 0)
             (ex_space (m_rigid_data ex_setup) 0) (ey_space (m_rigid_data ex_setup) 0)
             (ez_space (m_rigid_data ex_setup) 0) (angvel (m_rigid_data ex_setup) 0)
   \<and> advanceQuaternion zero4 ex_planar zero4 unit_x unit_y unit_z 1 unit_x
        = (set3 zero4 0 0 0, exFromQuaternion unit_x unit_x, eyFromQuaternion unit_x unit_y,
           ezFromQuaternion unit_x unit_z, unit_x)
   \<and> (\<exists>av0. set3 zero4 0 0 0 =
          computeAngularVelocity zero4 ex_planar (exFromQuaternion unit_x unit_x)
            (eyFromQuaternion unit_x unit_y) (ezFromQuaternion unit_x unit_z) av0)"
proof -
  have a: "sx ex_planar = 0" by (simp add: ex_planar_def)
  have o: "orthonormal unit_x unit_y unit_z"
    by (simp add: orthonormal_def dot3_def unit_x_def unit_y_def unit_z_def)
  have v: "0 \<in> set (visited ex_state)" "distinct (visited ex_state)" by (simp_all add: visited_ex)
  have m: "0 \<in> set (member_idx (m_body_group ex_setup))"
    "distinct (member_idx (m_body_group ex_setup))"
    by (simp_all add: ex_setup_def ex_state_def)
  have q: "advanceQuaternion zero4 ex_planar zero4 unit_x unit_y unit_z 1 unit_x
        = (set3 zero4 0 0 0, exFromQuaternion unit_x unit_x, eyFromQuaternion unit_x unit_y,
           ezFromQuaternion unit_x unit_z, unit_x)"
    by (rule advanceQuaternion_zero3) (simp_all add: zero3_def zero4_def quat_norm_def unit_x_def)
  show ?thesis
    using zero_moment_no_division [where am = ex_am and inertia = ex_planar and ex = unit_x
        and ey = unit_y and ez = unit_z and av = zero4 and t = 0 and s = ex_state
        and s' = ex_state_two and b = 0 and u = ex_setup and u' = ex_setup_after and c = 0
        and ?am1.0 = zero4 and ?inertia1.0 = ex_planar and ?av1.0 = zero4 and ?ex1.0 = unit_x
        and ?ey1.0 = unit_y and ?ez1.0 = unit_z and deltaT = 1 and ?q1.0 = unit_x
        and ?av2.0 = "set3 zero4 0 0 0" and ?ex2.0 = "exFromQuaternion unit_x unit_x"
        and ?ey2.0 = "eyFromQuaternion unit_x unit_y" and ?ez2.0 = "ezFromQuaternion unit_x unit_z"
        and ?q2.0 = unit_x]
      a o v m q stepTwo_ex setup_ex
    by blast
qed

end
